theory Spec2Isabelle
  imports Main "HOL-Library.Word"
begin

unbundle bit_operations_syntax

section \<open>The EHCI root hub (drivers/usb/host/ehci-hub.c)\<close>

text \<open>
  A shallow embedding of the root-hub port logic of the EHCI host-controller driver:
  \<open>ehci_bus_suspend\<close>, \<open>check_reset_complete\<close>, \<open>ehci_hub_status_data\<close>,
  \<open>ehci_hub_descriptor\<close> and \<open>ehci_hub_control\<close>. The driver runs under one
  spinlock, so every entry point is modelled as a sequential function from the state
  before the call to the return value and the state after it.
\<close>

type_synonym u8 = "8 word"
type_synonym u16 = "16 word"
type_synonym u32 = "32 word"
type_synonym ulong = "32 word"

subsection \<open>Register layout and protocol constants\<close>

text \<open>
  Modelled from the spec: the headers that define the bits of the 32-bit
  port-status-and-control register (include/linux/usb/ehci_def.h), the capability
  fields, the hub-class request and feature codes (include/linux/usb/ch11.h) and the
  errno values are not under src/. The spec names the bits (connect, connect-change,
  enable, enable-change, over-current, over-current-change, resume, suspend, reset,
  power, ownership, the three wake enables); the positions below are those of the EHCI
  register layout and of the USB 2.0 hub class.
\<close>

definition PORT_CONNECT :: u32 where "PORT_CONNECT = push_bit 0 1"
definition PORT_CSC :: u32 where "PORT_CSC = push_bit 1 1"
definition PORT_PE :: u32 where "PORT_PE = push_bit 2 1"
definition PORT_PEC :: u32 where "PORT_PEC = push_bit 3 1"
definition PORT_OC :: u32 where "PORT_OC = push_bit 4 1"
definition PORT_OCC :: u32 where "PORT_OCC = push_bit 5 1"
definition PORT_RESUME :: u32 where "PORT_RESUME = push_bit 6 1"
definition PORT_SUSPEND :: u32 where "PORT_SUSPEND = push_bit 7 1"
definition PORT_RESET :: u32 where "PORT_RESET = push_bit 8 1"
definition PORT_LPM :: u32 where "PORT_LPM = push_bit 9 1"
definition PORT_POWER :: u32 where "PORT_POWER = push_bit 12 1"
definition PORT_OWNER :: u32 where "PORT_OWNER = push_bit 13 1"
definition PORT_WKCONN_E :: u32 where "PORT_WKCONN_E = push_bit 20 1"
definition PORT_WKDISC_E :: u32 where "PORT_WKDISC_E = push_bit 21 1"
definition PORT_WKOC_E :: u32 where "PORT_WKOC_E = push_bit 22 1"
definition PORT_DEV_ADDR :: u32 where "PORT_DEV_ADDR = push_bit 25 0x7f"

definition PORT_RWC_BITS :: u32 where
  "PORT_RWC_BITS = PORT_CSC OR PORT_PEC OR PORT_OCC"

definition PORT_WAKE_BITS :: u32 where
  "PORT_WAKE_BITS = PORT_WKOC_E OR PORT_WKDISC_E OR PORT_WKCONN_E"

definition PORT_USB11 :: "u32 \<Rightarrow> bool" where
  "PORT_USB11 x \<longleftrightarrow> x AND push_bit 10 3 = push_bit 10 1"

definition HOSTPC_PHCD :: u32 where "HOSTPC_PHCD = push_bit 22 1"

definition CMD_RUN :: u32 where "CMD_RUN = push_bit 0 1"
definition STS_PCD :: u32 where "STS_PCD = push_bit 2 1"
definition STS_HALT :: u32 where "STS_HALT = push_bit 12 1"
definition INTR_MASK :: u32 where "INTR_MASK = 0x37"
definition DBGP_ENABLED :: u32 where "DBGP_ENABLED = push_bit 28 1"

definition HCS_N_PORTS :: "u32 \<Rightarrow> nat" where
  "HCS_N_PORTS p = unat (p AND 0xf)"

definition HCS_PPC :: "u32 \<Rightarrow> bool" where
  "HCS_PPC p \<longleftrightarrow> p AND push_bit 4 1 \<noteq> 0"

definition HCS_DEBUG_PORT :: "u32 \<Rightarrow> nat" where
  "HCS_DEBUG_PORT p = unat (drop_bit 20 p AND 0xf)"

definition ClearHubFeature :: u16 where "ClearHubFeature = 0x2001"
definition ClearPortFeature :: u16 where "ClearPortFeature = 0x2301"
definition GetHubDescriptor :: u16 where "GetHubDescriptor = 0xa006"
definition GetHubStatus :: u16 where "GetHubStatus = 0xa000"
definition GetPortStatus :: u16 where "GetPortStatus = 0xa300"
definition SetHubFeature :: u16 where "SetHubFeature = 0x2003"
definition SetPortFeature :: u16 where "SetPortFeature = 0x2303"

definition C_HUB_LOCAL_POWER :: u16 where "C_HUB_LOCAL_POWER = 0"
definition C_HUB_OVER_CURRENT :: u16 where "C_HUB_OVER_CURRENT = 1"

definition USB_PORT_FEAT_ENABLE :: u16 where "USB_PORT_FEAT_ENABLE = 1"
definition USB_PORT_FEAT_SUSPEND :: u16 where "USB_PORT_FEAT_SUSPEND = 2"
definition USB_PORT_FEAT_RESET :: u16 where "USB_PORT_FEAT_RESET = 4"
definition USB_PORT_FEAT_POWER :: u16 where "USB_PORT_FEAT_POWER = 8"
definition USB_PORT_FEAT_C_CONNECTION :: u16 where "USB_PORT_FEAT_C_CONNECTION = 16"
definition USB_PORT_FEAT_C_ENABLE :: u16 where "USB_PORT_FEAT_C_ENABLE = 17"
definition USB_PORT_FEAT_C_SUSPEND :: u16 where "USB_PORT_FEAT_C_SUSPEND = 18"
definition USB_PORT_FEAT_C_OVER_CURRENT :: u16 where "USB_PORT_FEAT_C_OVER_CURRENT = 19"
definition USB_PORT_FEAT_C_RESET :: u16 where "USB_PORT_FEAT_C_RESET = 20"
definition USB_PORT_FEAT_TEST :: u16 where "USB_PORT_FEAT_TEST = 21"

definition USB_PORT_STAT_CONNECTION :: u32 where "USB_PORT_STAT_CONNECTION = 0x0001"
definition USB_PORT_STAT_ENABLE :: u32 where "USB_PORT_STAT_ENABLE = 0x0002"
definition USB_PORT_STAT_SUSPEND :: u32 where "USB_PORT_STAT_SUSPEND = 0x0004"
definition USB_PORT_STAT_OVERCURRENT :: u32 where "USB_PORT_STAT_OVERCURRENT = 0x0008"
definition USB_PORT_STAT_RESET :: u32 where "USB_PORT_STAT_RESET = 0x0010"
definition USB_PORT_STAT_POWER :: u32 where "USB_PORT_STAT_POWER = 0x0100"
definition USB_PORT_STAT_LOW_SPEED :: u32 where "USB_PORT_STAT_LOW_SPEED = 0x0200"
definition USB_PORT_STAT_HIGH_SPEED :: u32 where "USB_PORT_STAT_HIGH_SPEED = 0x0400"

definition USB_PORT_STAT_C_CONNECTION :: u32 where "USB_PORT_STAT_C_CONNECTION = 0x0001"
definition USB_PORT_STAT_C_ENABLE :: u32 where "USB_PORT_STAT_C_ENABLE = 0x0002"
definition USB_PORT_STAT_C_SUSPEND :: u32 where "USB_PORT_STAT_C_SUSPEND = 0x0004"
definition USB_PORT_STAT_C_OVERCURRENT :: u32 where "USB_PORT_STAT_C_OVERCURRENT = 0x0008"
definition USB_PORT_STAT_C_RESET :: u32 where "USB_PORT_STAT_C_RESET = 0x0010"

definition EHSET_TEST_SINGLE_STEP_SET_FEATURE :: nat where
  "EHSET_TEST_SINGLE_STEP_SET_FEATURE = 6"

definition EBUSY :: int where "EBUSY = 16"
definition ENODEV :: int where "ENODEV = 19"
definition EPIPE :: int where "EPIPE = 32"

text \<open>
  Modelled from the spec: the bit operations on the tracker's bitmaps and the jiffies
  comparisons (include/linux/bitops.h, include/linux/jiffies.h) are not under src/.
  The bitmaps are one \<open>unsigned long\<close> each, 32 bits on this ARM target;
  \<open>set_bit\<close> is the library's function of that name. The time comparisons are the
  wrap-safe signed differences. The spec counts its deadlines ("20 time-unit deadline",
  "50-time-unit", "25 time-units") in milliseconds, so the clock \<open>jiffies\<close> ticks
  once per millisecond and \<open>msecs_to_jiffies\<close> is the identity.
\<close>

definition test_bit :: "nat \<Rightarrow> ulong \<Rightarrow> bool" where
  "test_bit nr w \<longleftrightarrow> bit w nr"

definition clear_bit :: "nat \<Rightarrow> ulong \<Rightarrow> ulong" where
  "clear_bit nr w = unset_bit nr w"

definition time_after_eq :: "ulong \<Rightarrow> ulong \<Rightarrow> bool" where
  "time_after_eq a b \<longleftrightarrow> 0 \<le> sint (a - b)"

definition time_before :: "ulong \<Rightarrow> ulong \<Rightarrow> bool" where
  "time_before a b \<longleftrightarrow> sint (a - b) < 0"

definition msecs_to_jiffies :: "nat \<Rightarrow> ulong" where
  "msecs_to_jiffies m = of_nat m"

subsection \<open>The controller state\<close>

datatype ehci_rh_state = EHCI_RH_HALTED | EHCI_RH_SUSPENDED | EHCI_RH_RUNNING

datatype reg = PORTSC nat | HOSTPC nat | USBCMD | USBSTS | USBINTR

text \<open>
  The fields of \<open>struct ehci_hcd\<close> and \<open>struct usb_hcd\<close> that the hub code only
  reads: capability data, quirk flags, the module parameter \<open>ignore_oc\<close>, the
  root hub's \<open>do_remote_wakeup\<close>, the OTG settings, the debug port (\<open>None\<close> for a
  null \<open>ehci->debug\<close>, otherwise the contents of its control register), and the two
  build options that guard code in these functions.
\<close>

record ehci_cfg =
  hcs_params :: u32
  companion_ports :: ulong
  has_hostpc :: bool
  has_ppcd :: bool
  has_lpm :: bool
  has_tt :: bool
  has_amcc_usb23 :: bool
  no_selective_suspend :: bool
  susp_sof_bug :: bool
  reset_sof_bug :: bool
  ignore_oc :: bool
  do_remote_wakeup :: bool
  debug :: "u32 option"
  otg_port :: nat
  b_hnp_enable :: bool
  enable_ulpi_control :: bool
  CONFIG_USB_OTG :: bool
  CONFIG_USB_EHCI_EHSET :: bool

text \<open>
  The scheduling side of the controller, which the hub code touches only through
  helpers that are not under src/ (\<open>ehci_halt\<close>, \<open>ehci_quiesce\<close>, \<open>ehci_work\<close>,
  \<open>end_unlink_async\<close>, \<open>set_ohci_hcfs\<close>) and through the three global registers.
\<close>

record ehci_sched =
  usbcmd :: u32
  usbsts :: u32
  usbintr :: u32
  command :: u32
  reclaim :: bool
  watchdog :: bool
  iaa_watchdog :: bool
  queues :: nat

text \<open>
  The mutable state: the port registers, the Port State Tracker (five bitmaps and the
  per-port deadline \<open>reset_done\<close>, 0 for "none"), the root-hub state, the polling timer
  \<open>rh_timer\<close> (its expiry, when armed), the clock, and two observation fields:
  \<open>writes\<close>, the register writes the driver has issued, oldest first, and
  \<open>hnp_started\<close>, the number of calls of \<open>otg_start_hnp\<close>.
\<close>

record ehci_hcd =
  port_status :: "nat \<Rightarrow> u32"
  hostpc :: "nat \<Rightarrow> u32"
  sched :: ehci_sched
  owned_ports :: ulong
  bus_suspended :: ulong
  suspended_ports :: ulong
  resuming_ports :: ulong
  port_c_suspend :: ulong
  reset_done :: "nat \<Rightarrow> ulong"
  rh_state :: ehci_rh_state
  next_statechange :: ulong
  last_susp_resume :: ulong
  rh_timer :: "ulong option"
  jiffies :: ulong
  writes :: "(reg \<times> u32) list"
  hnp_started :: nat

text \<open>
  The external collaborators (spec, section 6): how a register reacts to a write
  (\<open>hw_write r old v\<close> is the new contents of \<open>r\<close>), the busy-wait primitive
  \<open>handshake\<close> (\<open>hw_handshake r old msk done usec\<close> is its return value, 0 for
  success, and the contents of \<open>r\<close> afterwards), the helpers of the scheduling side,
  and the opaque EHSET diagnostic. Every theorem holds for all of them.
\<close>

record ext =
  hw_write :: "reg \<Rightarrow> u32 \<Rightarrow> u32 \<Rightarrow> u32"
  hw_handshake :: "reg \<Rightarrow> u32 \<Rightarrow> u32 \<Rightarrow> u32 \<Rightarrow> nat \<Rightarrow> int \<times> u32"
  x_ehci_halt :: "ehci_sched \<Rightarrow> ehci_sched"
  x_ehci_quiesce :: "ehci_sched \<Rightarrow> ehci_sched"
  x_ehci_work :: "ehci_sched \<Rightarrow> ehci_sched"
  x_end_unlink_async :: "ehci_sched \<Rightarrow> ehci_sched"
  x_set_ohci_hcfs :: "bool \<Rightarrow> ehci_sched \<Rightarrow> ehci_sched"
  x_ehset_single_step_set_feature :: "nat \<Rightarrow> int"

subsection \<open>Register access and the other primitives\<close>

definition ehci_readl :: "ehci_hcd \<Rightarrow> reg \<Rightarrow> u32" where
  "ehci_readl s r =
     (case r of
        PORTSC i \<Rightarrow> port_status s i
      | HOSTPC i \<Rightarrow> hostpc s i
      | USBCMD \<Rightarrow> usbcmd (sched s)
      | USBSTS \<Rightarrow> usbsts (sched s)
      | USBINTR \<Rightarrow> usbintr (sched s))"

definition reg_store :: "reg \<Rightarrow> u32 \<Rightarrow> ehci_hcd \<Rightarrow> ehci_hcd" where
  "reg_store r v s =
     (case r of
        PORTSC i \<Rightarrow> s\<lparr>port_status := (port_status s)(i := v)\<rparr>
      | HOSTPC i \<Rightarrow> s\<lparr>hostpc := (hostpc s)(i := v)\<rparr>
      | USBCMD \<Rightarrow> s\<lparr>sched := (sched s)\<lparr>usbcmd := v\<rparr>\<rparr>
      | USBSTS \<Rightarrow> s\<lparr>sched := (sched s)\<lparr>usbsts := v\<rparr>\<rparr>
      | USBINTR \<Rightarrow> s\<lparr>sched := (sched s)\<lparr>usbintr := v\<rparr>\<rparr>)"

definition ehci_writel :: "ext \<Rightarrow> u32 \<Rightarrow> reg \<Rightarrow> ehci_hcd \<Rightarrow> ehci_hcd" where
  "ehci_writel x v r s =
     (reg_store r (hw_write x r (ehci_readl s r) v) s)\<lparr>writes := writes s @ [(r, v)]\<rparr>"

definition handshake :: "ext \<Rightarrow> reg \<Rightarrow> u32 \<Rightarrow> u32 \<Rightarrow> nat \<Rightarrow> ehci_hcd \<Rightarrow> int \<times> ehci_hcd" where
  "handshake x r msk done usec s =
     (let (rv, v) = hw_handshake x r (ehci_readl s r) msk done usec
      in (rv, reg_store r v s))"

definition msleep :: "nat \<Rightarrow> ehci_hcd \<Rightarrow> ehci_hcd" where
  "msleep ms s = s\<lparr>jiffies := jiffies s + msecs_to_jiffies ms\<rparr>"

definition on_sched :: "(ehci_sched \<Rightarrow> ehci_sched) \<Rightarrow> ehci_hcd \<Rightarrow> ehci_hcd" where
  "on_sched f s = s\<lparr>sched := f (sched s)\<rparr>"

definition ehci_is_TDI :: "ehci_cfg \<Rightarrow> bool" where
  "ehci_is_TDI c \<longleftrightarrow> has_tt c"

text \<open>
  Modelled from the spec: \<open>ehci_port_speed\<close> (drivers/usb/host/ehci.h) is not under
  src/. It yields the speed bits of the status word: high speed, unless the controller
  has an internal transaction translator, whose port register carries the speed in two
  bits (at 25 with the HOSTPC extension, else at 26).
\<close>

definition ehci_port_speed :: "ehci_cfg \<Rightarrow> u32 \<Rightarrow> u32" where
  "ehci_port_speed c portsc =
     (if ehci_is_TDI c then
        (let f = drop_bit (if has_hostpc c then 25 else 26) portsc AND 3
         in if f = 0 then 0
            else if f = 1 then USB_PORT_STAT_LOW_SPEED
            else USB_PORT_STAT_HIGH_SPEED)
      else USB_PORT_STAT_HIGH_SPEED)"

subsection \<open>ehci_bus_suspend\<close>

text \<open>
  The loop \<open>while (port--)\<close> over the ports, from the highest index down; the second
  component is the local \<open>changed\<close>.
\<close>

definition bus_suspend_port :: "ext \<Rightarrow> ehci_cfg \<Rightarrow> nat \<Rightarrow> bool \<times> ehci_hcd \<Rightarrow> bool \<times> ehci_hcd" where
  "bus_suspend_port x c port cs =
     (let (changed, s) = cs;
          t1 = ehci_readl s (PORTSC port) AND NOT PORT_RWC_BITS;
          t2 = t1 AND NOT PORT_WAKE_BITS;
          (t2, s) =
            (if t1 AND PORT_OWNER \<noteq> 0 then
               (t2, s\<lparr>owned_ports := set_bit port (owned_ports s)\<rparr>)
             else if t1 AND PORT_PE \<noteq> 0 \<and> \<not> (t1 AND PORT_SUSPEND \<noteq> 0) then
               (let s = (if susp_sof_bug c then on_sched (x_ehci_halt x) s else s)
                in (t2 OR PORT_SUSPEND, s\<lparr>bus_suspended := set_bit port (bus_suspended s)\<rparr>))
             else (t2, s));
          t2 = (if do_remote_wakeup c then
                  (if t1 AND PORT_CONNECT \<noteq> 0 then t2 OR PORT_WKOC_E OR PORT_WKDISC_E
                   else t2 OR PORT_WKOC_E OR PORT_WKCONN_E)
                else t2)
      in if t1 \<noteq> t2 then (True, ehci_writel x t2 (PORTSC port) s) else (changed, s))"

fun bus_suspend_ports :: "ext \<Rightarrow> ehci_cfg \<Rightarrow> nat \<Rightarrow> bool \<times> ehci_hcd \<Rightarrow> bool \<times> ehci_hcd" where
  "bus_suspend_ports x c 0 cs = cs"
| "bus_suspend_ports x c (Suc port) cs = bus_suspend_ports x c port (bus_suspend_port x c port cs)"

fun bus_suspend_hostpc :: "ext \<Rightarrow> nat \<Rightarrow> ehci_hcd \<Rightarrow> ehci_hcd" where
  "bus_suspend_hostpc x 0 s = s"
| "bus_suspend_hostpc x (Suc port) s =
     (let t3 = ehci_readl s (HOSTPC port);
          s = ehci_writel x (t3 OR HOSTPC_PHCD) (HOSTPC port) s
      in bus_suspend_hostpc x port s)"

text \<open>
  The function in three parts: "stop schedules, clean any completed work" before the
  port loop; the port loop; and everything after it, from the low-power handshake of
  the HOSTPC registers to the final \<open>del_timer_sync\<close>. The \<open>udelay(150)\<close> after
  the loops changes nothing in this model.
\<close>

definition bus_suspend_quiesce :: "ext \<Rightarrow> ehci_hcd \<Rightarrow> ehci_hcd" where
  "bus_suspend_quiesce x s =
     (let s = (if rh_state s = EHCI_RH_RUNNING then on_sched (x_ehci_quiesce x) s else s);
          s = on_sched (\<lambda>q. q\<lparr>command := usbcmd q\<rparr>) s
      in on_sched (x_ehci_work x) s)"

definition bus_suspend_finish :: "ext \<Rightarrow> ehci_cfg \<Rightarrow> bool \<times> ehci_hcd \<Rightarrow> ehci_hcd" where
  "bus_suspend_finish x c cs =
     (let (changed, s) = cs;
          s = (if changed \<and> has_hostpc c
               then bus_suspend_hostpc x (HCS_N_PORTS (hcs_params c)) (msleep 5 s)
               else s);
          s = (if \<not> susp_sof_bug c then on_sched (x_ehci_halt x) s else s);
          s = s\<lparr>rh_state := EHCI_RH_SUSPENDED\<rparr>;
          s = (if reclaim (sched s) then on_sched (x_end_unlink_async x) s else s);
          msk = (if \<not> do_remote_wakeup c then INTR_MASK AND NOT STS_PCD else INTR_MASK);
          s = ehci_writel x msk USBINTR s;
          s = s\<lparr>next_statechange := jiffies s + msecs_to_jiffies 10,
                 last_susp_resume := jiffies s\<rparr>
      in on_sched (\<lambda>q. q\<lparr>watchdog := False\<rparr>) s)"

definition ehci_bus_suspend :: "ext \<Rightarrow> ehci_cfg \<Rightarrow> ehci_hcd \<Rightarrow> int \<times> ehci_hcd" where
  "ehci_bus_suspend x c s0 =
     (let s = (if time_before (jiffies s0) (next_statechange s0) then msleep 5 s0 else s0);
          s = on_sched (\<lambda>q. q\<lparr>watchdog := False, iaa_watchdog := False\<rparr>) s
      in if do_remote_wakeup c \<and> resuming_ports s \<noteq> 0 then (- EBUSY, s)
         else
          (let s = bus_suspend_quiesce x s;
               s = s\<lparr>bus_suspended := 0, owned_ports := 0\<rparr>;
               cs = bus_suspend_ports x c (HCS_N_PORTS (hcs_params c)) (False, s)
           in (0, bus_suspend_finish x c cs)))"

subsection \<open>check_reset_complete\<close>

definition check_reset_complete :: "ext \<Rightarrow> ehci_cfg \<Rightarrow> nat \<Rightarrow> u32 \<Rightarrow> ehci_hcd \<Rightarrow> u32 \<times> ehci_hcd" where
  "check_reset_complete x c index portsc s =
     (if \<not> (portsc AND PORT_CONNECT \<noteq> 0) then (portsc, s)
      else if \<not> (portsc AND PORT_PE \<noteq> 0) then
        (if ehci_is_TDI c then (portsc, s)
         else
          (let portsc = portsc OR PORT_OWNER;
               portsc = portsc AND NOT PORT_RWC_BITS;
               s = ehci_writel x portsc (PORTSC index) s;
               s = (if has_amcc_usb23 c then on_sched (x_set_ohci_hcfs x True) s else s)
           in (portsc, s)))
      else (portsc, if has_amcc_usb23 c then on_sched (x_set_ohci_hcfs x False) s else s))"

subsection \<open>ehci_hub_status_data\<close>

text \<open>
  The condition under which the loop reports port \<open>i\<close>, then the body of the loop
  \<open>for (i = 0; i < ports; i++)\<close>; the accumulator holds \<open>buf[0]\<close>, \<open>buf[1]\<close>
  and the local \<open>status\<close>.
\<close>

definition port_change_pending :: "ehci_hcd \<Rightarrow> u32 \<Rightarrow> nat \<Rightarrow> bool" where
  "port_change_pending s msk i \<longleftrightarrow>
     (let temp = ehci_readl s (PORTSC i)
      in temp AND msk \<noteq> 0 \<or> test_bit i (port_c_suspend s)
         \<or> (reset_done s i \<noteq> 0 \<and> time_after_eq (jiffies s) (reset_done s i)))"

definition hub_status_port ::
  "ehci_cfg \<Rightarrow> ehci_hcd \<Rightarrow> u32 \<Rightarrow> u32 \<Rightarrow> nat \<Rightarrow> u8 \<times> u8 \<times> u32 \<Rightarrow> u8 \<times> u8 \<times> u32" where
  "hub_status_port c s msk ppcd i acc =
     (let (buf0, buf1, status) = acc
      in if has_ppcd c \<and> \<not> (ppcd AND push_bit i 1 \<noteq> 0) then acc
         else
          (if port_change_pending s msk i
           then (if i < 7 then (buf0 OR push_bit (i + 1) 1, buf1, STS_PCD)
                 else (buf0, buf1 OR push_bit (i - 7) 1, STS_PCD))
           else acc))"

text \<open>The change mask, which leaves out over-current changes when \<open>ignore_oc\<close> is
  set, and the per-port change-detect bits, read from the status register.\<close>

definition hub_status_mask :: "ehci_cfg \<Rightarrow> u32" where
  "hub_status_mask c =
     (if \<not> ignore_oc c then PORT_CSC OR PORT_PEC OR PORT_OCC else PORT_CSC OR PORT_PEC)"

definition hub_status_ppcd :: "ehci_cfg \<Rightarrow> ehci_hcd \<Rightarrow> u32" where
  "hub_status_ppcd c s = (if has_ppcd c then drop_bit 16 (ehci_readl s USBSTS) else 0)"

definition ehci_hub_status_data :: "ehci_cfg \<Rightarrow> u8 \<times> u8 \<Rightarrow> ehci_hcd \<Rightarrow> int \<times> (u8 \<times> u8) \<times> ehci_hcd" where
  "ehci_hub_status_data c buf s =
     (if rh_state s \<noteq> EHCI_RH_RUNNING then (0, buf, s)
      else
       (let ports = HCS_N_PORTS (hcs_params c);
            (buf0, buf1, retval) = (if ports > 7 then (0, 0, 2) else (0, snd buf, 1));
            status = resuming_ports s;
            msk = hub_status_mask c;
            ppcd = hub_status_ppcd c s;
            (buf0, buf1, status) = fold (hub_status_port c s msk ppcd) [0..<ports] (buf0, buf1, status);
            s = (if resuming_ports s \<noteq> 0
                 then s\<lparr>rh_timer := Some (jiffies s + msecs_to_jiffies 25)\<rparr> else s)
        in (if status \<noteq> 0 then retval else 0, (buf0, buf1), s)))"

text \<open>
  Port \<open>i\<close> is reported by a call: the loop reaches it (it exists and, with per-port
  change detection, its change-detect bit is set) and its test succeeds.
\<close>

definition hub_status_reports :: "ehci_cfg \<Rightarrow> ehci_hcd \<Rightarrow> nat \<Rightarrow> bool" where
  "hub_status_reports c s i \<longleftrightarrow>
     i < HCS_N_PORTS (hcs_params c)
     \<and> (has_ppcd c \<longrightarrow> hub_status_ppcd c s AND push_bit i 1 \<noteq> 0)
     \<and> port_change_pending s (hub_status_mask c) i"

subsection \<open>ehci_hub_descriptor\<close>

record usb_hub_descriptor =
  bDescLength :: nat
  bDescriptorType :: u8
  bNbrPorts :: nat
  wHubCharacteristics :: u16
  bPwrOn2PwrGood :: nat
  bHubContrCurrent :: nat
  DeviceRemovable :: "u8 list"

definition ehci_hub_descriptor :: "ehci_cfg \<Rightarrow> usb_hub_descriptor" where
  "ehci_hub_descriptor c =
     (let ports = HCS_N_PORTS (hcs_params c);
          temp = 1 + ports div 8
      in \<lparr> bDescLength = 7 + 2 * temp,
           bDescriptorType = 0x29,
           bNbrPorts = ports,
           wHubCharacteristics = (if HCS_PPC (hcs_params c) then 0x0008 OR 0x0001 else 0x0008 OR 0x0002),
           bPwrOn2PwrGood = 10,
           bHubContrCurrent = 0,
           DeviceRemovable = replicate temp 0 @ replicate temp 0xff \<rparr>)"

subsection \<open>ehci_hub_control\<close>

text \<open>
  What the request leaves in the caller's buffer: nothing, the hub descriptor, the four
  zero bytes of GetHubStatus, or the little-endian 32-bit status-and-change word of
  GetPortStatus.
\<close>

datatype hub_reply = NoReply | HubDescriptor usb_hub_descriptor | HubStatus u32 | PortStatus u32

text \<open>
  ClearPortFeature, after the range check; \<open>wIndex\<close> is the decremented, zero-based
  port. The flag of the result is false where the source jumps to \<open>error\<close>.
\<close>

definition clear_port_feature :: "ext \<Rightarrow> ehci_cfg \<Rightarrow> u16 \<Rightarrow> nat \<Rightarrow> ehci_hcd \<Rightarrow> bool \<times> ehci_hcd" where
  "clear_port_feature x c wValue wIndex s =
     (let status_reg = PORTSC wIndex;
          temp = ehci_readl s status_reg
      in if wValue = USB_PORT_FEAT_ENABLE then
           (True, ehci_writel x (temp AND NOT PORT_PE) status_reg s)
         else if wValue = USB_PORT_FEAT_C_ENABLE then
           (True, ehci_writel x ((temp AND NOT PORT_RWC_BITS) OR PORT_PEC) status_reg s)
         else if wValue = USB_PORT_FEAT_SUSPEND then
           (if temp AND PORT_RESET \<noteq> 0 then (False, s)
            else if no_selective_suspend c then (True, s)
            else if CONFIG_USB_OTG c \<and> otg_port c = wIndex + 1 \<and> b_hnp_enable c then
              (True, s\<lparr>hnp_started := hnp_started s + 1\<rparr>)
            else if \<not> (temp AND PORT_SUSPEND \<noteq> 0) then (True, s)
            else if temp AND PORT_PE = 0 then (False, s)
            else
             (let s = (if has_hostpc c then
                         (let temp1 = ehci_readl s (HOSTPC wIndex);
                              s = ehci_writel x (temp1 AND NOT HOSTPC_PHCD) (HOSTPC wIndex) s
                          in msleep 5 s)
                       else s);
                  temp = temp AND NOT (PORT_RWC_BITS OR PORT_WAKE_BITS);
                  s = ehci_writel x (temp OR PORT_RESUME) status_reg s;
                  s = s\<lparr>reset_done := (reset_done s)(wIndex := jiffies s + msecs_to_jiffies 20)\<rparr>
              in (True, s)))
         else if wValue = USB_PORT_FEAT_C_SUSPEND then
           (True, s\<lparr>port_c_suspend := clear_bit wIndex (port_c_suspend s)\<rparr>)
         else if wValue = USB_PORT_FEAT_POWER then
           (True, if HCS_PPC (hcs_params c)
                  then ehci_writel x (temp AND NOT (PORT_RWC_BITS OR PORT_POWER)) status_reg s
                  else s)
         else if wValue = USB_PORT_FEAT_C_CONNECTION then
           (let temp = (if has_lpm c then (temp AND NOT PORT_LPM) AND NOT PORT_DEV_ADDR else temp)
            in (True, ehci_writel x ((temp AND NOT PORT_RWC_BITS) OR PORT_CSC) status_reg s))
         else if wValue = USB_PORT_FEAT_C_OVER_CURRENT then
           (True, ehci_writel x ((temp AND NOT PORT_RWC_BITS) OR PORT_OCC) status_reg s)
         else if wValue = USB_PORT_FEAT_C_RESET then (True, s)
         else (False, s))"

text \<open>
  GetPortStatus, after the range check, block by block in the order of the source. Each
  block takes the locals \<open>temp\<close> and \<open>status\<close> it reads and returns the ones it
  assigns. First the change bits and the over-current power-off.
\<close>

definition get_port_status_oc :: "ext \<Rightarrow> ehci_cfg \<Rightarrow> nat \<Rightarrow> ehci_hcd \<Rightarrow> u32 \<times> u32 \<times> ehci_hcd" where
  "get_port_status_oc x c wIndex s =
     (let status_reg = PORTSC wIndex;
          status = 0;
          temp = ehci_readl s status_reg;
          status = (if temp AND PORT_CSC \<noteq> 0
                    then status OR push_bit 16 USB_PORT_STAT_C_CONNECTION else status);
          status = (if temp AND PORT_PEC \<noteq> 0
                    then status OR push_bit 16 USB_PORT_STAT_C_ENABLE else status)
      in if temp AND PORT_OCC \<noteq> 0 \<and> \<not> ignore_oc c then
           (let status = status OR push_bit 16 USB_PORT_STAT_C_OVERCURRENT
            in if temp AND PORT_OC \<noteq> 0 \<and> HCS_PPC (hcs_params c) then
                 (let s = ehci_writel x (temp AND NOT (PORT_RWC_BITS OR PORT_POWER)) status_reg s
                  in (ehci_readl s status_reg, status, s))
               else (temp, status, s))
         else (temp, status, s))"

text \<open>"whoever resumes must GetPortStatus to complete it": the result is \<open>retval\<close>,
  \<open>temp\<close> and the state.\<close>

definition get_port_status_resume :: "ext \<Rightarrow> nat \<Rightarrow> u32 \<Rightarrow> ehci_hcd \<Rightarrow> int \<times> u32 \<times> ehci_hcd" where
  "get_port_status_resume x wIndex temp s =
     (let status_reg = PORTSC wIndex
      in if temp AND PORT_RESUME \<noteq> 0 then
           (if reset_done s wIndex = 0 then
              (let s = s\<lparr>reset_done := (reset_done s)(wIndex := jiffies s + msecs_to_jiffies 20)\<rparr>;
                   s = s\<lparr>rh_timer := Some (reset_done s wIndex)\<rparr>
               in (0, temp, s))
            else if time_after_eq (jiffies s) (reset_done s wIndex) then
              (let s = s\<lparr>suspended_ports := clear_bit wIndex (suspended_ports s)\<rparr>;
                   s = s\<lparr>port_c_suspend := set_bit wIndex (port_c_suspend s)\<rparr>;
                   s = s\<lparr>reset_done := (reset_done s)(wIndex := 0)\<rparr>;
                   temp = ehci_readl s status_reg;
                   s = ehci_writel x (temp AND NOT (PORT_RWC_BITS OR PORT_RESUME)) status_reg s;
                   s = s\<lparr>resuming_ports := clear_bit wIndex (resuming_ports s)\<rparr>;
                   (retval, s) = handshake x status_reg PORT_RESUME 0 2000 s
               in if retval \<noteq> 0 then (retval, temp, s)
                  else (0, temp AND NOT (PORT_SUSPEND OR PORT_RESUME OR push_bit 10 3), s))
            else (0, temp, s))
         else (0, temp, s))"

text \<open>"whoever resets must GetPortStatus to complete it": the result is \<open>retval\<close>,
  \<open>temp\<close>, \<open>status\<close> and the state.\<close>

definition get_port_status_reset ::
  "ext \<Rightarrow> ehci_cfg \<Rightarrow> nat \<Rightarrow> u32 \<Rightarrow> u32 \<Rightarrow> ehci_hcd \<Rightarrow> int \<times> u32 \<times> u32 \<times> ehci_hcd" where
  "get_port_status_reset x c wIndex temp status s =
     (let status_reg = PORTSC wIndex
      in if temp AND PORT_RESET \<noteq> 0 \<and> time_after_eq (jiffies s) (reset_done s wIndex) then
           (let status = status OR push_bit 16 USB_PORT_STAT_C_RESET;
                s = s\<lparr>reset_done := (reset_done s)(wIndex := 0)\<rparr>;
                s = s\<lparr>resuming_ports := clear_bit wIndex (resuming_ports s)\<rparr>;
                s = ehci_writel x (temp AND NOT (PORT_RWC_BITS OR PORT_RESET)) status_reg s;
                (retval, s) = handshake x status_reg PORT_RESET 0 1000 s
            in if retval \<noteq> 0 then (retval, temp, status, s)
               else
                (let (temp, s) = check_reset_complete x c wIndex (ehci_readl s status_reg) s
                 in (0, temp, status, s)))
         else (0, temp, status, s))"

text \<open>The stale-deadline cleanup and the transfer of a dedicated port to the companion.\<close>

definition get_port_status_idle :: "nat \<Rightarrow> u32 \<Rightarrow> ehci_hcd \<Rightarrow> ehci_hcd" where
  "get_port_status_idle wIndex temp s =
     (if \<not> (temp AND (PORT_RESUME OR PORT_RESET) \<noteq> 0) then
        (let s = s\<lparr>reset_done := (reset_done s)(wIndex := 0)\<rparr>
         in s\<lparr>resuming_ports := clear_bit wIndex (resuming_ports s)\<rparr>)
      else s)"

definition get_port_status_companion :: "ext \<Rightarrow> ehci_cfg \<Rightarrow> nat \<Rightarrow> u32 \<Rightarrow> ehci_hcd \<Rightarrow> u32 \<times> ehci_hcd" where
  "get_port_status_companion x c wIndex temp s =
     (let status_reg = PORTSC wIndex
      in if temp AND PORT_CONNECT \<noteq> 0 \<and> test_bit wIndex (companion_ports c) then
           (let temp = temp AND NOT PORT_RWC_BITS;
                temp = temp OR PORT_OWNER;
                s = ehci_writel x temp status_reg s
            in (ehci_readl s status_reg, s))
         else (temp, s))"

text \<open>The status word, composed from the final \<open>temp\<close>; the result is \<open>status\<close> and
  the state.\<close>

definition get_port_status_compose ::
  "ehci_cfg \<Rightarrow> nat \<Rightarrow> u32 \<Rightarrow> u32 \<Rightarrow> ehci_hcd \<Rightarrow> u32 \<times> ehci_hcd" where
  "get_port_status_compose c wIndex temp status s =
     (let status =
            (if temp AND PORT_CONNECT \<noteq> 0 then
               (let status = status OR USB_PORT_STAT_CONNECTION
                in if has_hostpc c
                   then status OR ehci_port_speed c (ehci_readl s (HOSTPC wIndex))
                   else status OR ehci_port_speed c temp)
             else status);
          status = (if temp AND PORT_PE \<noteq> 0 then status OR USB_PORT_STAT_ENABLE else status);
          (status, s) =
            (if temp AND (PORT_SUSPEND OR PORT_RESUME) \<noteq> 0 then
               (status OR USB_PORT_STAT_SUSPEND, s)
             else if test_bit wIndex (suspended_ports s) then
               (let s = s\<lparr>suspended_ports := clear_bit wIndex (suspended_ports s)\<rparr>;
                    s = s\<lparr>resuming_ports := clear_bit wIndex (resuming_ports s)\<rparr>;
                    s = s\<lparr>reset_done := (reset_done s)(wIndex := 0)\<rparr>;
                    s = (if temp AND PORT_PE \<noteq> 0
                         then s\<lparr>port_c_suspend := set_bit wIndex (port_c_suspend s)\<rparr> else s)
                in (status, s))
             else (status, s));
          status = (if temp AND PORT_OC \<noteq> 0 then status OR USB_PORT_STAT_OVERCURRENT else status);
          status = (if temp AND PORT_RESET \<noteq> 0 then status OR USB_PORT_STAT_RESET else status);
          status = (if temp AND PORT_POWER \<noteq> 0 then status OR USB_PORT_STAT_POWER else status);
          status = (if test_bit wIndex (port_c_suspend s)
                    then status OR push_bit 16 USB_PORT_STAT_C_SUSPEND else status)
      in (status, s))"

text \<open>
  The blocks that resolve pending transitions (spec 4.3, steps 1 to 5): the result is
  \<open>retval\<close>, nonzero when a completion handshake failed, and the final \<open>temp\<close> and
  \<open>status\<close>.
\<close>

definition get_port_status_resolve ::
  "ext \<Rightarrow> ehci_cfg \<Rightarrow> nat \<Rightarrow> ehci_hcd \<Rightarrow> int \<times> u32 \<times> u32 \<times> ehci_hcd" where
  "get_port_status_resolve x c wIndex s =
     (let (temp, status, s) = get_port_status_oc x c wIndex s;
          (retval, temp, s) = get_port_status_resume x wIndex temp s
      in if retval \<noteq> 0 then (retval, temp, status, s)
         else
          (let (retval, temp, status, s) = get_port_status_reset x c wIndex temp status s
           in if retval \<noteq> 0 then (retval, temp, status, s)
              else
               (let s = get_port_status_idle wIndex temp s;
                    (temp, s) = get_port_status_companion x c wIndex temp s
                in (0, temp, status, s))))"

definition get_port_status :: "ext \<Rightarrow> ehci_cfg \<Rightarrow> nat \<Rightarrow> ehci_hcd \<Rightarrow> int \<times> hub_reply \<times> ehci_hcd" where
  "get_port_status x c wIndex s =
     (let (retval, temp, status, s) = get_port_status_resolve x c wIndex s
      in if retval \<noteq> 0 then (- EPIPE, NoReply, s)
         else
          (let (status, s) = get_port_status_compose c wIndex temp status s
           in (0, PortStatus status, s)))"

text \<open>
  SetPortFeature: the three larger cases of its switch, each with the zero-based port
  \<open>wIndex\<close> and \<open>temp\<close>, the register with the write-one-to-clear bits masked.
  The flag of the result is false where the source jumps to \<open>error\<close>.
\<close>

definition set_port_feature_suspend :: "ext \<Rightarrow> ehci_cfg \<Rightarrow> nat \<Rightarrow> u32 \<Rightarrow> ehci_hcd \<Rightarrow> bool \<times> ehci_hcd" where
  "set_port_feature_suspend x c wIndex temp s =
     (let status_reg = PORTSC wIndex
      in if no_selective_suspend c then (True, s)
         else if temp AND PORT_PE = 0 \<or> temp AND PORT_RESET \<noteq> 0 then (False, s)
         else
          (let s = (if \<not> susp_sof_bug c then ehci_writel x (temp OR PORT_SUSPEND) status_reg s else s)
           in if CONFIG_USB_OTG c \<and> otg_port c = wIndex + 1 \<and> b_hnp_enable c then
                (let s = s\<lparr>suspended_ports := set_bit wIndex (suspended_ports s)\<rparr>
                 in (True, s\<lparr>hnp_started := hnp_started s + 1\<rparr>))
              else
               (let temp = temp AND NOT PORT_WKCONN_E;
                    temp = temp OR (PORT_WKDISC_E OR PORT_WKOC_E);
                    s = (if susp_sof_bug c then ehci_writel x temp status_reg s
                         else ehci_writel x (temp OR PORT_SUSPEND) status_reg s);
                    s = (if has_hostpc c then
                           (let s = msleep 5 s;
                                temp1 = ehci_readl s (HOSTPC wIndex)
                            in ehci_writel x (temp1 OR HOSTPC_PHCD) (HOSTPC wIndex) s)
                         else s)
                in (True, s\<lparr>suspended_ports := set_bit wIndex (suspended_ports s)\<rparr>))))"

definition set_port_feature_reset :: "ext \<Rightarrow> ehci_cfg \<Rightarrow> nat \<Rightarrow> u32 \<Rightarrow> ehci_hcd \<Rightarrow> bool \<times> ehci_hcd" where
  "set_port_feature_reset x c wIndex temp s =
     (let status_reg = PORTSC wIndex
      in if temp AND PORT_RESUME \<noteq> 0 then (False, s)
         else
          (let (temp, s) =
                 (if temp AND (PORT_PE OR PORT_CONNECT) = PORT_CONNECT
                     \<and> \<not> ehci_is_TDI c \<and> PORT_USB11 temp
                  then (temp OR PORT_OWNER, s)
                  else
                   (let temp = temp OR PORT_RESET;
                        temp = temp AND NOT PORT_PE
                    in (temp, s\<lparr>reset_done :=
                                  (reset_done s)(wIndex := jiffies s + msecs_to_jiffies 50)\<rparr>)));
               cmd = 0;
               (cmd, s) =
                 (if reset_sof_bug c \<and> temp AND PORT_RESET \<noteq> 0 then
                    (let cmd = ehci_readl s USBCMD;
                         cmd = cmd AND NOT CMD_RUN;
                         s = ehci_writel x cmd USBCMD s;
                         (halted, s) = handshake x USBSTS STS_HALT STS_HALT (16 * 125) s
                     in (cmd, s))
                  else (cmd, s));
               s = ehci_writel x temp status_reg s;
               s = (if reset_sof_bug c \<and> temp AND PORT_RESET \<noteq> 0 \<and> enable_ulpi_control c then
                      (let s = msleep 20 s;
                           temp = ehci_readl s status_reg;
                           s = ehci_writel x (temp AND NOT (PORT_RWC_BITS OR PORT_RESET)) status_reg s;
                           cmd = cmd OR CMD_RUN
                       in ehci_writel x cmd USBCMD s)
                    else s)
           in (True, s)))"

text \<open>The loop \<open>while (ports--)\<close> of the TEST feature: "Put all enabled ports into
  suspend".\<close>

fun test_suspend_ports :: "ext \<Rightarrow> nat \<Rightarrow> ehci_hcd \<Rightarrow> ehci_hcd" where
  "test_suspend_ports x 0 s = s"
| "test_suspend_ports x (Suc ports) s =
     (let temp = ehci_readl s (PORTSC ports) AND NOT PORT_RWC_BITS;
          s = (if temp AND PORT_PE \<noteq> 0
               then ehci_writel x (temp OR PORT_SUSPEND) (PORTSC ports) s else s)
      in test_suspend_ports x ports s)"

text \<open>The TEST case returns the request's \<open>retval\<close> itself, which the EHSET
  diagnostic may set.\<close>

definition set_port_feature_test :: "ext \<Rightarrow> ehci_cfg \<Rightarrow> nat \<Rightarrow> nat \<Rightarrow> ehci_hcd \<Rightarrow> int \<times> ehci_hcd" where
  "set_port_feature_test x c wIndex selector s =
     (let status_reg = PORTSC wIndex
      in if selector \<noteq> 0 \<and> selector \<le> 5 then
           (let s = on_sched (x_ehci_quiesce x) s;
                s = test_suspend_ports x (HCS_N_PORTS (hcs_params c)) s;
                s = on_sched (x_ehci_halt x) s;
                temp = ehci_readl s status_reg;
                temp = temp OR push_bit 16 (of_nat selector)
            in (0, ehci_writel x temp status_reg s))
         else if CONFIG_USB_EHCI_EHSET c \<and> selector = EHSET_TEST_SINGLE_STEP_SET_FEATURE then
           (x_ehset_single_step_set_feature x wIndex, s)
         else (- EPIPE, s))"

text \<open>"If the debug port is active any port feature requests should get denied":
  \<open>wIndex\<close> is the one-based port number of the request.\<close>

definition debug_port_active :: "ehci_cfg \<Rightarrow> nat \<Rightarrow> bool" where
  "debug_port_active c wIndex \<longleftrightarrow>
     (case debug c of
        None \<Rightarrow> False
      | Some control \<Rightarrow>
          wIndex = HCS_DEBUG_PORT (hcs_params c) \<and> control AND DBGP_ENABLED \<noteq> 0)"

definition set_port_feature :: "ext \<Rightarrow> ehci_cfg \<Rightarrow> u16 \<Rightarrow> u16 \<Rightarrow> ehci_hcd \<Rightarrow> int \<times> ehci_hcd" where
  "set_port_feature x c wValue wIndex0 s =
     (let ports = HCS_N_PORTS (hcs_params c);
          selector = unat (drop_bit 8 wIndex0);
          wIndex = unat (wIndex0 AND 0xff)
      in if debug_port_active c wIndex then (- ENODEV, s)
         else if wIndex = 0 \<or> wIndex > ports then (- EPIPE, s)
         else
          (let wIndex = wIndex - 1;
               status_reg = PORTSC wIndex;
               temp = ehci_readl s status_reg
           in if temp AND PORT_OWNER \<noteq> 0 then (0, s)
              else
               (let temp = temp AND NOT PORT_RWC_BITS
                in if wValue = USB_PORT_FEAT_SUSPEND then
                     (let (ok, s) = set_port_feature_suspend x c wIndex temp s
                      in (if ok then 0 else - EPIPE, s))
                   else if wValue = USB_PORT_FEAT_POWER then
                     (0, if HCS_PPC (hcs_params c)
                         then ehci_writel x (temp OR PORT_POWER) status_reg s else s)
                   else if wValue = USB_PORT_FEAT_RESET then
                     (let (ok, s) = set_port_feature_reset x c wIndex temp s
                      in (if ok then 0 else - EPIPE, s))
                   else if wValue = USB_PORT_FEAT_TEST then
                     set_port_feature_test x c wIndex selector s
                   else (- EPIPE, s))))"

text \<open>
  The request dispatcher. For ClearPortFeature and GetPortStatus the register index
  \<open>(wIndex & 0xff) - 1\<close>, computed on entry, is \<open>wIndex - 1\<close> once the range check
  has passed, since a controller has at most 15 ports.
\<close>

definition ehci_hub_control ::
  "ext \<Rightarrow> ehci_cfg \<Rightarrow> u16 \<Rightarrow> u16 \<Rightarrow> u16 \<Rightarrow> ehci_hcd \<Rightarrow> int \<times> hub_reply \<times> ehci_hcd" where
  "ehci_hub_control x c typeReq wValue wIndex s =
     (let ports = HCS_N_PORTS (hcs_params c)
      in if typeReq = ClearHubFeature then
           (if wValue = C_HUB_LOCAL_POWER \<or> wValue = C_HUB_OVER_CURRENT then (0, NoReply, s)
            else (- EPIPE, NoReply, s))
         else if typeReq = ClearPortFeature then
           (if wIndex = 0 \<or> unat wIndex > ports then (- EPIPE, NoReply, s)
            else
             (let (ok, s) = clear_port_feature x c wValue (unat wIndex - 1) s
              in (if ok then 0 else - EPIPE, NoReply, s)))
         else if typeReq = GetHubDescriptor then (0, HubDescriptor (ehci_hub_descriptor c), s)
         else if typeReq = GetHubStatus then (0, HubStatus 0, s)
         else if typeReq = GetPortStatus then
           (if wIndex = 0 \<or> unat wIndex > ports then (- EPIPE, NoReply, s)
            else get_port_status x c (unat wIndex - 1) s)
         else if typeReq = SetHubFeature then
           (if wValue = C_HUB_LOCAL_POWER \<or> wValue = C_HUB_OVER_CURRENT then (0, NoReply, s)
            else (- EPIPE, NoReply, s))
         else if typeReq = SetPortFeature then
           (let (retval, s) = set_port_feature x c wValue wIndex s
            in (retval, NoReply, s))
         else (- EPIPE, NoReply, s))"

subsection \<open>Concrete controllers\<close>

text \<open>
  Two models of the hardware for concrete runs. In \<open>ext_store\<close> a register keeps what
  is written to it and a handshake finds the awaited bits at once. In \<open>ext_owner\<close> a
  port register written with the ownership bit afterwards shows only its ownership and
  power bits, as a port driven by the companion controller does.
\<close>

definition ext_store :: ext where
  "ext_store =
     \<lparr> hw_write = (\<lambda>r old v. v),
       hw_handshake = (\<lambda>r old msk done usec. (0, (old AND NOT msk) OR done)),
       x_ehci_halt = (\<lambda>q. q),
       x_ehci_quiesce = (\<lambda>q. q),
       x_ehci_work = (\<lambda>q. q),
       x_end_unlink_async = (\<lambda>q. q),
       x_set_ohci_hcfs = (\<lambda>b q. q),
       x_ehset_single_step_set_feature = (\<lambda>port. 0) \<rparr>"

definition ext_owner :: ext where
  "ext_owner = ext_store\<lparr> hw_write :=
     (\<lambda>r old v. if v AND PORT_OWNER \<noteq> 0 then v AND (PORT_OWNER OR PORT_POWER) else v) \<rparr>"

text \<open>
  A controller with two ports and per-port power switching, no quirks, no debug port
  and remote wakeup disabled; and its state with every register and tracker field
  zero, running.
\<close>

definition cfg2 :: ehci_cfg where
  "cfg2 =
     \<lparr> hcs_params = 0x12, companion_ports = 0,
       has_hostpc = False, has_ppcd = False, has_lpm = False, has_tt = False,
       has_amcc_usb23 = False, no_selective_suspend = False, susp_sof_bug = False,
       reset_sof_bug = False, ignore_oc = False, do_remote_wakeup = False,
       debug = None, otg_port = 0, b_hnp_enable = False, enable_ulpi_control = False,
       CONFIG_USB_OTG = False, CONFIG_USB_EHCI_EHSET = False \<rparr>"

definition hcd2 :: ehci_hcd where
  "hcd2 =
     \<lparr> port_status = (\<lambda>i. 0), hostpc = (\<lambda>i. 0),
       sched = \<lparr> usbcmd = 0, usbsts = 0, usbintr = 0, command = 0, reclaim = False,
                 watchdog = False, iaa_watchdog = False, queues = 0 \<rparr>,
       owned_ports = 0, bus_suspended = 0, suspended_ports = 0, resuming_ports = 0,
       port_c_suspend = 0, reset_done = (\<lambda>i. 0), rh_state = EHCI_RH_RUNNING,
       next_statechange = 0, last_susp_resume = 0, rh_timer = None, jiffies = 1000,
       writes = [], hnp_started = 0 \<rparr>"

section \<open>Properties\<close>

subsection \<open>Frame lemmas for the primitives\<close>

lemma on_sched_fields [simp]:
  "sched (on_sched f s) = f (sched s)" "port_status (on_sched f s) = port_status s"
  "hostpc (on_sched f s) = hostpc s" "owned_ports (on_sched f s) = owned_ports s"
  "bus_suspended (on_sched f s) = bus_suspended s"
  "suspended_ports (on_sched f s) = suspended_ports s"
  "resuming_ports (on_sched f s) = resuming_ports s"
  "port_c_suspend (on_sched f s) = port_c_suspend s" "reset_done (on_sched f s) = reset_done s"
  "rh_state (on_sched f s) = rh_state s" "rh_timer (on_sched f s) = rh_timer s"
  "jiffies (on_sched f s) = jiffies s" "writes (on_sched f s) = writes s"
  "hnp_started (on_sched f s) = hnp_started s"
  "next_statechange (on_sched f s) = next_statechange s"
  by (simp_all add: on_sched_def)

lemma msleep_fields [simp]:
  "sched (msleep n s) = sched s" "port_status (msleep n s) = port_status s"
  "hostpc (msleep n s) = hostpc s" "owned_ports (msleep n s) = owned_ports s"
  "bus_suspended (msleep n s) = bus_suspended s"
  "suspended_ports (msleep n s) = suspended_ports s"
  "resuming_ports (msleep n s) = resuming_ports s"
  "port_c_suspend (msleep n s) = port_c_suspend s" "reset_done (msleep n s) = reset_done s"
  "rh_state (msleep n s) = rh_state s" "rh_timer (msleep n s) = rh_timer s"
  "writes (msleep n s) = writes s" "hnp_started (msleep n s) = hnp_started s"
  "next_statechange (msleep n s) = next_statechange s"
  "jiffies (msleep n s) = jiffies s + msecs_to_jiffies n"
  by (simp_all add: msleep_def)

lemma reg_store_fields [simp]:
  "owned_ports (reg_store r v s) = owned_ports s"
  "bus_suspended (reg_store r v s) = bus_suspended s"
  "suspended_ports (reg_store r v s) = suspended_ports s"
  "resuming_ports (reg_store r v s) = resuming_ports s"
  "port_c_suspend (reg_store r v s) = port_c_suspend s"
  "reset_done (reg_store r v s) = reset_done s"
  "rh_state (reg_store r v s) = rh_state s" "rh_timer (reg_store r v s) = rh_timer s"
  "jiffies (reg_store r v s) = jiffies s" "writes (reg_store r v s) = writes s"
  "hnp_started (reg_store r v s) = hnp_started s"
  "next_statechange (reg_store r v s) = next_statechange s"
  by (simp_all add: reg_store_def split: reg.split)

lemma ehci_readl_reg_store [simp]:
  "ehci_readl (reg_store r v s) r' = (if r' = r then v else ehci_readl s r')"
  by (simp add: reg_store_def ehci_readl_def split: reg.splits)

lemma port_status_reg_store [simp]:
  "port_status (reg_store r v s) i = (if r = PORTSC i then v else port_status s i)"
  by (simp add: reg_store_def split: reg.splits)

lemma ehci_writel_fields [simp]:
  "owned_ports (ehci_writel x v r s) = owned_ports s"
  "bus_suspended (ehci_writel x v r s) = bus_suspended s"
  "suspended_ports (ehci_writel x v r s) = suspended_ports s"
  "resuming_ports (ehci_writel x v r s) = resuming_ports s"
  "port_c_suspend (ehci_writel x v r s) = port_c_suspend s"
  "reset_done (ehci_writel x v r s) = reset_done s"
  "rh_state (ehci_writel x v r s) = rh_state s" "rh_timer (ehci_writel x v r s) = rh_timer s"
  "jiffies (ehci_writel x v r s) = jiffies s"
  "hnp_started (ehci_writel x v r s) = hnp_started s"
  "next_statechange (ehci_writel x v r s) = next_statechange s"
  "writes (ehci_writel x v r s) = writes s @ [(r, v)]"
  by (simp_all add: ehci_writel_def)

lemma ehci_readl_writel [simp]:
  "ehci_readl (ehci_writel x v r s) r' =
     (if r' = r then hw_write x r (ehci_readl s r) v else ehci_readl s r')"
  by (simp add: ehci_writel_def ehci_readl_def reg_store_def split: reg.splits)

lemma port_status_writel [simp]:
  "port_status (ehci_writel x v r s) i =
     (if r = PORTSC i then hw_write x r (port_status s i) v else port_status s i)"
  by (simp add: ehci_writel_def ehci_readl_def reg_store_def split: reg.splits)

lemma ehci_readl_simps [simp]:
  "ehci_readl s (PORTSC i) = port_status s i"
  "ehci_readl (on_sched f s) (PORTSC i) = port_status s i"
  by (simp_all add: ehci_readl_def)

lemma ehci_readl_updates [simp]:
  "ehci_readl (s\<lparr>owned_ports := a\<rparr>) r = ehci_readl s r"
  "ehci_readl (s\<lparr>bus_suspended := a\<rparr>) r = ehci_readl s r"
  "ehci_readl (s\<lparr>suspended_ports := a\<rparr>) r = ehci_readl s r"
  "ehci_readl (s\<lparr>resuming_ports := a\<rparr>) r = ehci_readl s r"
  "ehci_readl (s\<lparr>port_c_suspend := a\<rparr>) r = ehci_readl s r"
  "ehci_readl (s\<lparr>reset_done := d\<rparr>) r = ehci_readl s r"
  "ehci_readl (s\<lparr>rh_timer := t\<rparr>) r = ehci_readl s r"
  "ehci_readl (s\<lparr>hnp_started := n\<rparr>) r = ehci_readl s r"
  "ehci_readl (msleep ms s) r = ehci_readl s r"
  by (simp_all add: ehci_readl_def msleep_def split: reg.splits)

lemma handshake_fields [simp]:
  "owned_ports (snd (handshake x r m d u s)) = owned_ports s"
  "bus_suspended (snd (handshake x r m d u s)) = bus_suspended s"
  "suspended_ports (snd (handshake x r m d u s)) = suspended_ports s"
  "resuming_ports (snd (handshake x r m d u s)) = resuming_ports s"
  "port_c_suspend (snd (handshake x r m d u s)) = port_c_suspend s"
  "reset_done (snd (handshake x r m d u s)) = reset_done s"
  "rh_state (snd (handshake x r m d u s)) = rh_state s"
  "rh_timer (snd (handshake x r m d u s)) = rh_timer s"
  "jiffies (snd (handshake x r m d u s)) = jiffies s"
  "writes (snd (handshake x r m d u s)) = writes s"
  "hnp_started (snd (handshake x r m d u s)) = hnp_started s"
  "fst (handshake x r m d u s) = fst (hw_handshake x r (ehci_readl s r) m d u)"
  by (simp_all add: handshake_def split: prod.splits)


section \<open>Bus suspend\<close>

lemma bus_suspend_busy:
  "do_remote_wakeup c \<Longrightarrow> resuming_ports s \<noteq> 0 \<Longrightarrow>
   fst (ehci_bus_suspend x c s) = - EBUSY \<and>
   (snd (ehci_bus_suspend x c s)) \<lparr>jiffies := jiffies s, sched := sched s\<rparr> = s \<and>
   sched (snd (ehci_bus_suspend x c s)) = (sched s)\<lparr>watchdog := False, iaa_watchdog := False\<rparr>"
  by (simp add: ehci_bus_suspend_def Let_def on_sched_def msleep_def)

lemma bus_suspend_ok:
  "\<not> (do_remote_wakeup c \<and> resuming_ports s \<noteq> 0) \<Longrightarrow> fst (ehci_bus_suspend x c s) = 0"
  by (auto simp add: ehci_bus_suspend_def Let_def split: prod.splits)

text \<open>
  C1, as amended. The busy check of \<open>ehci_bus_suspend\<close> is guarded by the root hub's
  remote-wakeup setting: if remote wakeup is enabled and the resuming-ports set is
  non-empty, the call returns \<open>-EBUSY\<close> and leaves every port register, the record of
  register writes and the whole tracker as they were (only the clock, which a 5 ms
  sleep may have advanced, and the two watchdog timers, which are cancelled, can
  differ). Whenever no port resume is pending, and also whenever remote wakeup is
  disabled, the call does not fail with busy: it returns 0.
\<close>

theorem C1_bus_suspend_busy:
  "(do_remote_wakeup c \<and> resuming_ports s \<noteq> 0 \<longrightarrow>
      fst (ehci_bus_suspend x c s) = - EBUSY \<and>
      (snd (ehci_bus_suspend x c s)) \<lparr>jiffies := jiffies s, sched := sched s\<rparr> = s \<and>
      sched (snd (ehci_bus_suspend x c s)) = (sched s)\<lparr>watchdog := False, iaa_watchdog := False\<rparr>)
   \<and> (resuming_ports s = 0 \<or> \<not> do_remote_wakeup c \<longrightarrow> fst (ehci_bus_suspend x c s) = 0)"
  using bus_suspend_busy [of c s x] bus_suspend_ok [of c s x] by blast

text \<open>
  The theorem at a controller with remote wakeup enabled: busy while port 0 is resuming,
  success once no resume is pending.
\<close>

theorem C1_witness:
  "do_remote_wakeup (cfg2\<lparr>do_remote_wakeup := True\<rparr>)
   \<and> resuming_ports (hcd2\<lparr>resuming_ports := 1\<rparr>) \<noteq> 0
   \<and> fst (ehci_bus_suspend ext_store (cfg2\<lparr>do_remote_wakeup := True\<rparr>)
            (hcd2\<lparr>resuming_ports := 1\<rparr>)) = - EBUSY
   \<and> resuming_ports hcd2 = 0
   \<and> fst (ehci_bus_suspend ext_store (cfg2\<lparr>do_remote_wakeup := True\<rparr>) hcd2) = 0"
  using C1_bus_suspend_busy [of "cfg2\<lparr>do_remote_wakeup := True\<rparr>" "hcd2\<lparr>resuming_ports := 1\<rparr>" ext_store]
    C1_bus_suspend_busy [of "cfg2\<lparr>do_remote_wakeup := True\<rparr>" hcd2 ext_store]
  by (simp add: hcd2_def)

text \<open>
  The claim as stated fails where remote wakeup is disabled: with port 0 in the middle
  of a resume, \<open>ehci_bus_suspend\<close> does not report busy but goes on and returns 0.
\<close>

theorem C1_counterexample:
  "resuming_ports (hcd2\<lparr>resuming_ports := 1\<rparr>) \<noteq> 0 \<and>
   fst (ehci_bus_suspend ext_store cfg2 (hcd2\<lparr>resuming_ports := 1\<rparr>)) = 0"
  using bus_suspend_ok [of cfg2 "hcd2\<lparr>resuming_ports := 1\<rparr>" ext_store]
  by (simp add: cfg2_def)

subsection \<open>The bits of a port register\<close>

lemma flag_iff_bit: "n < 32 \<Longrightarrow> ((w :: u32) AND push_bit n 1 \<noteq> 0) = bit w n"
  by (metis and_exp_eq_0_iff_not_bit push_bit_of_1)

lemma bit_push1: "k < 32 \<Longrightarrow> bit (push_bit k (1 :: u32)) n = (n = k)"
  by (auto simp add: bit_simps)

lemma flag_bit:
  "(w AND PORT_CONNECT \<noteq> 0) = bit w 0" "(w AND PORT_CSC \<noteq> 0) = bit w 1"
  "(w AND PORT_PE \<noteq> 0) = bit w 2" "(w AND PORT_PEC \<noteq> 0) = bit w 3"
  "(w AND PORT_OC \<noteq> 0) = bit w 4" "(w AND PORT_OCC \<noteq> 0) = bit w 5"
  "(w AND PORT_RESUME \<noteq> 0) = bit w 6" "(w AND PORT_SUSPEND \<noteq> 0) = bit w 7"
  "(w AND PORT_RESET \<noteq> 0) = bit w 8" "(w AND PORT_POWER \<noteq> 0) = bit w 12"
  "(w AND PORT_OWNER \<noteq> 0) = bit w 13"
  unfolding PORT_CONNECT_def PORT_CSC_def PORT_PE_def PORT_PEC_def PORT_OC_def
      PORT_OCC_def PORT_RESUME_def PORT_SUSPEND_def PORT_RESET_def PORT_POWER_def
      PORT_OWNER_def
  by (rule flag_iff_bit, simp)+

lemma flag_bit0:
  "(w AND PORT_CONNECT = 0) = (\<not> bit w 0)" "(w AND PORT_CSC = 0) = (\<not> bit w 1)"
  "(w AND PORT_PE = 0) = (\<not> bit w 2)" "(w AND PORT_PEC = 0) = (\<not> bit w 3)"
  "(w AND PORT_OC = 0) = (\<not> bit w 4)" "(w AND PORT_OCC = 0) = (\<not> bit w 5)"
  "(w AND PORT_RESUME = 0) = (\<not> bit w 6)" "(w AND PORT_SUSPEND = 0) = (\<not> bit w 7)"
  "(w AND PORT_RESET = 0) = (\<not> bit w 8)" "(w AND PORT_POWER = 0) = (\<not> bit w 12)"
  "(w AND PORT_OWNER = 0) = (\<not> bit w 13)"
  using flag_bit [of w] by blast+

lemma bit_flag:
  "bit PORT_CONNECT n = (n = 0)" "bit PORT_CSC n = (n = 1)" "bit PORT_PE n = (n = 2)"
  "bit PORT_PEC n = (n = 3)" "bit PORT_OC n = (n = 4)" "bit PORT_OCC n = (n = 5)"
  "bit PORT_RESUME n = (n = 6)" "bit PORT_SUSPEND n = (n = 7)" "bit PORT_RESET n = (n = 8)"
  "bit PORT_LPM n = (n = 9)" "bit PORT_POWER n = (n = 12)" "bit PORT_OWNER n = (n = 13)"
  "bit PORT_WKCONN_E n = (n = 20)" "bit PORT_WKDISC_E n = (n = 21)"
  "bit PORT_WKOC_E n = (n = 22)"
  unfolding PORT_CONNECT_def PORT_CSC_def PORT_PE_def PORT_PEC_def PORT_OC_def
      PORT_OCC_def PORT_RESUME_def PORT_SUSPEND_def PORT_RESET_def PORT_POWER_def
      PORT_OWNER_def PORT_LPM_def PORT_WKCONN_E_def PORT_WKDISC_E_def PORT_WKOC_E_def
  by (rule bit_push1, simp)+

lemma bit_masks:
  "bit PORT_RWC_BITS n = (n = 1 \<or> n = 3 \<or> n = 5)"
  "bit PORT_WAKE_BITS n = (n = 20 \<or> n = 21 \<or> n = 22)"
  by (auto simp add: PORT_RWC_BITS_def PORT_WAKE_BITS_def bit_flag bit_or_iff)

lemmas bit_view = flag_bit flag_bit0 bit_flag bit_masks bit_and_iff bit_or_iff bit_not_iff

lemma and_zero_iff: "((w :: u32) AND m = 0) = (\<forall>n. \<not> (bit w n \<and> bit m n))"
proof
  assume "w AND m = 0"
  then have "\<not> bit (w AND m) n" for n by simp
  then show "\<forall>n. \<not> (bit w n \<and> bit m n)" by (simp add: bit_and_iff)
next
  assume "\<forall>n. \<not> (bit w n \<and> bit m n)"
  then show "w AND m = 0" by (intro bit_eqI) (simp add: bit_and_iff)
qed


subsection \<open>The port loop of bus suspend\<close>

lemma bsp_port_status:
  "q \<noteq> p \<Longrightarrow> port_status (snd (bus_suspend_port x c p cs)) q = port_status (snd cs) q"
  by (cases cs) (simp add: bus_suspend_port_def Let_def split: prod.splits if_splits)

lemma bsp_owned:
  "owned_ports (snd (bus_suspend_port x c p cs)) =
     (if bit (port_status (snd cs) p) 13 then set_bit p (owned_ports (snd cs))
      else owned_ports (snd cs))"
  by (cases cs) (simp add: bus_suspend_port_def Let_def bit_view split: prod.splits)

lemma bsp_bus_suspended:
  "bus_suspended (snd (bus_suspend_port x c p cs)) =
     (if \<not> bit (port_status (snd cs) p) 13 \<and> bit (port_status (snd cs) p) 2
         \<and> \<not> bit (port_status (snd cs) p) 7
      then set_bit p (bus_suspended (snd cs)) else bus_suspended (snd cs))"
  by (cases cs) (simp add: bus_suspend_port_def Let_def bit_view split: prod.splits)

lemma suspend_eq_iff:
  "(v AND PORT_SUSPEND = t AND PORT_SUSPEND) = (bit v 7 = bit t 7)"
proof
  assume "v AND PORT_SUSPEND = t AND PORT_SUSPEND"
  then have "bit (v AND PORT_SUSPEND) 7 = bit (t AND PORT_SUSPEND) 7" by simp
  then show "bit v 7 = bit t 7" by (simp add: bit_and_iff bit_flag)
next
  assume "bit v 7 = bit t 7"
  then show "v AND PORT_SUSPEND = t AND PORT_SUSPEND"
    by (intro bit_eqI) (auto simp add: bit_and_iff bit_flag)
qed

lemma bsp_writes:
  "\<exists>ws. writes (snd (bus_suspend_port x c p cs)) = writes (snd cs) @ ws \<and>
     (\<forall>r v. (r, v) \<in> set ws \<longrightarrow> r = PORTSC p \<and>
        (bit (port_status (snd cs) p) 13 \<longrightarrow>
           v AND PORT_SUSPEND = port_status (snd cs) p AND PORT_SUSPEND))"
  by (cases cs)
     (simp add: bus_suspend_port_def Let_def suspend_eq_iff bit_view split: prod.splits)

lemma bsps_owned:
  "n \<le> 32 \<Longrightarrow> bit (owned_ports (snd (bus_suspend_ports x c n cs))) q \<longleftrightarrow>
     bit (owned_ports (snd cs)) q \<or> (q < n \<and> bit (port_status (snd cs) q) 13)"
proof (induction n arbitrary: cs)
  case 0
  then show ?case by simp
next
  case (Suc n)
  then show ?case
    by (auto simp add: bsp_owned bsp_port_status bit_set_bit_iff less_Suc_eq)
qed

lemma bsps_bus_suspended:
  "n \<le> 32 \<Longrightarrow> bit (bus_suspended (snd (bus_suspend_ports x c n cs))) q \<longleftrightarrow>
     bit (bus_suspended (snd cs)) q \<or>
     (q < n \<and> \<not> bit (port_status (snd cs) q) 13 \<and> bit (port_status (snd cs) q) 2
        \<and> \<not> bit (port_status (snd cs) q) 7)"
proof (induction n arbitrary: cs)
  case 0
  then show ?case by simp
next
  case (Suc n)
  then show ?case
    by (auto simp add: bsp_bus_suspended bsp_port_status bit_set_bit_iff less_Suc_eq)
qed

lemma bsps_writes:
  "\<exists>ws. writes (snd (bus_suspend_ports x c n cs)) = writes (snd cs) @ ws \<and>
     (\<forall>r v. (r, v) \<in> set ws \<longrightarrow> (\<exists>p<n. r = PORTSC p \<and>
        (bit (port_status (snd cs) p) 13 \<longrightarrow>
           v AND PORT_SUSPEND = port_status (snd cs) p AND PORT_SUSPEND)))"
proof (induction n arbitrary: cs)
  case 0
  then show ?case by simp
next
  case (Suc n)
  let ?cs = "bus_suspend_port x c n cs"
  obtain ws1 where w1: "writes (snd ?cs) = writes (snd cs) @ ws1"
    and p1: "\<forall>r v. (r, v) \<in> set ws1 \<longrightarrow> r = PORTSC n \<and>
        (bit (port_status (snd cs) n) 13 \<longrightarrow>
           v AND PORT_SUSPEND = port_status (snd cs) n AND PORT_SUSPEND)"
    using bsp_writes [of x c n cs] by blast
  obtain ws2 where w2: "writes (snd (bus_suspend_ports x c n ?cs)) = writes (snd ?cs) @ ws2"
    and p2: "\<forall>r v. (r, v) \<in> set ws2 \<longrightarrow> (\<exists>p<n. r = PORTSC p \<and>
        (bit (port_status (snd ?cs) p) 13 \<longrightarrow>
           v AND PORT_SUSPEND = port_status (snd ?cs) p AND PORT_SUSPEND))"
    using Suc.IH [of ?cs] by blast
  have same: "p < n \<Longrightarrow> port_status (snd ?cs) p = port_status (snd cs) p" for p
    by (simp add: bsp_port_status)
  have "writes (snd (bus_suspend_ports x c (Suc n) cs)) = writes (snd cs) @ (ws1 @ ws2)"
    using w1 w2 by simp
  moreover have "\<exists>p<Suc n. r = PORTSC p \<and>
        (bit (port_status (snd cs) p) 13 \<longrightarrow>
           v AND PORT_SUSPEND = port_status (snd cs) p AND PORT_SUSPEND)"
    if "(r, v) \<in> set (ws1 @ ws2)" for r v
  proof (cases "(r, v) \<in> set ws1")
    case True
    then have "r = PORTSC n" "bit (port_status (snd cs) n) 13 \<longrightarrow>
           v AND PORT_SUSPEND = port_status (snd cs) n AND PORT_SUSPEND"
      using p1 by blast+
    then show ?thesis by (intro exI [of _ n]) simp
  next
    case False
    then have "(r, v) \<in> set ws2" using that by simp
    then obtain p where "p < n" "r = PORTSC p"
      "bit (port_status (snd ?cs) p) 13 \<longrightarrow>
           v AND PORT_SUSPEND = port_status (snd ?cs) p AND PORT_SUSPEND"
      using p2 by blast
    then show ?thesis using same [of p] by (intro exI [of _ p]) simp
  qed
  ultimately show ?case by blast
qed

lemma bsh_fields [simp]:
  "owned_ports (bus_suspend_hostpc x n s) = owned_ports s"
  "bus_suspended (bus_suspend_hostpc x n s) = bus_suspended s"
  by (induction n arbitrary: s) (simp_all add: Let_def)

lemma bsh_writes:
  "\<exists>ws. writes (bus_suspend_hostpc x n s) = writes s @ ws \<and> (\<forall>r v. (r, v) \<in> set ws \<longrightarrow> (\<forall>p. r \<noteq> PORTSC p))"
proof (induction n arbitrary: s)
  case 0
  then show ?case by simp
next
  case (Suc n)
  let ?s = "ehci_writel x (ehci_readl s (HOSTPC n) OR HOSTPC_PHCD) (HOSTPC n) s"
  obtain ws where "writes (bus_suspend_hostpc x n ?s) = writes ?s @ ws"
    "\<forall>r v. (r, v) \<in> set ws \<longrightarrow> (\<forall>p. r \<noteq> PORTSC p)"
    using Suc.IH [of ?s] by blast
  then show ?case
    by (intro exI [of _ "(HOSTPC n, ehci_readl s (HOSTPC n) OR HOSTPC_PHCD) # ws"])
       (simp add: Let_def)
qed

lemma bus_suspend_quiesce_fields [simp]:
  "port_status (bus_suspend_quiesce x s) = port_status s"
  "writes (bus_suspend_quiesce x s) = writes s"
  by (simp_all add: bus_suspend_quiesce_def Let_def)

lemma bus_suspend_finish_fields [simp]:
  "owned_ports (bus_suspend_finish x c cs) = owned_ports (snd cs)"
  "bus_suspended (bus_suspend_finish x c cs) = bus_suspended (snd cs)"
  by (simp_all add: bus_suspend_finish_def Let_def split_def)

lemma bus_suspend_finish_writes:
  "\<exists>ws. writes (bus_suspend_finish x c cs) = writes (snd cs) @ ws
     \<and> (\<forall>r v. (r, v) \<in> set ws \<longrightarrow> (\<forall>p. r \<noteq> PORTSC p))"
proof -
  define sh where "sh = (if fst cs \<and> has_hostpc c
                         then bus_suspend_hostpc x (HCS_N_PORTS (hcs_params c)) (msleep 5 (snd cs))
                         else snd cs)"
  obtain wh where wh: "writes sh = writes (snd cs) @ wh" "\<forall>r v. (r, v) \<in> set wh \<longrightarrow> (\<forall>p. r \<noteq> PORTSC p)"
  proof (cases "fst cs \<and> has_hostpc c")
    case True
    then show ?thesis
      using bsh_writes [of x "HCS_N_PORTS (hcs_params c)" "msleep 5 (snd cs)"] that
      by (auto simp add: sh_def)
  next
    case False
    then show ?thesis using that [of "[]"] by (auto simp add: sh_def)
  qed
  have "\<exists>m. writes (bus_suspend_finish x c cs) = writes sh @ [(USBINTR, m)]"
    by (simp add: bus_suspend_finish_def Let_def split_def sh_def)
  then obtain m where "writes (bus_suspend_finish x c cs) = writes sh @ [(USBINTR, m)]"
    by blast
  then show ?thesis
    using wh by (intro exI [of _ "wh @ [(USBINTR, m)]"]) auto
qed

text \<open>The parts of a call that is not rejected: the state on entry to the port loop and
  the writes that follow the loop.\<close>

lemma bus_suspend_unfold:
  assumes "\<not> (do_remote_wakeup c \<and> resuming_ports s \<noteq> 0)"
  shows "\<exists>s0 ws. port_status s0 = port_status s \<and> writes s0 = writes s
      \<and> owned_ports s0 = 0 \<and> bus_suspended s0 = 0
      \<and> owned_ports (snd (ehci_bus_suspend x c s))
          = owned_ports (snd (bus_suspend_ports x c (HCS_N_PORTS (hcs_params c)) (False, s0)))
      \<and> bus_suspended (snd (ehci_bus_suspend x c s))
          = bus_suspended (snd (bus_suspend_ports x c (HCS_N_PORTS (hcs_params c)) (False, s0)))
      \<and> writes (snd (ehci_bus_suspend x c s))
          = writes (snd (bus_suspend_ports x c (HCS_N_PORTS (hcs_params c)) (False, s0))) @ ws
      \<and> (\<forall>r v. (r, v) \<in> set ws \<longrightarrow> (\<forall>p. r \<noteq> PORTSC p))"
proof -
  define sb where "sb = on_sched (\<lambda>q. q\<lparr>watchdog := False, iaa_watchdog := False\<rparr>)
      (if time_before (jiffies s) (next_statechange s) then msleep 5 s else s)"
  define s0 where "s0 = (bus_suspend_quiesce x sb)\<lparr>bus_suspended := 0, owned_ports := 0\<rparr>"
  define cs where "cs = bus_suspend_ports x c (HCS_N_PORTS (hcs_params c)) (False, s0)"
  have resuming: "resuming_ports sb = resuming_ports s"
    by (simp add: sb_def)
  have s0: "port_status s0 = port_status s" "writes s0 = writes s"
    "owned_ports s0 = 0" "bus_suspended s0 = 0"
    by (simp_all add: s0_def sb_def)
  have res: "snd (ehci_bus_suspend x c s) = bus_suspend_finish x c cs"
    using assms resuming
    by (auto simp add: ehci_bus_suspend_def Let_def sb_def [symmetric] s0_def [symmetric]
        cs_def [symmetric])
  obtain ws where ws: "writes (bus_suspend_finish x c cs) = writes (snd cs) @ ws"
    "\<forall>r v. (r, v) \<in> set ws \<longrightarrow> (\<forall>p. r \<noteq> PORTSC p)"
    using bus_suspend_finish_writes [of x c cs] by blast
  have "owned_ports (snd (ehci_bus_suspend x c s)) = owned_ports (snd cs)"
    "bus_suspended (snd (ehci_bus_suspend x c s)) = bus_suspended (snd cs)"
    "writes (snd (ehci_bus_suspend x c s)) = writes (snd cs) @ ws"
    unfolding res by (simp_all add: ws(1))
  then show ?thesis
    using s0 ws(2) by (intro exI [of _ s0] exI [of _ ws]) (simp add: cs_def)
qed

lemma HCS_N_PORTS_le: "HCS_N_PORTS p \<le> 15"
proof -
  have "p AND 0xf \<le> 0xf" by (rule word_and_le1)
  then have "unat (p AND 0xf) \<le> unat (0xf :: u32)" by (simp add: word_le_nat_alt)
  then show ?thesis by (simp add: HCS_N_PORTS_def)
qed

lemma bus_suspend_owned_iff:
  assumes "\<not> (do_remote_wakeup c \<and> resuming_ports s \<noteq> 0)"
  shows "test_bit p (owned_ports (snd (ehci_bus_suspend x c s))) \<longleftrightarrow>
           p < HCS_N_PORTS (hcs_params c) \<and> port_status s p AND PORT_OWNER \<noteq> 0"
proof -
  let ?n = "HCS_N_PORTS (hcs_params c)"
  have n: "?n \<le> 32" using HCS_N_PORTS_le [of "hcs_params c"] by simp
  obtain s0 where "port_status s0 = port_status s" "owned_ports s0 = 0"
      "owned_ports (snd (ehci_bus_suspend x c s))
          = owned_ports (snd (bus_suspend_ports x c ?n (False, s0)))"
    using bus_suspend_unfold [OF assms, of x] by blast
  then show ?thesis
    using bsps_owned [OF n, of x c "(False, s0)" p] by (simp add: test_bit_def flag_bit)
qed

lemma bus_suspend_suspended_iff:
  assumes "\<not> (do_remote_wakeup c \<and> resuming_ports s \<noteq> 0)"
  shows "test_bit p (bus_suspended (snd (ehci_bus_suspend x c s))) \<longleftrightarrow>
           p < HCS_N_PORTS (hcs_params c) \<and> port_status s p AND PORT_OWNER = 0
           \<and> port_status s p AND PORT_PE \<noteq> 0 \<and> port_status s p AND PORT_SUSPEND = 0"
proof -
  let ?n = "HCS_N_PORTS (hcs_params c)"
  have n: "?n \<le> 32" using HCS_N_PORTS_le [of "hcs_params c"] by simp
  obtain s0 where "port_status s0 = port_status s" "bus_suspended s0 = 0"
      "bus_suspended (snd (ehci_bus_suspend x c s))
          = bus_suspended (snd (bus_suspend_ports x c ?n (False, s0)))"
    using bus_suspend_unfold [OF assms, of x] by blast
  then show ?thesis
    using bsps_bus_suspended [OF n, of x c "(False, s0)" p]
    by (simp add: test_bit_def flag_bit flag_bit0)
qed

lemma bus_suspend_owned_writes:
  assumes "\<not> (do_remote_wakeup c \<and> resuming_ports s \<noteq> 0)"
    and "(PORTSC p, v) \<in> set (drop (length (writes s)) (writes (snd (ehci_bus_suspend x c s))))"
    and "port_status s p AND PORT_OWNER \<noteq> 0"
  shows "v AND PORT_SUSPEND = port_status s p AND PORT_SUSPEND"
proof -
  let ?n = "HCS_N_PORTS (hcs_params c)"
  obtain s0 ws where s0: "port_status s0 = port_status s" "writes s0 = writes s"
    and r: "writes (snd (ehci_bus_suspend x c s))
          = writes (snd (bus_suspend_ports x c ?n (False, s0))) @ ws"
    and ws: "\<forall>r v. (r, v) \<in> set ws \<longrightarrow> (\<forall>p. r \<noteq> PORTSC p)"
    using bus_suspend_unfold [OF assms(1), of x] by blast
  obtain wl where wl: "writes (snd (bus_suspend_ports x c ?n (False, s0))) = writes s @ wl"
    and pl: "\<forall>r v. (r, v) \<in> set wl \<longrightarrow> (\<exists>p<?n. r = PORTSC p \<and>
        (bit (port_status s p) 13 \<longrightarrow> v AND PORT_SUSPEND = port_status s p AND PORT_SUSPEND))"
    using bsps_writes [of x c ?n "(False, s0)"] s0 by auto
  have "drop (length (writes s)) (writes (snd (ehci_bus_suspend x c s))) = wl @ ws"
    by (simp add: r wl)
  then have "(PORTSC p, v) \<in> set wl" using assms(2) ws by auto
  then obtain q where "PORTSC p = PORTSC q"
      "bit (port_status s q) 13 \<longrightarrow> v AND PORT_SUSPEND = port_status s q AND PORT_SUSPEND"
    using pl by blast
  then show ?thesis using assms(3) by (simp add: flag_bit)
qed

lemma pe_or_suspend: "(t AND (PORT_PE OR PORT_SUSPEND) = 0) = (\<not> bit t 2 \<and> \<not> bit t 7)"
  by (auto simp add: and_zero_iff bit_view)

lemma bus_suspend_writes_range:
  assumes "\<not> (do_remote_wakeup c \<and> resuming_ports s \<noteq> 0)"
    and "(PORTSC p, v) \<in> set (drop (length (writes s)) (writes (snd (ehci_bus_suspend x c s))))"
  shows "p < HCS_N_PORTS (hcs_params c)"
proof -
  let ?n = "HCS_N_PORTS (hcs_params c)"
  obtain s0 ws where s0: "port_status s0 = port_status s" "writes s0 = writes s"
    and r: "writes (snd (ehci_bus_suspend x c s))
          = writes (snd (bus_suspend_ports x c ?n (False, s0))) @ ws"
    and ws: "\<forall>r v. (r, v) \<in> set ws \<longrightarrow> (\<forall>p. r \<noteq> PORTSC p)"
    using bus_suspend_unfold [OF assms(1), of x] by blast
  obtain wl where wl: "writes (snd (bus_suspend_ports x c ?n (False, s0))) = writes s @ wl"
    and pl: "\<forall>r v. (r, v) \<in> set wl \<longrightarrow> (\<exists>p<?n. r = PORTSC p \<and>
        (bit (port_status s p) 13 \<longrightarrow> v AND PORT_SUSPEND = port_status s p AND PORT_SUSPEND))"
    using bsps_writes [of x c ?n "(False, s0)"] s0 by auto
  have "drop (length (writes s)) (writes (snd (ehci_bus_suspend x c s))) = wl @ ws"
    by (simp add: r wl)
  then have "(PORTSC p, v) \<in> set wl" using assms(2) ws by auto
  then obtain q where "PORTSC p = PORTSC q" "q < ?n" using pl by blast
  then show ?thesis by simp
qed

text \<open>
  C10, as amended. During every call of \<open>ehci_bus_suspend\<close> that is not rejected as
  busy, with the port registers as they are when the call is made: the owned_ports
  bitmap ends up with exactly the ports whose ownership bit is set (these are the
  ports that \<open>ehci_handover_companion_ports\<close> goes through after a power loss); the
  bus_suspended bitmap ends up with exactly the ports that are not owned, enabled and
  not already suspended; and whatever is written to the register of an owned port
  carries the suspend bit as it was read. The hardware keeps a port that it shows as
  owned by the companion neither enabled nor suspended ("the controller won't set the
  OWNER bit if the port is enabled"; the bits of an owned port "should all be 0 except
  for PORT_POWER"). With the registers in such a state, no value written to an owned
  port has the suspend bit, and the bus_suspended bitmap ends up with exactly the
  ports that were enabled and not already suspended.
\<close>

theorem C10_bus_suspend_ports:
  assumes "\<not> (do_remote_wakeup c \<and> resuming_ports s \<noteq> 0)"
  shows "(\<forall>p. test_bit p (owned_ports (snd (ehci_bus_suspend x c s))) \<longleftrightarrow>
            p < HCS_N_PORTS (hcs_params c) \<and> port_status s p AND PORT_OWNER \<noteq> 0)
       \<and> (\<forall>p. test_bit p (bus_suspended (snd (ehci_bus_suspend x c s))) \<longleftrightarrow>
            p < HCS_N_PORTS (hcs_params c) \<and> port_status s p AND PORT_OWNER = 0
            \<and> port_status s p AND PORT_PE \<noteq> 0 \<and> port_status s p AND PORT_SUSPEND = 0)
       \<and> (\<forall>p v. (PORTSC p, v) \<in> set (drop (length (writes s)) (writes (snd (ehci_bus_suspend x c s))))
              \<and> port_status s p AND PORT_OWNER \<noteq> 0
            \<longrightarrow> v AND PORT_SUSPEND = port_status s p AND PORT_SUSPEND)
       \<and> ((\<forall>p < HCS_N_PORTS (hcs_params c). port_status s p AND PORT_OWNER \<noteq> 0 \<longrightarrow>
               port_status s p AND (PORT_PE OR PORT_SUSPEND) = 0) \<longrightarrow>
            (\<forall>p v. (PORTSC p, v) \<in> set (drop (length (writes s))
                                         (writes (snd (ehci_bus_suspend x c s))))
                \<and> port_status s p AND PORT_OWNER \<noteq> 0
              \<longrightarrow> v AND PORT_SUSPEND = 0)
            \<and> (\<forall>p. test_bit p (bus_suspended (snd (ehci_bus_suspend x c s))) \<longleftrightarrow>
                  p < HCS_N_PORTS (hcs_params c)
                  \<and> port_status s p AND PORT_PE \<noteq> 0 \<and> port_status s p AND PORT_SUSPEND = 0))"
proof -
  let ?N = "HCS_N_PORTS (hcs_params c)"
  let ?s' = "snd (ehci_bus_suspend x c s)"
  note own = bus_suspend_owned_iff [OF assms, of _ x]
  note sus = bus_suspend_suspended_iff [OF assms, of _ x]
  note wrs = bus_suspend_owned_writes [OF assms, of _ _ x]
  note rng = bus_suspend_writes_range [OF assms, of _ _ x]
  have inv: "(\<forall>p v. (PORTSC p, v) \<in> set (drop (length (writes s)) (writes ?s'))
                \<and> port_status s p AND PORT_OWNER \<noteq> 0
              \<longrightarrow> v AND PORT_SUSPEND = 0)
            \<and> (\<forall>p. test_bit p (bus_suspended ?s') \<longleftrightarrow>
                  p < ?N \<and> port_status s p AND PORT_PE \<noteq> 0 \<and> port_status s p AND PORT_SUSPEND = 0)"
    if h: "\<forall>p < ?N. port_status s p AND PORT_OWNER \<noteq> 0 \<longrightarrow>
               port_status s p AND (PORT_PE OR PORT_SUSPEND) = 0"
  proof (intro conjI allI impI)
    fix p v
    assume a: "(PORTSC p, v) \<in> set (drop (length (writes s)) (writes ?s'))
                \<and> port_status s p AND PORT_OWNER \<noteq> 0"
    then have "p < ?N" using rng by blast
    then have "port_status s p AND PORT_SUSPEND = 0"
      using h a by (auto simp add: pe_or_suspend flag_bit0)
    then show "v AND PORT_SUSPEND = 0" using wrs a by auto
  next
    fix p
    show "test_bit p (bus_suspended ?s') \<longleftrightarrow>
            p < ?N \<and> port_status s p AND PORT_PE \<noteq> 0 \<and> port_status s p AND PORT_SUSPEND = 0"
      using sus [of p] h by (auto simp add: pe_or_suspend flag_bit0 flag_bit)
  qed
  show ?thesis using own sus wrs inv by blast
qed

text \<open>
  The theorem on a controller with two ports, port 0 connected and enabled, port 1
  owned by the companion: port 0 ends up in bus_suspended and port 1 in owned_ports.
  With remote wakeup enabled the owned port is written too, to arm its wake bits, and
  the value written is without the suspend bit.
\<close>

theorem C10_witness:
  "\<not> (do_remote_wakeup cfg2
       \<and> resuming_ports (hcd2\<lparr>port_status := (\<lambda>i. if i = 0 then 0x5 else 0x2000)\<rparr>) \<noteq> 0)
   \<and> HCS_N_PORTS (hcs_params cfg2) = 2
   \<and> port_status (hcd2\<lparr>port_status := (\<lambda>i. if i = 0 then 0x5 else 0x2000)\<rparr>) 0 AND PORT_OWNER = 0
   \<and> port_status (hcd2\<lparr>port_status := (\<lambda>i. if i = 0 then 0x5 else 0x2000)\<rparr>) 1 AND PORT_OWNER \<noteq> 0
   \<and> port_status (hcd2\<lparr>port_status := (\<lambda>i. if i = 0 then 0x5 else 0x2000)\<rparr>) 1
        AND (PORT_PE OR PORT_SUSPEND) = 0
   \<and> test_bit 0 (bus_suspended (snd (ehci_bus_suspend ext_store cfg2
         (hcd2\<lparr>port_status := (\<lambda>i. if i = 0 then 0x5 else 0x2000)\<rparr>))))
   \<and> \<not> test_bit 1 (bus_suspended (snd (ehci_bus_suspend ext_store cfg2
         (hcd2\<lparr>port_status := (\<lambda>i. if i = 0 then 0x5 else 0x2000)\<rparr>))))
   \<and> test_bit 1 (owned_ports (snd (ehci_bus_suspend ext_store cfg2
         (hcd2\<lparr>port_status := (\<lambda>i. if i = 0 then 0x5 else 0x2000)\<rparr>))))
   \<and> \<not> test_bit 0 (owned_ports (snd (ehci_bus_suspend ext_store cfg2
         (hcd2\<lparr>port_status := (\<lambda>i. if i = 0 then 0x5 else 0x2000)\<rparr>))))
   \<and> \<not> (do_remote_wakeup (cfg2\<lparr>do_remote_wakeup := True\<rparr>)
       \<and> resuming_ports (hcd2\<lparr>port_status := (\<lambda>i. if i = 0 then 0x5 else 0x2000)\<rparr>) \<noteq> 0)
   \<and> drop (length (writes (hcd2\<lparr>port_status := (\<lambda>i. if i = 0 then 0x5 else 0x2000)\<rparr>)))
        (writes (snd (ehci_bus_suspend ext_store (cfg2\<lparr>do_remote_wakeup := True\<rparr>)
           (hcd2\<lparr>port_status := (\<lambda>i. if i = 0 then 0x5 else 0x2000)\<rparr>))))
      = [(PORTSC 1, 0x502000), (PORTSC 0, 0x600085), (USBINTR, 0x37)]
   \<and> (0x502000 :: u32) AND PORT_SUSPEND = 0"
proof -
  let ?s = "hcd2\<lparr>port_status := (\<lambda>i. if i = 0 then 0x5 else 0x2000)\<rparr>"
  let ?c = "cfg2\<lparr>do_remote_wakeup := True\<rparr>"
  let ?s' = "snd (ehci_bus_suspend ext_store cfg2 ?s)"
  have n: "HCS_N_PORTS (hcs_params cfg2) = 2" by (simp add: cfg2_def HCS_N_PORTS_def)
  have b: "\<not> (do_remote_wakeup cfg2 \<and> resuming_ports ?s \<noteq> 0)" by (simp add: cfg2_def)
  have b2: "\<not> (do_remote_wakeup ?c \<and> resuming_ports ?s \<noteq> 0)" by (simp add: hcd2_def)
  have r: "port_status ?s 0 AND PORT_OWNER = 0" "port_status ?s 1 AND (PORT_PE OR PORT_SUSPEND) = 0"
    "port_status ?s 0 AND PORT_PE \<noteq> 0" "port_status ?s 0 AND PORT_SUSPEND = 0"
    "port_status ?s 1 AND PORT_OWNER \<noteq> 0" "port_status ?s 1 AND PORT_PE = 0"
    by (simp_all add: PORT_OWNER_def PORT_PE_def PORT_SUSPEND_def)
  have inv: "\<forall>p < HCS_N_PORTS (hcs_params cfg2). port_status ?s p AND PORT_OWNER \<noteq> 0 \<longrightarrow>
               port_status ?s p AND (PORT_PE OR PORT_SUSPEND) = 0"
    by (simp add: PORT_OWNER_def PORT_PE_def PORT_SUSPEND_def)
  then have inv2: "\<forall>p < HCS_N_PORTS (hcs_params ?c). port_status ?s p AND PORT_OWNER \<noteq> 0 \<longrightarrow>
               port_status ?s p AND (PORT_PE OR PORT_SUSPEND) = 0"
    by simp
  note T = C10_bus_suspend_ports [OF b, of ext_store]
  have o: "test_bit p (owned_ports ?s') \<longleftrightarrow>
        p < HCS_N_PORTS (hcs_params cfg2) \<and> port_status ?s p AND PORT_OWNER \<noteq> 0" for p
    using T by blast
  have u: "test_bit p (bus_suspended ?s') \<longleftrightarrow>
        p < HCS_N_PORTS (hcs_params cfg2) \<and> port_status ?s p AND PORT_PE \<noteq> 0
        \<and> port_status ?s p AND PORT_SUSPEND = 0" for p
    using T inv by blast
  have W: "drop (length (writes ?s)) (writes (snd (ehci_bus_suspend ext_store ?c ?s)))
      = [(PORTSC 1, 0x502000), (PORTSC 0, 0x600085), (USBINTR, 0x37)]"
  proof -
    have m: "HCS_N_PORTS (hcs_params cfg2) = Suc (Suc 0)" by (simp add: n)
    have c: "\<not> susp_sof_bug ?c" "\<not> has_hostpc ?c" "do_remote_wakeup ?c"
      by (simp_all add: cfg2_def)
    show ?thesis
      by (simp add: ehci_bus_suspend_def bus_suspend_quiesce_def bus_suspend_finish_def
        bus_suspend_port_def Let_def m c hcd2_def ext_store_def
        time_before_def on_sched_def ehci_writel_def reg_store_def ehci_readl_def
        PORT_RWC_BITS_def PORT_WAKE_BITS_def PORT_CSC_def PORT_PEC_def PORT_OCC_def
        PORT_WKOC_E_def PORT_WKDISC_E_def PORT_WKCONN_E_def PORT_OWNER_def PORT_PE_def
        PORT_SUSPEND_def PORT_CONNECT_def INTR_MASK_def STS_PCD_def msleep_def)
  qed
  have mem: "(PORTSC 1, 0x502000) \<in> set (drop (length (writes ?s))
        (writes (snd (ehci_bus_suspend ext_store ?c ?s))))"
    unfolding W by simp
  have v: "(0x502000 :: u32) AND PORT_SUSPEND = 0"
    using C10_bus_suspend_ports [OF b2, of ext_store] inv2 mem r(5) by blast
  show ?thesis
    using o [of 0] o [of 1] u [of 0] u [of 1] n r b b2 W v by simp
qed

text \<open>
  The claim as stated fails for a call that is rejected as busy: with remote wakeup
  enabled and port 1 in the middle of a resume the call returns \<open>-EBUSY\<close> before the
  port loop, so port 0, enabled and not suspended, is not in bus_suspended
  afterwards.
\<close>

theorem C10_counterexample:
  "port_status (hcd2\<lparr>port_status := (\<lambda>i. if i = 0 then 0x1005 else 0x1045),
                      resuming_ports := 2\<rparr>) 0 AND PORT_PE \<noteq> 0
   \<and> port_status (hcd2\<lparr>port_status := (\<lambda>i. if i = 0 then 0x1005 else 0x1045),
                        resuming_ports := 2\<rparr>) 0 AND PORT_SUSPEND = 0
   \<and> port_status (hcd2\<lparr>port_status := (\<lambda>i. if i = 0 then 0x1005 else 0x1045),
                        resuming_ports := 2\<rparr>) 0 AND PORT_OWNER = 0
   \<and> fst (ehci_bus_suspend ext_store (cfg2\<lparr>do_remote_wakeup := True\<rparr>)
         (hcd2\<lparr>port_status := (\<lambda>i. if i = 0 then 0x1005 else 0x1045), resuming_ports := 2\<rparr>))
       = - EBUSY
   \<and> bus_suspended (snd (ehci_bus_suspend ext_store (cfg2\<lparr>do_remote_wakeup := True\<rparr>)
         (hcd2\<lparr>port_status := (\<lambda>i. if i = 0 then 0x1005 else 0x1045), resuming_ports := 2\<rparr>)))
       = 0
   \<and> \<not> test_bit 0 (bus_suspended (snd (ehci_bus_suspend ext_store (cfg2\<lparr>do_remote_wakeup := True\<rparr>)
         (hcd2\<lparr>port_status := (\<lambda>i. if i = 0 then 0x1005 else 0x1045), resuming_ports := 2\<rparr>))))"
  by (simp add: ehci_bus_suspend_def Let_def cfg2_def hcd2_def time_before_def on_sched_def
      test_bit_def PORT_PE_def PORT_SUSPEND_def PORT_OWNER_def)

section \<open>The status-change bitmap\<close>

lemma bit_push1_u8: "bit (push_bit m (1 :: u8)) k = (k = m \<and> m < 8)"
  by (auto simp add: bit_simps)

lemma hub_status_port_eq:
  "hub_status_port c s msk ppcd i (b0, b1, st) =
     (if (has_ppcd c \<longrightarrow> ppcd AND push_bit i 1 \<noteq> 0) \<and> port_change_pending s msk i
      then (if i < 7 then (b0 OR push_bit (i + 1) 1, b1, STS_PCD)
            else (b0, b1 OR push_bit (i - 7) 1, STS_PCD))
      else (b0, b1, st))"
  unfolding hub_status_port_def by auto

lemma hub_status_fold:
  assumes R: "\<And>i. R i \<longleftrightarrow>
      (has_ppcd c \<longrightarrow> ppcd AND push_bit i 1 \<noteq> 0) \<and> port_change_pending s msk i"
  shows "\<exists>b0' b1'. fold (hub_status_port c s msk ppcd) [0..<n] (b0, b1, st)
           = (b0', b1', if \<exists>i<n. R i then STS_PCD else st)
       \<and> (\<forall>k. bit b0' k \<longleftrightarrow> bit b0 k \<or> (\<exists>i<n. i < 7 \<and> R i \<and> k = i + 1))
       \<and> (\<forall>k. bit b1' k \<longleftrightarrow> bit b1 k \<or> (\<exists>i<n. 7 \<le> i \<and> i < 15 \<and> R i \<and> k = i - 7))"
proof (induction n)
  case 0
  then show ?case by simp
next
  case (Suc n)
  then obtain a0 a1 where
    a: "fold (hub_status_port c s msk ppcd) [0..<n] (b0, b1, st)
           = (a0, a1, if \<exists>i<n. R i then STS_PCD else st)"
    and a0: "\<And>k. bit a0 k \<longleftrightarrow> bit b0 k \<or> (\<exists>i<n. i < 7 \<and> R i \<and> k = i + 1)"
    and a1: "\<And>k. bit a1 k \<longleftrightarrow> bit b1 k \<or> (\<exists>i<n. 7 \<le> i \<and> i < 15 \<and> R i \<and> k = i - 7)"
    by blast
  have step: "fold (hub_status_port c s msk ppcd) [0..<Suc n] (b0, b1, st) =
      (if R n then (if n < 7 then (a0 OR push_bit (n + 1) 1, a1, STS_PCD)
                    else (a0, a1 OR push_bit (n - 7) 1, STS_PCD))
       else (a0, a1, if \<exists>i<n. R i then STS_PCD else st))"
    by (simp add: a hub_status_port_eq R del: push_bit_of_1)
  consider (none) "\<not> R n" | (low) "R n" "n < 7" | (high) "R n" "\<not> n < 7"
    by blast
  then show ?case
  proof cases
    case none
    have "(\<exists>i<Suc n. R i) = (\<exists>i<n. R i)"
      "\<And>k. (\<exists>i<Suc n. i < 7 \<and> R i \<and> k = i + 1) = (\<exists>i<n. i < 7 \<and> R i \<and> k = i + 1)"
      "\<And>k. (\<exists>i<Suc n. 7 \<le> i \<and> i < 15 \<and> R i \<and> k = i - 7)
          = (\<exists>i<n. 7 \<le> i \<and> i < 15 \<and> R i \<and> k = i - 7)"
      using none by (auto simp add: less_Suc_eq)
    then show ?thesis using step none a0 a1 by simp
  next
    case low
    have e: "(\<exists>i<Suc n. R i)"
      "\<And>k. (\<exists>i<Suc n. i < 7 \<and> R i \<and> k = i + 1)
          = ((\<exists>i<n. i < 7 \<and> R i \<and> k = i + 1) \<or> k = n + 1)"
      "\<And>k. (\<exists>i<Suc n. 7 \<le> i \<and> i < 15 \<and> R i \<and> k = i - 7)
          = (\<exists>i<n. 7 \<le> i \<and> i < 15 \<and> R i \<and> k = i - 7)"
      using low by (auto simp add: less_Suc_eq)
    have "bit (a0 OR push_bit (n + 1) 1) k \<longleftrightarrow>
        bit b0 k \<or> (\<exists>i<n. i < 7 \<and> R i \<and> k = i + 1) \<or> k = n + 1" for k
      unfolding bit_or_iff bit_push1_u8 a0 using low(2) by auto
    then show ?thesis using step low a1 e by simp
  next
    case high
    have e: "(\<exists>i<Suc n. R i)"
      "\<And>k. (\<exists>i<Suc n. i < 7 \<and> R i \<and> k = i + 1) = (\<exists>i<n. i < 7 \<and> R i \<and> k = i + 1)"
      "\<And>k. (\<exists>i<Suc n. 7 \<le> i \<and> i < 15 \<and> R i \<and> k = i - 7)
          = ((\<exists>i<n. 7 \<le> i \<and> i < 15 \<and> R i \<and> k = i - 7) \<or> (n < 15 \<and> k = n - 7))"
      using high by (auto simp add: less_Suc_eq)
    have "bit (a1 OR push_bit (n - 7) 1) k \<longleftrightarrow>
        bit b1 k \<or> (\<exists>i<n. 7 \<le> i \<and> i < 15 \<and> R i \<and> k = i - 7) \<or> (n < 15 \<and> k = n - 7)" for k
      unfolding bit_or_iff bit_push1_u8 a1 using high(2) by auto
    then show ?thesis using step high a0 e by simp
  qed
qed


lemma STS_PCD_nonzero: "STS_PCD \<noteq> 0"
  by (simp add: STS_PCD_def)

lemma hub_status_data_halted:
  "rh_state s \<noteq> EHCI_RH_RUNNING \<Longrightarrow> ehci_hub_status_data c buf s = (0, buf, s)"
  by (simp add: ehci_hub_status_data_def)

lemma hub_status_data_running:
  assumes "rh_state s = EHCI_RH_RUNNING"
  shows "\<exists>b0 b1 s'. ehci_hub_status_data c buf s =
           (if resuming_ports s \<noteq> 0 \<or> (\<exists>i. hub_status_reports c s i)
            then (if HCS_N_PORTS (hcs_params c) > 7 then 2 else 1) else 0, (b0, b1), s')
       \<and> \<not> bit b0 0
       \<and> (\<forall>i<7. bit b0 (i + 1) \<longleftrightarrow> hub_status_reports c s i)
       \<and> (HCS_N_PORTS (hcs_params c) > 7 \<longrightarrow>
            (\<forall>i. 7 \<le> i \<and> i < 15 \<longrightarrow> (bit b1 (i - 7) \<longleftrightarrow> hub_status_reports c s i)))
       \<and> (HCS_N_PORTS (hcs_params c) \<le> 7 \<longrightarrow> b1 = snd buf)"
proof -
  let ?n = "HCS_N_PORTS (hcs_params c)"
  define R where "R i \<longleftrightarrow> (has_ppcd c \<longrightarrow> hub_status_ppcd c s AND push_bit i 1 \<noteq> 0)
      \<and> port_change_pending s (hub_status_mask c) i" for i
  define i1 where "i1 = (if ?n > 7 then 0 else snd buf)"
  have rep: "hub_status_reports c s i \<longleftrightarrow> i < ?n \<and> R i" for i
    by (simp add: hub_status_reports_def R_def)
  obtain b0 b1 where
    f: "fold (hub_status_port c s (hub_status_mask c) (hub_status_ppcd c s)) [0..<?n]
          (0, i1, resuming_ports s) = (b0, b1, if \<exists>i<?n. R i then STS_PCD else resuming_ports s)"
    and b0: "\<And>k. bit b0 k \<longleftrightarrow> bit (0 :: u8) k \<or> (\<exists>i<?n. i < 7 \<and> R i \<and> k = i + 1)"
    and b1: "\<And>k. bit b1 k \<longleftrightarrow> bit i1 k \<or> (\<exists>i<?n. 7 \<le> i \<and> i < 15 \<and> R i \<and> k = i - 7)"
    using hub_status_fold [of R c "hub_status_ppcd c s" s "hub_status_mask c" ?n 0 i1 "resuming_ports s"]
    by (auto simp add: R_def)
  have res: "\<exists>s'. ehci_hub_status_data c buf s =
           (if resuming_ports s \<noteq> 0 \<or> (\<exists>i. hub_status_reports c s i)
            then (if ?n > 7 then 2 else 1) else 0, (b0, b1), s')"
  proof (cases "?n > 7")
    case True
    then show ?thesis
      using assms f by (simp add: ehci_hub_status_data_def Let_def i1_def rep STS_PCD_nonzero)
  next
    case False
    then show ?thesis
      using assms f by (simp add: ehci_hub_status_data_def Let_def i1_def rep STS_PCD_nonzero)
  qed
  have z: "\<not> bit b0 0" by (simp add: b0)
  have low: "bit b0 (i + 1) \<longleftrightarrow> hub_status_reports c s i" if "i < 7" for i
    using that by (auto simp add: b0 rep)
  have high: "bit b1 (i - 7) \<longleftrightarrow> hub_status_reports c s i" if "?n > 7" "7 \<le> i" "i < 15" for i
  proof -
    have "(\<exists>j<?n. 7 \<le> j \<and> j < 15 \<and> R j \<and> i - 7 = j - 7) \<longleftrightarrow> i < ?n \<and> R i"
      using that by (metis eq_diff_iff)
    then show ?thesis using that by (simp add: b1 i1_def rep)
  qed
  have keep: "b1 = snd buf" if "?n \<le> 7"
  proof -
    have "bit b1 k = bit (snd buf) k" for k
      using that by (auto simp add: b1 i1_def)
    then show ?thesis by (simp add: bit_eq_iff)
  qed
  show ?thesis using res z low high keep by blast
qed


text \<open>
  C9, as amended. While the root hub is not running, \<open>ehci_hub_status_data\<close> returns 0
  and touches neither the buffer nor the state. While it is running, it returns a
  nonzero value (the length of the bitmap, 1 or 2 bytes) if and only if a port resume
  is in progress or some port is reported, that is: the port exists, its per-port
  change-detect bit is set where the controller has them, and it has a connect or
  enable change bit, an over-current change bit unless over-current reporting is
  ignored, a tracked suspend-change flag, or an elapsed reset/resume deadline. The
  bitmap has bit \<open>i + 1\<close> of the first byte set exactly for the reported ports
  \<open>i < 7\<close>, bit 0 of the first byte zero, and, on a controller with more than seven
  ports, bit \<open>i - 7\<close> of the second byte set exactly for the reported ports from 7 on;
  with at most seven ports the second byte is left as it was.
\<close>

theorem C9_hub_status_data:
  "(rh_state s \<noteq> EHCI_RH_RUNNING \<longrightarrow> ehci_hub_status_data c buf s = (0, buf, s))
   \<and> (rh_state s = EHCI_RH_RUNNING \<longrightarrow>
        (\<exists>b0 b1 s'. ehci_hub_status_data c buf s =
           (if resuming_ports s \<noteq> 0 \<or> (\<exists>i. hub_status_reports c s i)
            then (if HCS_N_PORTS (hcs_params c) > 7 then 2 else 1) else 0, (b0, b1), s')
         \<and> \<not> bit b0 0
         \<and> (\<forall>i<7. bit b0 (i + 1) \<longleftrightarrow> hub_status_reports c s i)
         \<and> (HCS_N_PORTS (hcs_params c) > 7 \<longrightarrow>
              (\<forall>i. 7 \<le> i \<and> i < 15 \<longrightarrow> (bit b1 (i - 7) \<longleftrightarrow> hub_status_reports c s i)))
         \<and> (HCS_N_PORTS (hcs_params c) \<le> 7 \<longrightarrow> b1 = snd buf)))"
  using hub_status_data_halted [of s c buf] hub_status_data_running [of s c buf] by blast

text \<open>
  The theorem on a running two-port controller whose port 0 shows a connect change: the
  call returns 1 with bit 1 of the first byte set and bit 0 clear.
\<close>

theorem C9_witness:
  "rh_state (hcd2\<lparr>port_status := (\<lambda>i. if i = 0 then 0x3 else 0)\<rparr>) = EHCI_RH_RUNNING
   \<and> hub_status_reports cfg2 (hcd2\<lparr>port_status := (\<lambda>i. if i = 0 then 0x3 else 0)\<rparr>) 0
   \<and> fst (ehci_hub_status_data cfg2 (0, 0) (hcd2\<lparr>port_status := (\<lambda>i. if i = 0 then 0x3 else 0)\<rparr>)) = 1
   \<and> bit (fst (fst (snd (ehci_hub_status_data cfg2 (0, 0)
         (hcd2\<lparr>port_status := (\<lambda>i. if i = 0 then 0x3 else 0)\<rparr>))))) 1
   \<and> \<not> bit (fst (fst (snd (ehci_hub_status_data cfg2 (0, 0)
         (hcd2\<lparr>port_status := (\<lambda>i. if i = 0 then 0x3 else 0)\<rparr>))))) 0"
proof -
  let ?s = "hcd2\<lparr>port_status := (\<lambda>i. if i = 0 then 0x3 else 0)\<rparr>"
  have run: "rh_state ?s = EHCI_RH_RUNNING" by (simp add: hcd2_def)
  have rep: "hub_status_reports cfg2 ?s 0"
    by (simp add: hub_status_reports_def port_change_pending_def hub_status_mask_def cfg2_def
        HCS_N_PORTS_def PORT_CSC_def PORT_PEC_def PORT_OCC_def)
  have n: "\<not> HCS_N_PORTS (hcs_params cfg2) > 7" by (simp add: cfg2_def HCS_N_PORTS_def)
  show ?thesis
    using C9_hub_status_data [of ?s cfg2 "(0, 0)"] run rep n by force
qed

text \<open>
  The claim as stated fails while a port resume is in progress: with no change bit in
  any port register, no suspend-change flag and no deadline recorded, the call still
  returns a nonzero value, "to inform the core about resumes-in-progress".
\<close>

theorem C9_counterexample:
  "(\<forall>i. port_status (hcd2\<lparr>resuming_ports := 1\<rparr>) i = 0 \<and> reset_done (hcd2\<lparr>resuming_ports := 1\<rparr>) i = 0)
   \<and> port_c_suspend (hcd2\<lparr>resuming_ports := 1\<rparr>) = 0
   \<and> fst (ehci_hub_status_data cfg2 (0, 0) (hcd2\<lparr>resuming_ports := 1\<rparr>)) = 1"
proof -
  let ?s = "hcd2\<lparr>resuming_ports := 1\<rparr>"
  have "rh_state ?s = EHCI_RH_RUNNING" "resuming_ports ?s \<noteq> 0"
    "\<not> HCS_N_PORTS (hcs_params cfg2) > 7"
    by (simp_all add: hcd2_def cfg2_def HCS_N_PORTS_def)
  then have "fst (ehci_hub_status_data cfg2 (0, 0) ?s) = 1"
    using hub_status_data_running [of ?s cfg2 "(0, 0)"] by force
  then show ?thesis by (simp add: hcd2_def)
qed

section \<open>Hub control requests\<close>

subsection \<open>The dispatcher\<close>

lemmas typeReq_defs = ClearHubFeature_def ClearPortFeature_def GetHubDescriptor_def
  GetHubStatus_def GetPortStatus_def SetHubFeature_def SetPortFeature_def

lemmas feat_defs = USB_PORT_FEAT_ENABLE_def USB_PORT_FEAT_SUSPEND_def USB_PORT_FEAT_RESET_def
  USB_PORT_FEAT_POWER_def USB_PORT_FEAT_C_CONNECTION_def USB_PORT_FEAT_C_ENABLE_def
  USB_PORT_FEAT_C_SUSPEND_def USB_PORT_FEAT_C_OVER_CURRENT_def USB_PORT_FEAT_C_RESET_def
  USB_PORT_FEAT_TEST_def

lemma hub_control_ClearPortFeature:
  "ehci_hub_control x c ClearPortFeature wValue wIndex s =
     (if wIndex = 0 \<or> unat wIndex > HCS_N_PORTS (hcs_params c) then (- EPIPE, NoReply, s)
      else (if fst (clear_port_feature x c wValue (unat wIndex - 1) s) then 0 else - EPIPE,
            NoReply, snd (clear_port_feature x c wValue (unat wIndex - 1) s)))"
  by (simp add: ehci_hub_control_def typeReq_defs split_def Let_def)

lemma hub_control_GetPortStatus:
  "ehci_hub_control x c GetPortStatus wValue wIndex s =
     (if wIndex = 0 \<or> unat wIndex > HCS_N_PORTS (hcs_params c) then (- EPIPE, NoReply, s)
      else get_port_status x c (unat wIndex - 1) s)"
  by (simp add: ehci_hub_control_def typeReq_defs)

lemma hub_control_SetPortFeature:
  "ehci_hub_control x c SetPortFeature wValue wIndex s =
     (fst (set_port_feature x c wValue wIndex s), NoReply, snd (set_port_feature x c wValue wIndex s))"
  by (simp add: ehci_hub_control_def typeReq_defs split_def Let_def)

lemma hub_control_hub_feature:
  "typeReq = ClearHubFeature \<or> typeReq = SetHubFeature \<Longrightarrow>
   ehci_hub_control x c typeReq wValue wIndex s =
     (if wValue = C_HUB_LOCAL_POWER \<or> wValue = C_HUB_OVER_CURRENT then (0, NoReply, s)
      else (- EPIPE, NoReply, s))"
  by (auto simp add: ehci_hub_control_def typeReq_defs)

lemma hub_control_unknown:
  "typeReq \<notin> {ClearHubFeature, ClearPortFeature, GetHubDescriptor, GetHubStatus,
      GetPortStatus, SetHubFeature, SetPortFeature} \<Longrightarrow>
   ehci_hub_control x c typeReq wValue wIndex s = (- EPIPE, NoReply, s)"
  by (simp add: ehci_hub_control_def)

lemma clear_port_feature_unsupported:
  "wValue \<notin> {USB_PORT_FEAT_ENABLE, USB_PORT_FEAT_C_ENABLE, USB_PORT_FEAT_SUSPEND,
      USB_PORT_FEAT_C_SUSPEND, USB_PORT_FEAT_POWER, USB_PORT_FEAT_C_CONNECTION,
      USB_PORT_FEAT_C_OVER_CURRENT, USB_PORT_FEAT_C_RESET} \<Longrightarrow>
   clear_port_feature x c wValue i s = (False, s)"
  by (simp add: clear_port_feature_def)

lemma set_port_feature_denied:
  "debug_port_active c (unat (wIndex AND 0xff)) \<Longrightarrow>
   set_port_feature x c wValue wIndex s = (- ENODEV, s)"
  by (simp add: set_port_feature_def)

lemma set_port_feature_range:
  "\<not> debug_port_active c (unat (wIndex AND 0xff)) \<Longrightarrow>
   unat (wIndex AND 0xff) = 0 \<or> unat (wIndex AND 0xff) > HCS_N_PORTS (hcs_params c) \<Longrightarrow>
   set_port_feature x c wValue wIndex s = (- EPIPE, s)"
  by (auto simp add: set_port_feature_def)

lemma set_port_feature_owned:
  "\<not> debug_port_active c (unat (wIndex AND 0xff)) \<Longrightarrow>
   unat (wIndex AND 0xff) \<noteq> 0 \<Longrightarrow> unat (wIndex AND 0xff) \<le> HCS_N_PORTS (hcs_params c) \<Longrightarrow>
   port_status s (unat (wIndex AND 0xff) - 1) AND PORT_OWNER \<noteq> 0 \<Longrightarrow>
   set_port_feature x c wValue wIndex s = (0, s)"
  by (simp add: set_port_feature_def Let_def)

lemma set_port_feature_unsupported:
  "\<not> debug_port_active c (unat (wIndex AND 0xff)) \<Longrightarrow>
   unat (wIndex AND 0xff) \<noteq> 0 \<Longrightarrow> unat (wIndex AND 0xff) \<le> HCS_N_PORTS (hcs_params c) \<Longrightarrow>
   port_status s (unat (wIndex AND 0xff) - 1) AND PORT_OWNER = 0 \<Longrightarrow>
   wValue \<notin> {USB_PORT_FEAT_SUSPEND, USB_PORT_FEAT_POWER, USB_PORT_FEAT_RESET, USB_PORT_FEAT_TEST}
   \<or> wValue = USB_PORT_FEAT_TEST
       \<and> \<not> (unat (drop_bit 8 wIndex) \<noteq> 0 \<and> unat (drop_bit 8 wIndex) \<le> 5)
       \<and> \<not> (CONFIG_USB_EHCI_EHSET c
             \<and> unat (drop_bit 8 wIndex) = EHSET_TEST_SINGLE_STEP_SET_FEATURE) \<Longrightarrow>
   set_port_feature x c wValue wIndex s = (- EPIPE, s)"
  by (auto simp add: set_port_feature_def Let_def set_port_feature_test_def feat_defs)


subsection \<open>Requests that fail validation\<close>

text \<open>
  C6, as amended. A hub_control request that fails validation returns the stall error
  \<open>-EPIPE\<close>, writes nothing to the caller's buffer and leaves the whole state, registers
  and tracker, as it was. Failing validation means: an unsupported feature code for
  ClearHubFeature or SetHubFeature; port index 0 or above the port count for
  ClearPortFeature or GetPortStatus; an unsupported feature code for ClearPortFeature;
  and, for SetPortFeature on a port that is not the active debug port, a port index
  (low byte of wIndex) of 0 or above the port count, or, on a port not owned by the
  companion, an unsupported feature code or an unsupported TEST selector; also an
  unknown request type. A SetPortFeature request to the active debug port is denied
  with \<open>-ENODEV\<close> instead, again with no change of state. (A SetPortFeature request
  with an unsupported feature code to a companion-owned port is accepted: see C5.)
\<close>

theorem C6_invalid_request_stalls:
  "(typeReq \<in> {ClearHubFeature, SetHubFeature}
      \<and> wValue \<noteq> C_HUB_LOCAL_POWER \<and> wValue \<noteq> C_HUB_OVER_CURRENT
    \<or> typeReq \<in> {ClearPortFeature, GetPortStatus}
      \<and> (wIndex = 0 \<or> unat wIndex > HCS_N_PORTS (hcs_params c))
    \<or> typeReq = ClearPortFeature
      \<and> wValue \<notin> {USB_PORT_FEAT_ENABLE, USB_PORT_FEAT_C_ENABLE, USB_PORT_FEAT_SUSPEND,
            USB_PORT_FEAT_C_SUSPEND, USB_PORT_FEAT_POWER, USB_PORT_FEAT_C_CONNECTION,
            USB_PORT_FEAT_C_OVER_CURRENT, USB_PORT_FEAT_C_RESET}
    \<or> typeReq = SetPortFeature \<and> \<not> debug_port_active c (unat (wIndex AND 0xff))
      \<and> (unat (wIndex AND 0xff) = 0 \<or> unat (wIndex AND 0xff) > HCS_N_PORTS (hcs_params c)
         \<or> port_status s (unat (wIndex AND 0xff) - 1) AND PORT_OWNER = 0
           \<and> (wValue \<notin> {USB_PORT_FEAT_SUSPEND, USB_PORT_FEAT_POWER, USB_PORT_FEAT_RESET,
                  USB_PORT_FEAT_TEST}
              \<or> wValue = USB_PORT_FEAT_TEST
                \<and> \<not> (unat (drop_bit 8 wIndex) \<noteq> 0 \<and> unat (drop_bit 8 wIndex) \<le> 5)
                \<and> \<not> (CONFIG_USB_EHCI_EHSET c
                      \<and> unat (drop_bit 8 wIndex) = EHSET_TEST_SINGLE_STEP_SET_FEATURE)))
    \<or> typeReq \<notin> {ClearHubFeature, ClearPortFeature, GetHubDescriptor, GetHubStatus,
          GetPortStatus, SetHubFeature, SetPortFeature}
    \<longrightarrow> ehci_hub_control x c typeReq wValue wIndex s = (- EPIPE, NoReply, s))
   \<and> (typeReq = SetPortFeature \<and> debug_port_active c (unat (wIndex AND 0xff))
    \<longrightarrow> ehci_hub_control x c typeReq wValue wIndex s = (- ENODEV, NoReply, s))"
proof -
  have hub: "typeReq \<in> {ClearHubFeature, SetHubFeature}
      \<and> wValue \<noteq> C_HUB_LOCAL_POWER \<and> wValue \<noteq> C_HUB_OVER_CURRENT
      \<Longrightarrow> ehci_hub_control x c typeReq wValue wIndex s = (- EPIPE, NoReply, s)"
    using hub_control_hub_feature [of typeReq x c wValue wIndex s] by auto
  have range: "typeReq \<in> {ClearPortFeature, GetPortStatus}
      \<and> (wIndex = 0 \<or> unat wIndex > HCS_N_PORTS (hcs_params c))
      \<Longrightarrow> ehci_hub_control x c typeReq wValue wIndex s = (- EPIPE, NoReply, s)"
    by (auto simp add: hub_control_ClearPortFeature hub_control_GetPortStatus)
  have clear: "typeReq = ClearPortFeature
      \<and> wValue \<notin> {USB_PORT_FEAT_ENABLE, USB_PORT_FEAT_C_ENABLE, USB_PORT_FEAT_SUSPEND,
            USB_PORT_FEAT_C_SUSPEND, USB_PORT_FEAT_POWER, USB_PORT_FEAT_C_CONNECTION,
            USB_PORT_FEAT_C_OVER_CURRENT, USB_PORT_FEAT_C_RESET}
      \<Longrightarrow> ehci_hub_control x c typeReq wValue wIndex s = (- EPIPE, NoReply, s)"
    using clear_port_feature_unsupported [of wValue x c "unat wIndex - 1" s]
    by (simp add: hub_control_ClearPortFeature)
  have set: "typeReq = SetPortFeature \<and> \<not> debug_port_active c (unat (wIndex AND 0xff))
      \<and> (unat (wIndex AND 0xff) = 0 \<or> unat (wIndex AND 0xff) > HCS_N_PORTS (hcs_params c)
         \<or> port_status s (unat (wIndex AND 0xff) - 1) AND PORT_OWNER = 0
           \<and> (wValue \<notin> {USB_PORT_FEAT_SUSPEND, USB_PORT_FEAT_POWER, USB_PORT_FEAT_RESET,
                  USB_PORT_FEAT_TEST}
              \<or> wValue = USB_PORT_FEAT_TEST
                \<and> \<not> (unat (drop_bit 8 wIndex) \<noteq> 0 \<and> unat (drop_bit 8 wIndex) \<le> 5)
                \<and> \<not> (CONFIG_USB_EHCI_EHSET c
                      \<and> unat (drop_bit 8 wIndex) = EHSET_TEST_SINGLE_STEP_SET_FEATURE)))
      \<Longrightarrow> ehci_hub_control x c typeReq wValue wIndex s = (- EPIPE, NoReply, s)"
    using set_port_feature_range [of c wIndex x wValue s]
      set_port_feature_unsupported [of c wIndex s wValue x]
    by (cases "unat (wIndex AND 0xff) = 0 \<or> unat (wIndex AND 0xff) > HCS_N_PORTS (hcs_params c)")
       (auto simp add: hub_control_SetPortFeature)
  have denied: "typeReq = SetPortFeature \<and> debug_port_active c (unat (wIndex AND 0xff))
      \<Longrightarrow> ehci_hub_control x c typeReq wValue wIndex s = (- ENODEV, NoReply, s)"
    by (simp add: hub_control_SetPortFeature set_port_feature_denied)
  show ?thesis
    using hub range clear set denied hub_control_unknown [of typeReq x c wValue wIndex s]
    by blast
qed


text \<open>
  The theorem on the two-port controller: ClearHubFeature with feature code 3,
  GetPortStatus for port 3, and SetPortFeature with feature code 99 on port 1.
\<close>

theorem C6_witness:
  "(3 :: u16) \<notin> {C_HUB_LOCAL_POWER, C_HUB_OVER_CURRENT}
   \<and> ehci_hub_control ext_store cfg2 ClearHubFeature 3 0 hcd2 = (- EPIPE, NoReply, hcd2)
   \<and> unat (3 :: u16) > HCS_N_PORTS (hcs_params cfg2)
   \<and> ehci_hub_control ext_store cfg2 GetPortStatus 0 3 hcd2 = (- EPIPE, NoReply, hcd2)
   \<and> ehci_hub_control ext_store cfg2 SetPortFeature 99 1 hcd2 = (- EPIPE, NoReply, hcd2)"
  using C6_invalid_request_stalls [of ClearHubFeature 3 0 cfg2 hcd2 ext_store]
    C6_invalid_request_stalls [of GetPortStatus 0 3 cfg2 hcd2 ext_store]
    C6_invalid_request_stalls [of SetPortFeature 99 1 cfg2 hcd2 ext_store]
  by (simp add: cfg2_def HCS_N_PORTS_def C_HUB_LOCAL_POWER_def C_HUB_OVER_CURRENT_def
      debug_port_active_def hcd2_def feat_defs)

text \<open>
  The claim as stated fails for SetPortFeature with an unsupported feature code on a
  port owned by the companion: the ownership test comes before the feature switch, and
  the request returns success instead of the stall error.
\<close>

theorem C6_counterexample:
  "(99 :: u16) \<notin> {USB_PORT_FEAT_SUSPEND, USB_PORT_FEAT_POWER, USB_PORT_FEAT_RESET,
        USB_PORT_FEAT_TEST}
   \<and> ehci_hub_control ext_store cfg2 SetPortFeature 99 1
         (hcd2\<lparr>port_status := (\<lambda>i. if i = 0 then 0x2000 else 0)\<rparr>)
       = (0, NoReply, hcd2\<lparr>port_status := (\<lambda>i. if i = 0 then 0x2000 else 0)\<rparr>)"
  using set_port_feature_owned [of cfg2 1 "hcd2\<lparr>port_status := (\<lambda>i. if i = 0 then 0x2000 else 0)\<rparr>"
      ext_store 99]
  by (simp add: hub_control_SetPortFeature cfg2_def HCS_N_PORTS_def PORT_OWNER_def
      debug_port_active_def feat_defs)

subsection \<open>Requests to a port owned by the companion\<close>

lemma mod_owner_eq_iff:
  "(a AND NOT PORT_OWNER = b AND NOT PORT_OWNER) = (\<forall>n. n \<noteq> 13 \<longrightarrow> bit a n = bit b n)"
proof
  assume e: "a AND NOT PORT_OWNER = b AND NOT PORT_OWNER"
  show "\<forall>n. n \<noteq> 13 \<longrightarrow> bit a n = bit b n"
  proof (intro allI impI)
    fix n :: nat assume "n \<noteq> 13"
    moreover have "bit (a AND NOT PORT_OWNER) n = bit (b AND NOT PORT_OWNER) n" using e by simp
    ultimately show "bit a n = bit b n"
      by (auto simp add: bit_and_iff bit_not_iff bit_flag dest: bit_imp_le_length)
  qed
next
  assume "\<forall>n. n \<noteq> 13 \<longrightarrow> bit a n = bit b n"
  then show "a AND NOT PORT_OWNER = b AND NOT PORT_OWNER"
    by (intro bit_eqI) (auto simp add: bit_and_iff bit_not_iff bit_flag)
qed

lemma bit_xor_owner: "bit (t XOR PORT_OWNER) n = (if n = 13 then \<not> bit t 13 else bit t n)"
  by (auto simp add: bit_xor_iff bit_flag)

lemma clear_port_feature_owner_indep:
  assumes "s2 = s1\<lparr>port_status := (port_status s1)(i := port_status s1 i XOR PORT_OWNER)\<rparr>"
  shows "fst (clear_port_feature x c wValue i s1) = fst (clear_port_feature x c wValue i s2)
    \<and> port_c_suspend (snd (clear_port_feature x c wValue i s1))
        = port_c_suspend (snd (clear_port_feature x c wValue i s2))
    \<and> reset_done (snd (clear_port_feature x c wValue i s1))
        = reset_done (snd (clear_port_feature x c wValue i s2))
    \<and> suspended_ports (snd (clear_port_feature x c wValue i s1))
        = suspended_ports (snd (clear_port_feature x c wValue i s2))
    \<and> resuming_ports (snd (clear_port_feature x c wValue i s1))
        = resuming_ports (snd (clear_port_feature x c wValue i s2))
    \<and> hnp_started (snd (clear_port_feature x c wValue i s1))
        = hnp_started (snd (clear_port_feature x c wValue i s2))
    \<and> map (\<lambda>(r, v). (r, v AND NOT PORT_OWNER)) (writes (snd (clear_port_feature x c wValue i s1)))
        = map (\<lambda>(r, v). (r, v AND NOT PORT_OWNER)) (writes (snd (clear_port_feature x c wValue i s2)))"
  unfolding assms
  by (simp add: clear_port_feature_def Let_def bit_view bit_xor_owner ehci_readl_def
      mod_owner_eq_iff)


lemma clear_port_feature_change_bits:
  "clear_port_feature x c USB_PORT_FEAT_C_CONNECTION i s =
     (True, ehci_writel x
        (((if has_lpm c then (port_status s i AND NOT PORT_LPM) AND NOT PORT_DEV_ADDR
           else port_status s i) AND NOT PORT_RWC_BITS) OR PORT_CSC) (PORTSC i) s)"
  "clear_port_feature x c USB_PORT_FEAT_C_ENABLE i s =
     (True, ehci_writel x ((port_status s i AND NOT PORT_RWC_BITS) OR PORT_PEC) (PORTSC i) s)"
  "clear_port_feature x c USB_PORT_FEAT_C_OVER_CURRENT i s =
     (True, ehci_writel x ((port_status s i AND NOT PORT_RWC_BITS) OR PORT_OCC) (PORTSC i) s)"
  "clear_port_feature x c USB_PORT_FEAT_C_SUSPEND i s =
     (True, s\<lparr>port_c_suspend := clear_bit i (port_c_suspend s)\<rparr>)"
  by (simp_all add: clear_port_feature_def Let_def feat_defs)

lemma owned_and_not: "t AND PORT_OWNER \<noteq> 0 \<Longrightarrow> t AND NOT PORT_OWNER = t XOR PORT_OWNER"
  by (intro bit_eqI) (auto simp add: bit_view bit_xor_iff)

text \<open>
  C5, as amended. For every in-range port whose ownership bit is set: every
  SetPortFeature request to it, unless the port is the active debug port (whose
  requests are denied with \<open>-ENODEV\<close>), returns success and leaves the whole state as
  it was, so nothing is written to the port register and no tracker field changes.
  ClearPortFeature still has its normal effect: C_CONNECTION, C_ENABLE and
  C_OVER_CURRENT return success and write the port register with the respective change
  bit set (which acknowledges it) and the other change bits clear; C_SUSPEND returns
  success and clears the tracked suspend-change flag; and for every feature code the
  return value, the tracker and the registers written are those of the same request to
  the same port with its ownership bit clear, the values written differing at most in
  the ownership bit.
\<close>

theorem C5_owned_port:
  "i < HCS_N_PORTS (hcs_params c) \<and> port_status s i AND PORT_OWNER \<noteq> 0 \<longrightarrow>
     (unat (wIndexS AND 0xff) = i + 1 \<and> \<not> debug_port_active c (i + 1) \<longrightarrow>
        ehci_hub_control x c SetPortFeature wValue wIndexS s = (0, NoReply, s))
   \<and> (unat wIndex = i + 1 \<longrightarrow>
        ehci_hub_control x c ClearPortFeature USB_PORT_FEAT_C_CONNECTION wIndex s =
          (0, NoReply, ehci_writel x
             (((if has_lpm c then (port_status s i AND NOT PORT_LPM) AND NOT PORT_DEV_ADDR
                else port_status s i) AND NOT PORT_RWC_BITS) OR PORT_CSC) (PORTSC i) s)
      \<and> ehci_hub_control x c ClearPortFeature USB_PORT_FEAT_C_ENABLE wIndex s =
          (0, NoReply,
           ehci_writel x ((port_status s i AND NOT PORT_RWC_BITS) OR PORT_PEC) (PORTSC i) s)
      \<and> ehci_hub_control x c ClearPortFeature USB_PORT_FEAT_C_OVER_CURRENT wIndex s =
          (0, NoReply,
           ehci_writel x ((port_status s i AND NOT PORT_RWC_BITS) OR PORT_OCC) (PORTSC i) s)
      \<and> ehci_hub_control x c ClearPortFeature USB_PORT_FEAT_C_SUSPEND wIndex s =
          (0, NoReply, s\<lparr>port_c_suspend := clear_bit i (port_c_suspend s)\<rparr>)
      \<and> (let r = ehci_hub_control x c ClearPortFeature wValue wIndex s;
              r0 = ehci_hub_control x c ClearPortFeature wValue wIndex
                     (s\<lparr>port_status := (port_status s)(i := port_status s i AND NOT PORT_OWNER)\<rparr>)
          in fst r = fst r0
             \<and> port_c_suspend (snd (snd r)) = port_c_suspend (snd (snd r0))
             \<and> reset_done (snd (snd r)) = reset_done (snd (snd r0))
             \<and> suspended_ports (snd (snd r)) = suspended_ports (snd (snd r0))
             \<and> resuming_ports (snd (snd r)) = resuming_ports (snd (snd r0))
             \<and> map (\<lambda>(r, v). (r, v AND NOT PORT_OWNER)) (writes (snd (snd r)))
                 = map (\<lambda>(r, v). (r, v AND NOT PORT_OWNER)) (writes (snd (snd r0)))))"
proof (intro impI conjI; elim conjE)
  assume i: "i < HCS_N_PORTS (hcs_params c)" and o: "port_status s i AND PORT_OWNER \<noteq> 0"
  {
    assume "unat (wIndexS AND 0xff) = i + 1" "\<not> debug_port_active c (i + 1)"
    then show "ehci_hub_control x c SetPortFeature wValue wIndexS s = (0, NoReply, s)"
      using i o set_port_feature_owned [of c wIndexS s x wValue]
      by (simp add: hub_control_SetPortFeature)
  }
  assume w: "unat wIndex = i + 1"
  then have nz: "wIndex \<noteq> 0" by auto
  have rng: "\<not> (wIndex = 0 \<or> unat wIndex > HCS_N_PORTS (hcs_params c))" "unat wIndex - 1 = i"
    using w i nz by simp_all
  show "ehci_hub_control x c ClearPortFeature USB_PORT_FEAT_C_CONNECTION wIndex s =
          (0, NoReply, ehci_writel x
             (((if has_lpm c then (port_status s i AND NOT PORT_LPM) AND NOT PORT_DEV_ADDR
                else port_status s i) AND NOT PORT_RWC_BITS) OR PORT_CSC) (PORTSC i) s)"
    using rng by (simp add: hub_control_ClearPortFeature clear_port_feature_change_bits)
  show "ehci_hub_control x c ClearPortFeature USB_PORT_FEAT_C_ENABLE wIndex s =
          (0, NoReply,
           ehci_writel x ((port_status s i AND NOT PORT_RWC_BITS) OR PORT_PEC) (PORTSC i) s)"
    using rng by (simp add: hub_control_ClearPortFeature clear_port_feature_change_bits)
  show "ehci_hub_control x c ClearPortFeature USB_PORT_FEAT_C_OVER_CURRENT wIndex s =
          (0, NoReply,
           ehci_writel x ((port_status s i AND NOT PORT_RWC_BITS) OR PORT_OCC) (PORTSC i) s)"
    using rng by (simp add: hub_control_ClearPortFeature clear_port_feature_change_bits)
  show "ehci_hub_control x c ClearPortFeature USB_PORT_FEAT_C_SUSPEND wIndex s =
          (0, NoReply, s\<lparr>port_c_suspend := clear_bit i (port_c_suspend s)\<rparr>)"
    using rng by (simp add: hub_control_ClearPortFeature clear_port_feature_change_bits)
  show "let r = ehci_hub_control x c ClearPortFeature wValue wIndex s;
              r0 = ehci_hub_control x c ClearPortFeature wValue wIndex
                     (s\<lparr>port_status := (port_status s)(i := port_status s i AND NOT PORT_OWNER)\<rparr>)
          in fst r = fst r0
             \<and> port_c_suspend (snd (snd r)) = port_c_suspend (snd (snd r0))
             \<and> reset_done (snd (snd r)) = reset_done (snd (snd r0))
             \<and> suspended_ports (snd (snd r)) = suspended_ports (snd (snd r0))
             \<and> resuming_ports (snd (snd r)) = resuming_ports (snd (snd r0))
             \<and> map (\<lambda>(r, v). (r, v AND NOT PORT_OWNER)) (writes (snd (snd r)))
                 = map (\<lambda>(r, v). (r, v AND NOT PORT_OWNER)) (writes (snd (snd r0)))"
    using rng
      clear_port_feature_owner_indep [of
        "s\<lparr>port_status := (port_status s)(i := port_status s i XOR PORT_OWNER)\<rparr>" s i x c wValue]
    by (simp add: hub_control_ClearPortFeature Let_def owned_and_not [OF o])
qed

text \<open>
  The theorem on the two-port controller with port 0 owned by the companion and showing
  a connect change: SetPortFeature(RESET) changes nothing, ClearPortFeature(C_CONNECTION)
  succeeds.
\<close>

theorem C5_witness:
  "(0 :: nat) < HCS_N_PORTS (hcs_params cfg2)
   \<and> port_status (hcd2\<lparr>port_status := (\<lambda>i. if i = 0 then 0x2003 else 0)\<rparr>) 0 AND PORT_OWNER \<noteq> 0
   \<and> ehci_hub_control ext_store cfg2 SetPortFeature USB_PORT_FEAT_RESET 1
         (hcd2\<lparr>port_status := (\<lambda>i. if i = 0 then 0x2003 else 0)\<rparr>)
       = (0, NoReply, hcd2\<lparr>port_status := (\<lambda>i. if i = 0 then 0x2003 else 0)\<rparr>)
   \<and> fst (ehci_hub_control ext_store cfg2 ClearPortFeature USB_PORT_FEAT_C_CONNECTION 1
         (hcd2\<lparr>port_status := (\<lambda>i. if i = 0 then 0x2003 else 0)\<rparr>)) = 0"
  using C5_owned_port [of 0 cfg2 "hcd2\<lparr>port_status := (\<lambda>i. if i = 0 then 0x2003 else 0)\<rparr>"
      1 ext_store USB_PORT_FEAT_RESET 1]
  by (simp add: cfg2_def HCS_N_PORTS_def PORT_OWNER_def debug_port_active_def)

text \<open>
  The claim as stated fails when the owned port is the active debug port: the request
  is denied with \<open>-ENODEV\<close> before the ownership test, so it does not return success.
\<close>

theorem C5_counterexample:
  "(0 :: nat) < HCS_N_PORTS (hcs_params (cfg2\<lparr>hcs_params := 0x100012, debug := Some DBGP_ENABLED\<rparr>))
   \<and> port_status (hcd2\<lparr>port_status := (\<lambda>i. if i = 0 then 0x2000 else 0)\<rparr>) 0 AND PORT_OWNER \<noteq> 0
   \<and> ehci_hub_control ext_store (cfg2\<lparr>hcs_params := 0x100012, debug := Some DBGP_ENABLED\<rparr>)
         SetPortFeature USB_PORT_FEAT_POWER 1
         (hcd2\<lparr>port_status := (\<lambda>i. if i = 0 then 0x2000 else 0)\<rparr>)
       = (- ENODEV, NoReply, hcd2\<lparr>port_status := (\<lambda>i. if i = 0 then 0x2000 else 0)\<rparr>)"
  using set_port_feature_denied [of "cfg2\<lparr>hcs_params := 0x100012, debug := Some DBGP_ENABLED\<rparr>" 1
      ext_store USB_PORT_FEAT_POWER "hcd2\<lparr>port_status := (\<lambda>i. if i = 0 then 0x2000 else 0)\<rparr>"]
  by (simp add: hub_control_SetPortFeature cfg2_def HCS_N_PORTS_def HCS_DEBUG_PORT_def
      PORT_OWNER_def debug_port_active_def DBGP_ENABLED_def)

subsection \<open>ClearPortFeature(SUSPEND) on a port that is not suspended\<close>

lemma clear_suspend_noop:
  assumes "port_status s i AND PORT_RESET = 0"
    and "port_status s i AND PORT_SUSPEND = 0 \<or> no_selective_suspend c"
  shows "clear_port_feature x c USB_PORT_FEAT_SUSPEND i s =
     (True, if \<not> no_selective_suspend c \<and> CONFIG_USB_OTG c \<and> otg_port c = i + 1
                \<and> b_hnp_enable c
            then s\<lparr>hnp_started := hnp_started s + 1\<rparr> else s)"
  using assms by (auto simp add: clear_port_feature_def Let_def feat_defs)

lemma clear_suspend_reset:
  "port_status s i AND PORT_RESET \<noteq> 0 \<Longrightarrow>
   clear_port_feature x c USB_PORT_FEAT_SUSPEND i s = (False, s)"
  by (simp add: clear_port_feature_def Let_def feat_defs)

text \<open>
  C8, as amended. For every in-range port whose register shows neither the suspend bit
  nor the reset bit, ClearPortFeature(port, SUSPEND) returns success and changes no register and
  no tracker state: port registers, HOSTPC registers, global registers, the record of
  register writes, the five bitmaps and the deadlines are all as before. The same holds
  on a controller with selective suspend disabled, for a port not in reset. The one
  field of the state that can differ is \<open>hnp_started\<close>: in a build with
  \<open>CONFIG_USB_OTG\<close>, on the OTG port with HNP enabled and selective suspend not
  disabled, the request hands over to \<open>otg_start_hnp\<close>; otherwise the state is
  unchanged altogether. If the port's reset bit is set the request fails with the
  stall error and the state is unchanged.
\<close>

theorem C8_clear_suspend_noop:
  "unat wIndex = i + 1 \<and> i < HCS_N_PORTS (hcs_params c) \<longrightarrow>
     (port_status s i AND PORT_RESET = 0
        \<and> (port_status s i AND PORT_SUSPEND = 0 \<or> no_selective_suspend c) \<longrightarrow>
        (\<exists>s'. ehci_hub_control x c ClearPortFeature USB_PORT_FEAT_SUSPEND wIndex s
                = (0, NoReply, s')
            \<and> s'\<lparr>hnp_started := hnp_started s\<rparr> = s
            \<and> port_status s' = port_status s \<and> hostpc s' = hostpc s \<and> sched s' = sched s
            \<and> writes s' = writes s
            \<and> suspended_ports s' = suspended_ports s \<and> resuming_ports s' = resuming_ports s
            \<and> port_c_suspend s' = port_c_suspend s \<and> reset_done s' = reset_done s
            \<and> owned_ports s' = owned_ports s \<and> bus_suspended s' = bus_suspended s
            \<and> (no_selective_suspend c
                 \<or> \<not> (CONFIG_USB_OTG c \<and> otg_port c = i + 1 \<and> b_hnp_enable c)
                \<longrightarrow> s' = s)))
   \<and> (port_status s i AND PORT_RESET \<noteq> 0 \<longrightarrow>
        ehci_hub_control x c ClearPortFeature USB_PORT_FEAT_SUSPEND wIndex s
          = (- EPIPE, NoReply, s))"
proof (intro impI conjI; elim conjE)
  assume w: "unat wIndex = i + 1" and i: "i < HCS_N_PORTS (hcs_params c)"
  then have rng: "\<not> (wIndex = 0 \<or> unat wIndex > HCS_N_PORTS (hcs_params c))" "unat wIndex - 1 = i"
    by auto
  {
    assume "port_status s i AND PORT_RESET = 0"
      "port_status s i AND PORT_SUSPEND = 0 \<or> no_selective_suspend c"
    then show "\<exists>s'. ehci_hub_control x c ClearPortFeature USB_PORT_FEAT_SUSPEND wIndex s
                = (0, NoReply, s')
            \<and> s'\<lparr>hnp_started := hnp_started s\<rparr> = s
            \<and> port_status s' = port_status s \<and> hostpc s' = hostpc s \<and> sched s' = sched s
            \<and> writes s' = writes s
            \<and> suspended_ports s' = suspended_ports s \<and> resuming_ports s' = resuming_ports s
            \<and> port_c_suspend s' = port_c_suspend s \<and> reset_done s' = reset_done s
            \<and> owned_ports s' = owned_ports s \<and> bus_suspended s' = bus_suspended s
            \<and> (no_selective_suspend c
                 \<or> \<not> (CONFIG_USB_OTG c \<and> otg_port c = i + 1 \<and> b_hnp_enable c)
                \<longrightarrow> s' = s)"
      using rng clear_suspend_noop [of s i c x]
      by (auto simp add: hub_control_ClearPortFeature)
  }
  assume "port_status s i AND PORT_RESET \<noteq> 0"
  then show "ehci_hub_control x c ClearPortFeature USB_PORT_FEAT_SUSPEND wIndex s
          = (- EPIPE, NoReply, s)"
    using rng by (simp add: hub_control_ClearPortFeature clear_suspend_reset)
qed

text \<open>
  The theorem on the two-port controller: a no-op on the connected, enabled, powered
  port 0, and the stall error when that port also shows the reset bit.
\<close>

theorem C8_witness:
  "unat (1 :: u16) = 0 + 1 \<and> (0 :: nat) < HCS_N_PORTS (hcs_params cfg2)
   \<and> port_status (hcd2\<lparr>port_status := (\<lambda>i. if i = 0 then 0x1005 else 0)\<rparr>) 0 AND PORT_RESET = 0
   \<and> port_status (hcd2\<lparr>port_status := (\<lambda>i. if i = 0 then 0x1005 else 0)\<rparr>) 0 AND PORT_SUSPEND = 0
   \<and> ehci_hub_control ext_store cfg2 ClearPortFeature USB_PORT_FEAT_SUSPEND 1
         (hcd2\<lparr>port_status := (\<lambda>i. if i = 0 then 0x1005 else 0)\<rparr>)
       = (0, NoReply, hcd2\<lparr>port_status := (\<lambda>i. if i = 0 then 0x1005 else 0)\<rparr>)
   \<and> port_status (hcd2\<lparr>port_status := (\<lambda>i. if i = 0 then 0x1105 else 0)\<rparr>) 0 AND PORT_RESET \<noteq> 0
   \<and> ehci_hub_control ext_store cfg2 ClearPortFeature USB_PORT_FEAT_SUSPEND 1
         (hcd2\<lparr>port_status := (\<lambda>i. if i = 0 then 0x1105 else 0)\<rparr>)
       = (- EPIPE, NoReply, hcd2\<lparr>port_status := (\<lambda>i. if i = 0 then 0x1105 else 0)\<rparr>)"
  using C8_clear_suspend_noop [of 1 0 cfg2 "hcd2\<lparr>port_status := (\<lambda>i. if i = 0 then 0x1005 else 0)\<rparr>" ext_store]
    C8_clear_suspend_noop [of 1 0 cfg2 "hcd2\<lparr>port_status := (\<lambda>i. if i = 0 then 0x1105 else 0)\<rparr>" ext_store]
  by (auto simp add: cfg2_def HCS_N_PORTS_def PORT_RESET_def PORT_SUSPEND_def)

text \<open>
  The claim as stated fails in a build with \<open>CONFIG_USB_OTG\<close> on the OTG port with HNP
  enabled: the request on the connected, enabled port 0, which is not suspended, calls
  \<open>otg_start_hnp\<close> before it looks at the suspend bit, so it is not without effect.
\<close>

theorem C8_counterexample:
  "unat (1 :: u16) = 0 + 1
   \<and> (0 :: nat) < HCS_N_PORTS (hcs_params
        (cfg2\<lparr>CONFIG_USB_OTG := True, otg_port := 1, b_hnp_enable := True\<rparr>))
   \<and> port_status (hcd2\<lparr>port_status := (\<lambda>i. if i = 0 then 0x1005 else 0)\<rparr>) 0 AND PORT_SUSPEND = 0
   \<and> port_status (hcd2\<lparr>port_status := (\<lambda>i. if i = 0 then 0x1005 else 0)\<rparr>) 0 AND PORT_RESET = 0
   \<and> ehci_hub_control ext_store
        (cfg2\<lparr>CONFIG_USB_OTG := True, otg_port := 1, b_hnp_enable := True\<rparr>)
        ClearPortFeature USB_PORT_FEAT_SUSPEND 1
        (hcd2\<lparr>port_status := (\<lambda>i. if i = 0 then 0x1005 else 0)\<rparr>)
      = (0, NoReply, hcd2\<lparr>port_status := (\<lambda>i. if i = 0 then 0x1005 else 0), hnp_started := 1\<rparr>)
   \<and> hnp_started (hcd2\<lparr>port_status := (\<lambda>i. if i = 0 then 0x1005 else 0)\<rparr>) = 0"
  using clear_suspend_noop [of "hcd2\<lparr>port_status := (\<lambda>i. if i = 0 then 0x1005 else 0)\<rparr>" 0
      "cfg2\<lparr>CONFIG_USB_OTG := True, otg_port := 1, b_hnp_enable := True\<rparr>" ext_store]
  by (simp add: hub_control_ClearPortFeature cfg2_def hcd2_def HCS_N_PORTS_def PORT_SUSPEND_def
      PORT_RESET_def)

subsection \<open>SetPortFeature(RESET)\<close>

lemma ehci_readl_USBCMD [simp]: "ehci_readl s USBCMD = usbcmd (sched s)"
  by (simp add: ehci_readl_def)

lemma port_status_handshake [simp]:
  "port_status (snd (handshake x r m d u s)) i =
     (if r = PORTSC i then snd (hw_handshake x r (ehci_readl s r) m d u) else port_status s i)"
  by (simp add: handshake_def split_def Let_def)

lemma ehci_readl_handshake [simp]:
  "ehci_readl (snd (handshake x r m d u s)) r' =
     (if r' = r then snd (hw_handshake x r (ehci_readl s r) m d u) else ehci_readl s r')"
  by (simp add: handshake_def split_def Let_def)

lemma reset_resume_stalls:
  "temp AND PORT_RESUME \<noteq> 0 \<Longrightarrow> set_port_feature_reset x c i temp s = (False, s)"
  by (simp add: set_port_feature_reset_def)

lemma reset_handover:
  assumes "temp AND PORT_RESUME = 0"
    and "port_status s i AND NOT PORT_RWC_BITS = temp"
    and "temp AND (PORT_PE OR PORT_CONNECT) = PORT_CONNECT \<and> \<not> ehci_is_TDI c \<and> PORT_USB11 temp"
    and "halt \<longleftrightarrow> reset_sof_bug c \<and> (temp OR PORT_OWNER) AND PORT_RESET \<noteq> 0"
  shows "fst (set_port_feature_reset x c i temp s) = True"
    and "reset_done (snd (set_port_feature_reset x c i temp s)) = reset_done s"
    and "writes (snd (set_port_feature_reset x c i temp s)) =
          writes s
          @ (if halt then [(USBCMD, usbcmd (sched s) AND NOT CMD_RUN)] else [])
          @ [(PORTSC i, temp OR PORT_OWNER)]
          @ (if halt \<and> enable_ulpi_control c
             then [(PORTSC i, hw_write x (PORTSC i) (port_status s i) (temp OR PORT_OWNER)
                                AND NOT (PORT_RWC_BITS OR PORT_RESET)),
                   (USBCMD, (usbcmd (sched s) AND NOT CMD_RUN) OR CMD_RUN)]
             else [])"
  using assms
  by (simp_all add: set_port_feature_reset_def Let_def split_def)

lemma reset_started:
  assumes "temp AND PORT_RESUME = 0"
    and "port_status s i AND NOT PORT_RWC_BITS = temp"
    and "\<not> (temp AND (PORT_PE OR PORT_CONNECT) = PORT_CONNECT \<and> \<not> ehci_is_TDI c
            \<and> PORT_USB11 temp)"
  shows "fst (set_port_feature_reset x c i temp s) = True"
    and "reset_done (snd (set_port_feature_reset x c i temp s)) =
          (reset_done s)(i := jiffies s + msecs_to_jiffies 50)"
    and "writes (snd (set_port_feature_reset x c i temp s)) =
          writes s
          @ (if reset_sof_bug c then [(USBCMD, usbcmd (sched s) AND NOT CMD_RUN)] else [])
          @ [(PORTSC i, (temp OR PORT_RESET) AND NOT PORT_PE)]
          @ (if reset_sof_bug c \<and> enable_ulpi_control c
             then [(PORTSC i, hw_write x (PORTSC i) (port_status s i)
                                ((temp OR PORT_RESET) AND NOT PORT_PE)
                                AND NOT (PORT_RWC_BITS OR PORT_RESET)),
                   (USBCMD, (usbcmd (sched s) AND NOT CMD_RUN) OR CMD_RUN)]
             else [])"
proof -
  have r: "((temp OR PORT_RESET) AND NOT PORT_PE) AND PORT_RESET \<noteq> 0"
    by (simp add: bit_view)
  show "fst (set_port_feature_reset x c i temp s) = True"
    using assms by (auto simp add: set_port_feature_reset_def Let_def split_def)
  show "reset_done (snd (set_port_feature_reset x c i temp s)) =
          (reset_done s)(i := jiffies s + msecs_to_jiffies 50)"
    using assms by (auto simp add: set_port_feature_reset_def Let_def split_def)
  show "writes (snd (set_port_feature_reset x c i temp s)) =
          writes s
          @ (if reset_sof_bug c then [(USBCMD, usbcmd (sched s) AND NOT CMD_RUN)] else [])
          @ [(PORTSC i, (temp OR PORT_RESET) AND NOT PORT_PE)]
          @ (if reset_sof_bug c \<and> enable_ulpi_control c
             then [(PORTSC i, hw_write x (PORTSC i) (port_status s i)
                                ((temp OR PORT_RESET) AND NOT PORT_PE)
                                AND NOT (PORT_RWC_BITS OR PORT_RESET)),
                   (USBCMD, (usbcmd (sched s) AND NOT CMD_RUN) OR CMD_RUN)]
             else [])"
    using assms r by (auto simp add: set_port_feature_reset_def Let_def split_def)
qed


lemma set_port_feature_RESET:
  assumes "unat (wIndex AND 0xff) = i + 1" "i < HCS_N_PORTS (hcs_params c)"
    and "\<not> debug_port_active c (i + 1)" "port_status s i AND PORT_OWNER = 0"
  shows "set_port_feature x c USB_PORT_FEAT_RESET wIndex s =
     (if fst (set_port_feature_reset x c i (port_status s i AND NOT PORT_RWC_BITS) s)
      then 0 else - EPIPE,
      snd (set_port_feature_reset x c i (port_status s i AND NOT PORT_RWC_BITS) s))"
  using assms by (simp add: set_port_feature_def Let_def split_def feat_defs)

lemma reset_bit_facts:
  "((temp OR PORT_RESET) AND NOT PORT_PE) AND PORT_RESET \<noteq> 0"
  "((temp OR PORT_RESET) AND NOT PORT_PE) AND PORT_PE = 0"
  "((t AND NOT PORT_RWC_BITS) OR PORT_OWNER) AND PORT_RESET \<noteq> 0 \<longleftrightarrow> t AND PORT_RESET \<noteq> 0"
  "(u AND NOT (PORT_RWC_BITS OR PORT_RESET)) AND PORT_RESET = 0"
  by (simp_all add: bit_view)

text \<open>
  C3, as amended. For every in-range port that is not owned by the companion and is not
  the active debug port (a request to which is denied with \<open>-ENODEV\<close> before anything
  else), with \<open>temp\<close> the port register without its write-one-to-clear bits:
  SetPortFeature(port, RESET) fails with the stall error, changing nothing, if the
  resume bit is set. Otherwise, if the port is connected but not enabled, the line
  status reports a full/low-speed device and the controller has no internal transaction
  translator, the request succeeds, the first value it writes to the port register is
  \<open>temp\<close> with the ownership bit set, no write of the request asserts a reset bit
  that the register did not already show, and no deadline is recorded. Otherwise the
  request succeeds, the first value it writes to the port register is \<open>temp\<close> with
  the reset bit set and the enable bit cleared, and the port's deadline becomes the
  current time plus 50.
\<close>

theorem C3_set_port_feature_reset:
  "unat (wIndex AND 0xff) = i + 1 \<and> i < HCS_N_PORTS (hcs_params c)
   \<and> \<not> debug_port_active c (i + 1) \<and> port_status s i AND PORT_OWNER = 0
   \<and> temp = port_status s i AND NOT PORT_RWC_BITS \<longrightarrow>
     (temp AND PORT_RESUME \<noteq> 0 \<longrightarrow>
        ehci_hub_control x c SetPortFeature USB_PORT_FEAT_RESET wIndex s = (- EPIPE, NoReply, s))
   \<and> (temp AND PORT_RESUME = 0 \<and> temp AND (PORT_PE OR PORT_CONNECT) = PORT_CONNECT
        \<and> \<not> ehci_is_TDI c \<and> PORT_USB11 temp \<longrightarrow>
        (\<exists>s'. ehci_hub_control x c SetPortFeature USB_PORT_FEAT_RESET wIndex s = (0, NoReply, s')
           \<and> find (\<lambda>w. fst w = PORTSC i) (drop (length (writes s)) (writes s'))
               = Some (PORTSC i, temp OR PORT_OWNER)
           \<and> (\<forall>v. (PORTSC i, v) \<in> set (drop (length (writes s)) (writes s'))
                  \<and> v AND PORT_RESET \<noteq> 0 \<longrightarrow> port_status s i AND PORT_RESET \<noteq> 0)
           \<and> reset_done s' = reset_done s))
   \<and> (temp AND PORT_RESUME = 0
        \<and> \<not> (temp AND (PORT_PE OR PORT_CONNECT) = PORT_CONNECT
              \<and> \<not> ehci_is_TDI c \<and> PORT_USB11 temp) \<longrightarrow>
        (\<exists>s' v. ehci_hub_control x c SetPortFeature USB_PORT_FEAT_RESET wIndex s = (0, NoReply, s')
           \<and> v = (temp OR PORT_RESET) AND NOT PORT_PE
           \<and> v AND PORT_RESET \<noteq> 0 \<and> v AND PORT_PE = 0
           \<and> find (\<lambda>w. fst w = PORTSC i) (drop (length (writes s)) (writes s'))
               = Some (PORTSC i, v)
           \<and> reset_done s' = (reset_done s)(i := jiffies s + 50)))"
proof (intro impI conjI; elim conjE)
  assume a: "unat (wIndex AND 0xff) = i + 1" "i < HCS_N_PORTS (hcs_params c)"
    "\<not> debug_port_active c (i + 1)" "port_status s i AND PORT_OWNER = 0"
    and t: "temp = port_status s i AND NOT PORT_RWC_BITS"
  note ctl = hub_control_SetPortFeature set_port_feature_RESET [OF a] t [symmetric]
  let ?r = "set_port_feature_reset x c i temp s"
  {
    assume "temp AND PORT_RESUME \<noteq> 0"
    then show "ehci_hub_control x c SetPortFeature USB_PORT_FEAT_RESET wIndex s
        = (- EPIPE, NoReply, s)"
      by (simp add: ctl reset_resume_stalls)
  }
  {
    assume r: "temp AND PORT_RESUME = 0" and h: "temp AND (PORT_PE OR PORT_CONNECT) = PORT_CONNECT"
      "\<not> ehci_is_TDI c" "PORT_USB11 temp"
    define halt where "halt \<longleftrightarrow> reset_sof_bug c \<and> (temp OR PORT_OWNER) AND PORT_RESET \<noteq> 0"
    have e: "fst ?r = True" "reset_done (snd ?r) = reset_done s"
      "writes (snd ?r) = writes s
          @ (if halt then [(USBCMD, usbcmd (sched s) AND NOT CMD_RUN)] else [])
          @ [(PORTSC i, temp OR PORT_OWNER)]
          @ (if halt \<and> enable_ulpi_control c
             then [(PORTSC i, hw_write x (PORTSC i) (port_status s i) (temp OR PORT_OWNER)
                                AND NOT (PORT_RWC_BITS OR PORT_RESET)),
                   (USBCMD, (usbcmd (sched s) AND NOT CMD_RUN) OR CMD_RUN)]
             else [])"
      using reset_handover [where x = x and c = c, OF r t [symmetric] _ halt_def] h by simp_all
    have "ehci_hub_control x c SetPortFeature USB_PORT_FEAT_RESET wIndex s = (0, NoReply, snd ?r)"
      by (simp add: ctl e(1))
    moreover have "find (\<lambda>w. fst w = PORTSC i) (drop (length (writes s)) (writes (snd ?r)))
               = Some (PORTSC i, temp OR PORT_OWNER)"
      by (simp add: e(3))
    moreover have "\<forall>v. (PORTSC i, v) \<in> set (drop (length (writes s)) (writes (snd ?r)))
                  \<and> v AND PORT_RESET \<noteq> 0 \<longrightarrow> port_status s i AND PORT_RESET \<noteq> 0"
    proof (intro allI impI, elim conjE)
      fix v assume m: "(PORTSC i, v) \<in> set (drop (length (writes s)) (writes (snd ?r)))"
        and v: "v AND PORT_RESET \<noteq> 0"
      have "v = temp OR PORT_OWNER
          \<or> v = hw_write x (PORTSC i) (port_status s i) (temp OR PORT_OWNER)
                  AND NOT (PORT_RWC_BITS OR PORT_RESET)"
        using m by (auto simp add: e(3) split: if_splits)
      then have "v = temp OR PORT_OWNER"
        using v reset_bit_facts(4) by blast
      then show "port_status s i AND PORT_RESET \<noteq> 0"
        using v reset_bit_facts(3) [of "port_status s i"] by (simp add: t)
    qed
    ultimately show "\<exists>s'. ehci_hub_control x c SetPortFeature USB_PORT_FEAT_RESET wIndex s
             = (0, NoReply, s')
           \<and> find (\<lambda>w. fst w = PORTSC i) (drop (length (writes s)) (writes s'))
               = Some (PORTSC i, temp OR PORT_OWNER)
           \<and> (\<forall>v. (PORTSC i, v) \<in> set (drop (length (writes s)) (writes s'))
                  \<and> v AND PORT_RESET \<noteq> 0 \<longrightarrow> port_status s i AND PORT_RESET \<noteq> 0)
           \<and> reset_done s' = reset_done s"
      using e(2) by blast
  }
  {
    assume r: "temp AND PORT_RESUME = 0"
      and h: "\<not> (temp AND (PORT_PE OR PORT_CONNECT) = PORT_CONNECT
              \<and> \<not> ehci_is_TDI c \<and> PORT_USB11 temp)"
    let ?v = "(temp OR PORT_RESET) AND NOT PORT_PE"
    have e: "fst ?r = True"
      "reset_done (snd ?r) = (reset_done s)(i := jiffies s + msecs_to_jiffies 50)"
      "writes (snd ?r) = writes s
          @ (if reset_sof_bug c then [(USBCMD, usbcmd (sched s) AND NOT CMD_RUN)] else [])
          @ [(PORTSC i, ?v)]
          @ (if reset_sof_bug c \<and> enable_ulpi_control c
             then [(PORTSC i, hw_write x (PORTSC i) (port_status s i) ?v
                                AND NOT (PORT_RWC_BITS OR PORT_RESET)),
                   (USBCMD, (usbcmd (sched s) AND NOT CMD_RUN) OR CMD_RUN)]
             else [])"
      using reset_started [where x = x, OF r t [symmetric] h] by simp_all
    have "ehci_hub_control x c SetPortFeature USB_PORT_FEAT_RESET wIndex s = (0, NoReply, snd ?r)"
      by (simp add: ctl e(1))
    moreover have "find (\<lambda>w. fst w = PORTSC i) (drop (length (writes s)) (writes (snd ?r)))
               = Some (PORTSC i, ?v)"
      by (simp add: e(3))
    moreover have "reset_done (snd ?r) = (reset_done s)(i := jiffies s + 50)"
      by (simp add: e(2) msecs_to_jiffies_def)
    ultimately show "\<exists>s' v. ehci_hub_control x c SetPortFeature USB_PORT_FEAT_RESET wIndex s
             = (0, NoReply, s')
           \<and> v = (temp OR PORT_RESET) AND NOT PORT_PE
           \<and> v AND PORT_RESET \<noteq> 0 \<and> v AND PORT_PE = 0
           \<and> find (\<lambda>w. fst w = PORTSC i) (drop (length (writes s)) (writes s'))
               = Some (PORTSC i, v)
           \<and> reset_done s' = (reset_done s)(i := jiffies s + 50)"
      using reset_bit_facts(1,2) [of temp] by blast
  }
qed


text \<open>
  The theorem on the two-port controller: the stall error for port 0 in resume, and a
  reset with deadline 1050 (the clock stands at 1000) for a connected, powered port 0.
\<close>

theorem C3_witness:
  "unat ((1 :: u16) AND 0xff) = 0 + 1 \<and> (0 :: nat) < HCS_N_PORTS (hcs_params cfg2)
   \<and> \<not> debug_port_active cfg2 (0 + 1)
   \<and> (0x45 :: u32) AND PORT_OWNER = 0 \<and> ((0x45 :: u32) AND NOT PORT_RWC_BITS) AND PORT_RESUME \<noteq> 0
   \<and> ehci_hub_control ext_store cfg2 SetPortFeature USB_PORT_FEAT_RESET 1
         (hcd2\<lparr>port_status := (\<lambda>i. if i = 0 then 0x45 else 0)\<rparr>)
       = (- EPIPE, NoReply, hcd2\<lparr>port_status := (\<lambda>i. if i = 0 then 0x45 else 0)\<rparr>)
   \<and> (0x1001 :: u32) AND PORT_OWNER = 0 \<and> ((0x1001 :: u32) AND NOT PORT_RWC_BITS) AND PORT_RESUME = 0
   \<and> \<not> PORT_USB11 ((0x1001 :: u32) AND NOT PORT_RWC_BITS)
   \<and> fst (ehci_hub_control ext_store cfg2 SetPortFeature USB_PORT_FEAT_RESET 1
         (hcd2\<lparr>port_status := (\<lambda>i. if i = 0 then 0x1001 else 0)\<rparr>)) = 0
   \<and> reset_done (snd (snd (ehci_hub_control ext_store cfg2 SetPortFeature USB_PORT_FEAT_RESET 1
         (hcd2\<lparr>port_status := (\<lambda>i. if i = 0 then 0x1001 else 0)\<rparr>)))) 0 = 1050"
proof -
  have b: "(0x45 :: u32) AND PORT_OWNER = 0" "((0x45 :: u32) AND NOT PORT_RWC_BITS) AND PORT_RESUME \<noteq> 0"
    "(0x1001 :: u32) AND PORT_OWNER = 0" "((0x1001 :: u32) AND NOT PORT_RWC_BITS) AND PORT_RESUME = 0"
    "\<not> PORT_USB11 ((0x1001 :: u32) AND NOT PORT_RWC_BITS)"
    by (simp_all add: PORT_OWNER_def PORT_RWC_BITS_def PORT_CSC_def PORT_PEC_def PORT_OCC_def
        PORT_RESUME_def PORT_USB11_def)
  have c: "unat ((1 :: u16) AND 0xff) = 0 + 1" "(0 :: nat) < HCS_N_PORTS (hcs_params cfg2)"
    "\<not> debug_port_active cfg2 (0 + 1)"
    by (simp_all add: cfg2_def HCS_N_PORTS_def debug_port_active_def)
  have j: "jiffies (hcd2\<lparr>port_status := (\<lambda>i. if i = 0 then 0x1001 else 0)\<rparr>) + 50 = 1050"
    by (simp add: hcd2_def)
  show ?thesis
    using C3_set_port_feature_reset [of 1 0 cfg2
        "hcd2\<lparr>port_status := (\<lambda>i. if i = 0 then 0x45 else 0)\<rparr>"
        "(0x45 :: u32) AND NOT PORT_RWC_BITS" ext_store]
      C3_set_port_feature_reset [of 1 0 cfg2
        "hcd2\<lparr>port_status := (\<lambda>i. if i = 0 then 0x1001 else 0)\<rparr>"
        "(0x1001 :: u32) AND NOT PORT_RWC_BITS" ext_store]
      b c j
    by force
qed

text \<open>
  The claim as stated fails when the port is the active debug port: with the resume bit
  set the request does not fail with the stall error but is denied with \<open>-ENODEV\<close>.
\<close>

theorem C3_counterexample:
  "(0 :: nat) < HCS_N_PORTS (hcs_params (cfg2\<lparr>hcs_params := 0x100012, debug := Some DBGP_ENABLED\<rparr>))
   \<and> port_status (hcd2\<lparr>port_status := (\<lambda>i. if i = 0 then 0x45 else 0)\<rparr>) 0 AND PORT_OWNER = 0
   \<and> port_status (hcd2\<lparr>port_status := (\<lambda>i. if i = 0 then 0x45 else 0)\<rparr>) 0 AND PORT_RESUME \<noteq> 0
   \<and> ehci_hub_control ext_store (cfg2\<lparr>hcs_params := 0x100012, debug := Some DBGP_ENABLED\<rparr>)
         SetPortFeature USB_PORT_FEAT_RESET 1
         (hcd2\<lparr>port_status := (\<lambda>i. if i = 0 then 0x45 else 0)\<rparr>)
       = (- ENODEV, NoReply, hcd2\<lparr>port_status := (\<lambda>i. if i = 0 then 0x45 else 0)\<rparr>)"
  using set_port_feature_denied [of "cfg2\<lparr>hcs_params := 0x100012, debug := Some DBGP_ENABLED\<rparr>" 1
      ext_store USB_PORT_FEAT_RESET "hcd2\<lparr>port_status := (\<lambda>i. if i = 0 then 0x45 else 0)\<rparr>"]
  by (simp add: hub_control_SetPortFeature cfg2_def HCS_N_PORTS_def HCS_DEBUG_PORT_def
      PORT_OWNER_def PORT_RESUME_def debug_port_active_def DBGP_ENABLED_def)

section \<open>GetPortStatus\<close>

subsection \<open>The bits of the status word\<close>

lemma stat_bits:
  "USB_PORT_STAT_CONNECTION = push_bit 0 1" "USB_PORT_STAT_ENABLE = push_bit 1 1"
  "USB_PORT_STAT_SUSPEND = push_bit 2 1" "USB_PORT_STAT_OVERCURRENT = push_bit 3 1"
  "USB_PORT_STAT_RESET = push_bit 4 1" "USB_PORT_STAT_POWER = push_bit 8 1"
  "USB_PORT_STAT_LOW_SPEED = push_bit 9 1" "USB_PORT_STAT_HIGH_SPEED = push_bit 10 1"
  "push_bit 16 USB_PORT_STAT_C_CONNECTION = push_bit 16 1"
  "push_bit 16 USB_PORT_STAT_C_ENABLE = push_bit 17 1"
  "push_bit 16 USB_PORT_STAT_C_SUSPEND = push_bit 18 1"
  "push_bit 16 USB_PORT_STAT_C_OVERCURRENT = push_bit 19 1"
  "push_bit 16 USB_PORT_STAT_C_RESET = push_bit 20 1"
  by (simp_all add: USB_PORT_STAT_CONNECTION_def USB_PORT_STAT_ENABLE_def
      USB_PORT_STAT_SUSPEND_def USB_PORT_STAT_OVERCURRENT_def USB_PORT_STAT_RESET_def
      USB_PORT_STAT_POWER_def USB_PORT_STAT_LOW_SPEED_def USB_PORT_STAT_HIGH_SPEED_def
      USB_PORT_STAT_C_CONNECTION_def USB_PORT_STAT_C_ENABLE_def USB_PORT_STAT_C_SUSPEND_def
      USB_PORT_STAT_C_OVERCURRENT_def USB_PORT_STAT_C_RESET_def)

lemma bit_stat:
  "bit USB_PORT_STAT_CONNECTION n = (n = 0)" "bit USB_PORT_STAT_ENABLE n = (n = 1)"
  "bit USB_PORT_STAT_SUSPEND n = (n = 2)" "bit USB_PORT_STAT_OVERCURRENT n = (n = 3)"
  "bit USB_PORT_STAT_RESET n = (n = 4)" "bit USB_PORT_STAT_POWER n = (n = 8)"
  "bit USB_PORT_STAT_LOW_SPEED n = (n = 9)" "bit USB_PORT_STAT_HIGH_SPEED n = (n = 10)"
  "bit (push_bit 16 USB_PORT_STAT_C_CONNECTION) n = (n = 16)"
  "bit (push_bit 16 USB_PORT_STAT_C_ENABLE) n = (n = 17)"
  "bit (push_bit 16 USB_PORT_STAT_C_SUSPEND) n = (n = 18)"
  "bit (push_bit 16 USB_PORT_STAT_C_OVERCURRENT) n = (n = 19)"
  "bit (push_bit 16 USB_PORT_STAT_C_RESET) n = (n = 20)"
  unfolding stat_bits by (rule bit_push1, simp)+

lemma stat_flag:
  "(w AND USB_PORT_STAT_SUSPEND \<noteq> 0) = bit w 2"
  "(w AND USB_PORT_STAT_POWER \<noteq> 0) = bit w 8"
  "(w AND push_bit 16 USB_PORT_STAT_C_SUSPEND \<noteq> 0) = bit w 18"
  "(w AND push_bit 16 USB_PORT_STAT_C_OVERCURRENT \<noteq> 0) = bit w 19"
  unfolding stat_bits by (rule flag_iff_bit, simp)+

lemma bit_port_speed: "bit (ehci_port_speed c t) n \<Longrightarrow> n = 9 \<or> n = 10"
  by (auto simp add: ehci_port_speed_def Let_def bit_stat split: if_splits)

lemma bit_if_or: "bit (if b then w OR m else w) n = (bit w n \<or> b \<and> bit m n)"
  by (simp add: bit_or_iff)

lemma fst_if: "fst (if b then p else q) = (if b then fst p else fst q)"
  and snd_if: "snd (if b then p else q) = (if b then snd p else snd q)"
  by simp_all

lemma susp_or_resume: "(t AND (PORT_SUSPEND OR PORT_RESUME) \<noteq> 0) = (bit t 7 \<or> bit t 6)"
  by (auto simp add: and_zero_iff bit_view)

lemma compose_state:
  "snd (get_port_status_compose c i temp status s) =
     (if \<not> (bit temp 7 \<or> bit temp 6) \<and> test_bit i (suspended_ports s)
      then s\<lparr>suspended_ports := clear_bit i (suspended_ports s),
             resuming_ports := clear_bit i (resuming_ports s),
             reset_done := (reset_done s)(i := 0),
             port_c_suspend := (if bit temp 2 then set_bit i (port_c_suspend s)
                                else port_c_suspend s)\<rparr>
      else s)"
  by (simp add: get_port_status_compose_def Let_def split_def susp_or_resume flag_bit)

lemma compose_status:
  "bit (fst (get_port_status_compose c i temp status s)) n \<longleftrightarrow>
     bit status n
     \<or> (bit temp 0 \<and> (n = 0 \<or> bit (ehci_port_speed c (if has_hostpc c then hostpc s i else temp)) n))
     \<or> (bit temp 2 \<and> n = 1)
     \<or> ((bit temp 7 \<or> bit temp 6) \<and> n = 2)
     \<or> (bit temp 4 \<and> n = 3)
     \<or> (bit temp 8 \<and> n = 4)
     \<or> (bit temp 12 \<and> n = 8)
     \<or> (test_bit i (port_c_suspend (snd (get_port_status_compose c i temp status s))) \<and> n = 18)"
  unfolding compose_state
  by (simp add: get_port_status_compose_def Let_def split_def susp_or_resume flag_bit
        fst_if snd_if bit_if_or bit_or_iff bit_stat ehci_readl_def)


subsection \<open>The blocks of GetPortStatus\<close>

lemma oc_result:
  "fst (get_port_status_oc x c i s) =
     (if bit (port_status s i) 5 \<and> \<not> ignore_oc c \<and> bit (port_status s i) 4
         \<and> HCS_PPC (hcs_params c)
      then hw_write x (PORTSC i) (port_status s i)
             (port_status s i AND NOT (PORT_RWC_BITS OR PORT_POWER))
      else port_status s i)"
  "snd (snd (get_port_status_oc x c i s)) =
     (if bit (port_status s i) 5 \<and> \<not> ignore_oc c \<and> bit (port_status s i) 4
         \<and> HCS_PPC (hcs_params c)
      then ehci_writel x (port_status s i AND NOT (PORT_RWC_BITS OR PORT_POWER)) (PORTSC i) s
      else s)"
  by (simp_all add: get_port_status_oc_def Let_def flag_bit)

lemma oc_status:
  "bit (fst (snd (get_port_status_oc x c i s))) n \<longleftrightarrow>
     n = 16 \<and> bit (port_status s i) 1 \<or> n = 17 \<and> bit (port_status s i) 3
     \<or> n = 19 \<and> bit (port_status s i) 5 \<and> \<not> ignore_oc c"
  by (auto simp add: get_port_status_oc_def Let_def flag_bit bit_or_iff bit_stat)

lemma resume_skip:
  "\<not> bit temp 6 \<or> reset_done s i \<noteq> 0 \<and> \<not> time_after_eq (jiffies s) (reset_done s i) \<Longrightarrow>
   get_port_status_resume x i temp s = (0, temp, s)"
  by (auto simp add: get_port_status_resume_def Let_def flag_bit)

lemma resume_arm:
  "bit temp 6 \<Longrightarrow> reset_done s i = 0 \<Longrightarrow>
   get_port_status_resume x i temp s =
     (0, temp, s\<lparr>reset_done := (reset_done s)(i := jiffies s + 20),
                 rh_timer := Some (jiffies s + 20)\<rparr>)"
  by (simp add: get_port_status_resume_def Let_def flag_bit msecs_to_jiffies_def)

lemma resume_complete:
  assumes "bit temp 6" "reset_done s i \<noteq> 0" "time_after_eq (jiffies s) (reset_done s i)"
    and "v = port_status s i AND NOT (PORT_RWC_BITS OR PORT_RESUME)"
    and "h = hw_handshake x (PORTSC i) (hw_write x (PORTSC i) (port_status s i) v)
                  PORT_RESUME 0 2000"
  shows "fst (get_port_status_resume x i temp s) = fst h"
    and "fst (snd (get_port_status_resume x i temp s)) =
           (if fst h \<noteq> 0 then port_status s i
            else port_status s i AND NOT (PORT_SUSPEND OR PORT_RESUME OR push_bit 10 3))"
    and "suspended_ports (snd (snd (get_port_status_resume x i temp s)))
           = clear_bit i (suspended_ports s)"
    and "resuming_ports (snd (snd (get_port_status_resume x i temp s)))
           = clear_bit i (resuming_ports s)"
    and "port_c_suspend (snd (snd (get_port_status_resume x i temp s)))
           = set_bit i (port_c_suspend s)"
    and "reset_done (snd (snd (get_port_status_resume x i temp s))) = (reset_done s)(i := 0)"
    and "rh_timer (snd (snd (get_port_status_resume x i temp s))) = rh_timer s"
    and "jiffies (snd (snd (get_port_status_resume x i temp s))) = jiffies s"
    and "writes (snd (snd (get_port_status_resume x i temp s))) = writes s @ [(PORTSC i, v)]"
    and "port_status (snd (snd (get_port_status_resume x i temp s))) i = snd h"
  using assms
  by (simp_all add: get_port_status_resume_def Let_def flag_bit split_def)


lemma resume_or_reset: "(t AND (PORT_RESUME OR PORT_RESET) \<noteq> 0) = (bit t 6 \<or> bit t 8)"
  by (auto simp add: and_zero_iff bit_view)

lemma crc_fields [simp]:
  "suspended_ports (snd (check_reset_complete x c i p s)) = suspended_ports s"
  "resuming_ports (snd (check_reset_complete x c i p s)) = resuming_ports s"
  "port_c_suspend (snd (check_reset_complete x c i p s)) = port_c_suspend s"
  "reset_done (snd (check_reset_complete x c i p s)) = reset_done s"
  "rh_timer (snd (check_reset_complete x c i p s)) = rh_timer s"
  "jiffies (snd (check_reset_complete x c i p s)) = jiffies s"
  by (simp_all add: check_reset_complete_def Let_def)

lemma crc_writes:
  "\<exists>ws. writes (snd (check_reset_complete x c i p s)) = writes s @ ws"
  by (simp add: check_reset_complete_def Let_def)

lemma reset_skip:
  "\<not> (bit temp 8 \<and> time_after_eq (jiffies s) (reset_done s i)) \<Longrightarrow>
   get_port_status_reset x c i temp status s = (0, temp, status, s)"
  by (auto simp add: get_port_status_reset_def Let_def flag_bit)

lemma reset_fields:
  "suspended_ports (snd (snd (snd (get_port_status_reset x c i temp status s))))
     = suspended_ports s"
  "port_c_suspend (snd (snd (snd (get_port_status_reset x c i temp status s))))
     = port_c_suspend s"
  "rh_timer (snd (snd (snd (get_port_status_reset x c i temp status s)))) = rh_timer s"
  "jiffies (snd (snd (snd (get_port_status_reset x c i temp status s)))) = jiffies s"
  "resuming_ports (snd (snd (snd (get_port_status_reset x c i temp status s)))) =
     (if bit temp 8 \<and> time_after_eq (jiffies s) (reset_done s i)
      then clear_bit i (resuming_ports s) else resuming_ports s)"
  "reset_done (snd (snd (snd (get_port_status_reset x c i temp status s)))) =
     (if bit temp 8 \<and> time_after_eq (jiffies s) (reset_done s i)
      then (reset_done s)(i := 0) else reset_done s)"
  by (simp_all add: get_port_status_reset_def Let_def flag_bit split_def)

lemma reset_status:
  "bit (fst (snd (snd (get_port_status_reset x c i temp status s)))) n \<longleftrightarrow>
     bit status n \<or> bit temp 8 \<and> time_after_eq (jiffies s) (reset_done s i) \<and> n = 20"
  by (auto simp add: get_port_status_reset_def Let_def flag_bit split_def bit_or_iff bit_stat)

lemma reset_writes:
  "\<exists>ws. writes (snd (snd (snd (get_port_status_reset x c i temp status s)))) = writes s @ ws"
proof (cases "bit temp 8 \<and> time_after_eq (jiffies s) (reset_done s i)")
  case False
  then show ?thesis by (simp add: reset_skip)
next
  case True
  let ?s1 = "snd (handshake x (PORTSC i) PORT_RESET 0 1000
      (ehci_writel x (temp AND NOT (PORT_RWC_BITS OR PORT_RESET)) (PORTSC i)
        (s\<lparr>reset_done := (reset_done s)(i := 0),
            resuming_ports := clear_bit i (resuming_ports s)\<rparr>)))"
  obtain ws where "writes (snd (check_reset_complete x c i (ehci_readl ?s1 (PORTSC i)) ?s1))
      = writes ?s1 @ ws"
    using crc_writes by blast
  then show ?thesis
    using True by (simp add: get_port_status_reset_def Let_def flag_bit split_def)
qed

lemma idle_fields:
  "suspended_ports (get_port_status_idle i temp s) = suspended_ports s"
  "port_c_suspend (get_port_status_idle i temp s) = port_c_suspend s"
  "rh_timer (get_port_status_idle i temp s) = rh_timer s"
  "jiffies (get_port_status_idle i temp s) = jiffies s"
  "writes (get_port_status_idle i temp s) = writes s"
  "port_status (get_port_status_idle i temp s) = port_status s"
  "hostpc (get_port_status_idle i temp s) = hostpc s"
  "resuming_ports (get_port_status_idle i temp s) =
     (if bit temp 6 \<or> bit temp 8 then resuming_ports s else clear_bit i (resuming_ports s))"
  "reset_done (get_port_status_idle i temp s) =
     (if bit temp 6 \<or> bit temp 8 then reset_done s else (reset_done s)(i := 0))"
  by (simp_all add: get_port_status_idle_def Let_def resume_or_reset)

lemma companion_result:
  "get_port_status_companion x c i temp s =
     (if bit temp 0 \<and> test_bit i (companion_ports c)
      then (hw_write x (PORTSC i) (port_status s i) ((temp AND NOT PORT_RWC_BITS) OR PORT_OWNER),
            ehci_writel x ((temp AND NOT PORT_RWC_BITS) OR PORT_OWNER) (PORTSC i) s)
      else (temp, s))"
  by (simp add: get_port_status_companion_def Let_def flag_bit)

lemma companion_fields:
  "suspended_ports (snd (get_port_status_companion x c i temp s)) = suspended_ports s"
  "resuming_ports (snd (get_port_status_companion x c i temp s)) = resuming_ports s"
  "port_c_suspend (snd (get_port_status_companion x c i temp s)) = port_c_suspend s"
  "reset_done (snd (get_port_status_companion x c i temp s)) = reset_done s"
  "rh_timer (snd (get_port_status_companion x c i temp s)) = rh_timer s"
  "\<exists>ws. writes (snd (get_port_status_companion x c i temp s)) = writes s @ ws"
  by (simp_all add: companion_result)

lemma compose_fields:
  "rh_timer (snd (get_port_status_compose c i temp status s)) = rh_timer s"
  "writes (snd (get_port_status_compose c i temp status s)) = writes s"
  by (simp_all add: compose_state)

text \<open>GetPortStatus as the sequence of its blocks.\<close>

lemma get_port_status_unfold:
  "get_port_status x c i s =
     (let a = get_port_status_oc x c i s;
          b = get_port_status_resume x i (fst a) (snd (snd a))
      in if fst b \<noteq> 0 then (- EPIPE, NoReply, snd (snd b))
         else
          (let r = get_port_status_reset x c i (fst (snd b)) (fst (snd a)) (snd (snd b))
           in if fst r \<noteq> 0 then (- EPIPE, NoReply, snd (snd (snd r)))
              else
               (let d = get_port_status_companion x c i (fst (snd r))
                          (get_port_status_idle i (fst (snd r)) (snd (snd (snd r))));
                    e = get_port_status_compose c i (fst d) (fst (snd (snd r))) (snd d)
                in (0, PortStatus (fst e), snd e))))"
  by (simp add: get_port_status_def get_port_status_resolve_def Let_def split_def)

lemma get_port_status_resolve_unfold:
  "get_port_status_resolve x c i s =
     (let a = get_port_status_oc x c i s;
          b = get_port_status_resume x i (fst a) (snd (snd a))
      in if fst b \<noteq> 0 then (fst b, fst (snd b), fst (snd a), snd (snd b))
         else
          (let r = get_port_status_reset x c i (fst (snd b)) (fst (snd a)) (snd (snd b))
           in if fst r \<noteq> 0 then r
              else
               (let d = get_port_status_companion x c i (fst (snd r))
                          (get_port_status_idle i (fst (snd r)) (snd (snd (snd r))))
                in (0, fst d, fst (snd (snd r)), snd d))))"
  by (simp add: get_port_status_resolve_def Let_def split_def)


lemma get_port_status_cases:
  assumes "a = get_port_status_oc x c i s"
    and "b = get_port_status_resume x i (fst a) (snd (snd a))"
    and "r = get_port_status_reset x c i (fst (snd b)) (fst (snd a)) (snd (snd b))"
    and "d = get_port_status_companion x c i (fst (snd r))
               (get_port_status_idle i (fst (snd r)) (snd (snd (snd r))))"
    and "e = get_port_status_compose c i (fst d) (fst (snd (snd r))) (snd d)"
  shows "get_port_status x c i s =
     (if fst b \<noteq> 0 then (- EPIPE, NoReply, snd (snd b))
      else if fst r \<noteq> 0 then (- EPIPE, NoReply, snd (snd (snd r)))
      else (0, PortStatus (fst e), snd e))"
  by (simp add: get_port_status_unfold Let_def assms)

lemma resolve_status_bits:
  assumes "get_port_status_resolve x c i s = (rv, temp, status, s1)" "bit status n"
  shows "n = 16 \<or> n = 17 \<or> n = 19 \<or> n = 20"
proof -
  let ?a = "get_port_status_oc x c i s"
  let ?b = "get_port_status_resume x i (fst ?a) (snd (snd ?a))"
  let ?r = "get_port_status_reset x c i (fst (snd ?b)) (fst (snd ?a)) (snd (snd ?b))"
  have "status = fst (snd ?a) \<or> status = fst (snd (snd ?r))"
    using assms(1) by (auto simp add: get_port_status_resolve_unfold Let_def split: if_splits)
  then show ?thesis
    using assms(2) by (auto simp add: oc_status reset_status)
qed

lemma test_bit_simps:
  "test_bit i (clear_bit i w) = False"
  "i < 32 \<Longrightarrow> test_bit i (set_bit i w) = True"
  "test_bit i (clear_bit j w) = (test_bit i w \<and> i \<noteq> j)"
  by (auto simp add: test_bit_def clear_bit_def bit_unset_bit_iff bit_set_bit_iff)

lemma get_port_status_suspend:
  assumes "i < HCS_N_PORTS (hcs_params c)"
    and "get_port_status_resolve x c i s = (0, temp, status, s1)"
  shows "\<exists>w s'. get_port_status x c i s = (0, PortStatus w, s')
       \<and> (w AND USB_PORT_STAT_SUSPEND \<noteq> 0 \<longleftrightarrow> temp AND (PORT_SUSPEND OR PORT_RESUME) \<noteq> 0)
       \<and> (temp AND (PORT_SUSPEND OR PORT_RESUME) = 0 \<and> test_bit i (suspended_ports s1) \<longrightarrow>
            \<not> test_bit i (suspended_ports s') \<and> \<not> test_bit i (resuming_ports s')
            \<and> reset_done s' i = 0
            \<and> (temp AND PORT_PE \<noteq> 0 \<longrightarrow>
                 test_bit i (port_c_suspend s')
                 \<and> w AND push_bit 16 USB_PORT_STAT_C_SUSPEND \<noteq> 0))
       \<and> (\<not> (temp AND (PORT_SUSPEND OR PORT_RESUME) = 0 \<and> test_bit i (suspended_ports s1))
            \<longrightarrow> s' = s1)"
proof -
  let ?e = "get_port_status_compose c i temp status s1"
  have i: "i < 32" using assms(1) HCS_N_PORTS_le [of "hcs_params c"] by simp
  have g: "get_port_status x c i s = (0, PortStatus (fst ?e), snd ?e)"
    using assms(2) by (simp add: get_port_status_def split_def Let_def)
  have n2: "\<not> bit status 2"
    using resolve_status_bits [OF assms(2), of 2] by auto
  have sp: "\<not> bit (ehci_port_speed c u) 2" for u
    using bit_port_speed [of c u 2] by auto
  have s: "fst ?e AND USB_PORT_STAT_SUSPEND \<noteq> 0 \<longleftrightarrow> temp AND (PORT_SUSPEND OR PORT_RESUME) \<noteq> 0"
    by (simp add: stat_flag compose_status susp_or_resume n2 sp)
  have l: "\<not> test_bit i (suspended_ports (snd ?e)) \<and> \<not> test_bit i (resuming_ports (snd ?e))
            \<and> reset_done (snd ?e) i = 0
            \<and> (temp AND PORT_PE \<noteq> 0 \<longrightarrow>
                 test_bit i (port_c_suspend (snd ?e))
                 \<and> fst ?e AND push_bit 16 USB_PORT_STAT_C_SUSPEND \<noteq> 0)"
    if "temp AND (PORT_SUSPEND OR PORT_RESUME) = 0" "test_bit i (suspended_ports s1)"
  proof -
    have st: "snd ?e = s1\<lparr>suspended_ports := clear_bit i (suspended_ports s1),
             resuming_ports := clear_bit i (resuming_ports s1),
             reset_done := (reset_done s1)(i := 0),
             port_c_suspend := (if bit temp 2 then set_bit i (port_c_suspend s1)
                                else port_c_suspend s1)\<rparr>"
      using that susp_or_resume [of temp] by (simp add: compose_state)
    have "bit temp 2 \<Longrightarrow> test_bit i (port_c_suspend (snd ?e))"
      using i by (simp add: st test_bit_simps)
    then show ?thesis
      using i by (auto simp add: stat_flag compose_status flag_bit) (simp_all add: st test_bit_simps)
  qed
  have k: "snd ?e = s1"
    if "\<not> (temp AND (PORT_SUSPEND OR PORT_RESUME) = 0 \<and> test_bit i (suspended_ports s1))"
    using that susp_or_resume [of temp] by (auto simp add: compose_state)
  show ?thesis
    using g s l k by blast
qed


lemma resolve_quiet:
  assumes "\<not> bit (port_status s i) 5 \<or> ignore_oc c \<or> \<not> bit (port_status s i) 4
            \<or> \<not> HCS_PPC (hcs_params c)"
    and "\<not> bit (port_status s i) 6" "\<not> bit (port_status s i) 8"
    and "\<not> (bit (port_status s i) 0 \<and> test_bit i (companion_ports c))"
  shows "get_port_status_resolve x c i s =
     (0, port_status s i, fst (snd (get_port_status_oc x c i s)),
      s\<lparr>reset_done := (reset_done s)(i := 0),
        resuming_ports := clear_bit i (resuming_ports s)\<rparr>)"
proof -
  have a: "fst (get_port_status_oc x c i s) = port_status s i"
    "snd (snd (get_port_status_oc x c i s)) = s"
    using assms(1) by (auto simp add: oc_result)
  show ?thesis
    using assms(2-4)
    by (auto simp add: get_port_status_resolve_unfold a resume_skip reset_skip companion_result
        get_port_status_idle_def resume_or_reset Let_def)
qed

subsection \<open>The suspend bit of the status word\<close>

text \<open>
  C7, as amended. For every in-range port, when the blocks that resolve pending
  transitions succeed and leave \<open>temp\<close> as the register value to report, GetPortStatus
  returns success with a status word that has the suspend bit if and only if \<open>temp\<close>
  shows the suspend or the resume bit. In the software-leftover case, where \<open>temp\<close>
  shows neither bit but the tracker still records the port as suspended, the suspend
  bit is therefore not reported; instead the tracker's suspended and resuming flags
  and the deadline of the port are cleared and, for an enabled port, the
  suspend-change flag is set and reported as C_SUSPEND in the same status word.
  Outside that case composing the status word changes nothing.
\<close>

theorem C7_suspend_bit:
  "unat wIndex = i + 1 \<and> i < HCS_N_PORTS (hcs_params c)
   \<and> get_port_status_resolve x c i s = (0, temp, status, s1) \<longrightarrow>
     (\<exists>w s'. ehci_hub_control x c GetPortStatus wValue wIndex s = (0, PortStatus w, s')
       \<and> (w AND USB_PORT_STAT_SUSPEND \<noteq> 0 \<longleftrightarrow> temp AND (PORT_SUSPEND OR PORT_RESUME) \<noteq> 0)
       \<and> (temp AND (PORT_SUSPEND OR PORT_RESUME) = 0 \<and> test_bit i (suspended_ports s1) \<longrightarrow>
            \<not> test_bit i (suspended_ports s') \<and> \<not> test_bit i (resuming_ports s')
            \<and> reset_done s' i = 0
            \<and> (temp AND PORT_PE \<noteq> 0 \<longrightarrow>
                 test_bit i (port_c_suspend s')
                 \<and> w AND push_bit 16 USB_PORT_STAT_C_SUSPEND \<noteq> 0))
       \<and> (\<not> (temp AND (PORT_SUSPEND OR PORT_RESUME) = 0 \<and> test_bit i (suspended_ports s1))
            \<longrightarrow> s' = s1))"
proof (intro impI, elim conjE)
  assume w: "unat wIndex = i + 1" and i: "i < HCS_N_PORTS (hcs_params c)"
    and r: "get_port_status_resolve x c i s = (0, temp, status, s1)"
  have "ehci_hub_control x c GetPortStatus wValue wIndex s = get_port_status x c i s"
    using w i by (auto simp add: hub_control_GetPortStatus)
  then show "\<exists>w s'. ehci_hub_control x c GetPortStatus wValue wIndex s = (0, PortStatus w, s')
       \<and> (w AND USB_PORT_STAT_SUSPEND \<noteq> 0 \<longleftrightarrow> temp AND (PORT_SUSPEND OR PORT_RESUME) \<noteq> 0)
       \<and> (temp AND (PORT_SUSPEND OR PORT_RESUME) = 0 \<and> test_bit i (suspended_ports s1) \<longrightarrow>
            \<not> test_bit i (suspended_ports s') \<and> \<not> test_bit i (resuming_ports s')
            \<and> reset_done s' i = 0
            \<and> (temp AND PORT_PE \<noteq> 0 \<longrightarrow>
                 test_bit i (port_c_suspend s')
                 \<and> w AND push_bit 16 USB_PORT_STAT_C_SUSPEND \<noteq> 0))
       \<and> (\<not> (temp AND (PORT_SUSPEND OR PORT_RESUME) = 0 \<and> test_bit i (suspended_ports s1))
            \<longrightarrow> s' = s1)"
    using get_port_status_suspend [OF i r] by simp
qed

text \<open>
  The theorem on the two-port controller with port 0 connected, enabled, powered and
  suspended in hardware: the status word has the suspend bit.
\<close>

theorem C7_witness:
  "unat (1 :: u16) = 0 + 1 \<and> (0 :: nat) < HCS_N_PORTS (hcs_params cfg2)
   \<and> fst (get_port_status_resolve ext_store cfg2 0
        (hcd2\<lparr>port_status := (\<lambda>i. if i = 0 then 0x1085 else 0)\<rparr>)) = 0
   \<and> fst (snd (get_port_status_resolve ext_store cfg2 0
        (hcd2\<lparr>port_status := (\<lambda>i. if i = 0 then 0x1085 else 0)\<rparr>))) = 0x1085
   \<and> (0x1085 :: u32) AND (PORT_SUSPEND OR PORT_RESUME) \<noteq> 0
   \<and> (\<exists>w s'. ehci_hub_control ext_store cfg2 GetPortStatus 0 1
              (hcd2\<lparr>port_status := (\<lambda>i. if i = 0 then 0x1085 else 0)\<rparr>)
            = (0, PortStatus w, s')
          \<and> w AND USB_PORT_STAT_SUSPEND \<noteq> 0)"
proof -
  let ?s = "hcd2\<lparr>port_status := (\<lambda>i. if i = 0 then 0x1085 else 0)\<rparr>"
  have p: "port_status ?s 0 = 0x1085" by simp
  have b: "\<not> bit (0x1085 :: u32) 5" "\<not> bit (0x1085 :: u32) 6" "\<not> bit (0x1085 :: u32) 8"
    "bit (0x1085 :: u32) 7"
    by simp_all
  have k: "\<not> test_bit 0 (companion_ports cfg2)" by (simp add: cfg2_def test_bit_def)
  have r: "get_port_status_resolve ext_store cfg2 0 ?s =
      (0, 0x1085, fst (snd (get_port_status_oc ext_store cfg2 0 ?s)),
       ?s\<lparr>reset_done := (reset_done ?s)(0 := 0),
          resuming_ports := clear_bit 0 (resuming_ports ?s)\<rparr>)"
    using resolve_quiet [of ?s 0 cfg2 ext_store] b k unfolding p by blast
  have h: "(0x1085 :: u32) AND (PORT_SUSPEND OR PORT_RESUME) \<noteq> 0"
    using b by (simp add: susp_or_resume)
  have c: "unat (1 :: u16) = 0 + 1" "(0 :: nat) < HCS_N_PORTS (hcs_params cfg2)"
    by (simp_all add: cfg2_def HCS_N_PORTS_def)
  have "\<exists>w s'. ehci_hub_control ext_store cfg2 GetPortStatus 0 1 ?s = (0, PortStatus w, s')
          \<and> w AND USB_PORT_STAT_SUSPEND \<noteq> 0"
    using C7_suspend_bit [of 1 0 cfg2 ext_store ?s "0x1085"
        "fst (snd (get_port_status_oc ext_store cfg2 0 ?s))"
        "?s\<lparr>reset_done := (reset_done ?s)(0 := 0),
          resuming_ports := clear_bit 0 (resuming_ports ?s)\<rparr>" 0] r h c
    by blast
  then show ?thesis using r h c by simp
qed

text \<open>
  The claim as stated fails in the software-leftover case: the tracker records port 0
  as suspended, the register (connected, enabled, powered) shows neither the suspend
  nor the resume bit, and the status word returned, \<open>0x40503\<close> (connection, enable,
  power, high speed and C_SUSPEND), does not have the suspend bit ("maybe the port was
  unsuspended without our knowledge").
\<close>

theorem C7_counterexample:
  "test_bit 0 (suspended_ports (hcd2\<lparr>port_status := (\<lambda>i. if i = 0 then 0x1005 else 0),
                                      suspended_ports := 1\<rparr>))
   \<and> port_status (hcd2\<lparr>port_status := (\<lambda>i. if i = 0 then 0x1005 else 0),
                        suspended_ports := 1\<rparr>) 0 AND (PORT_SUSPEND OR PORT_RESUME) = 0
   \<and> fst (ehci_hub_control ext_store cfg2 GetPortStatus 0 1
         (hcd2\<lparr>port_status := (\<lambda>i. if i = 0 then 0x1005 else 0), suspended_ports := 1\<rparr>)) = 0
   \<and> fst (snd (ehci_hub_control ext_store cfg2 GetPortStatus 0 1
         (hcd2\<lparr>port_status := (\<lambda>i. if i = 0 then 0x1005 else 0), suspended_ports := 1\<rparr>)))
       = PortStatus 0x40503
   \<and> (0x40503 :: u32) AND USB_PORT_STAT_SUSPEND = 0"
  by (simp add: hub_control_GetPortStatus get_port_status_unfold
      get_port_status_resolve_unfold get_port_status_oc_def get_port_status_resume_def
      get_port_status_reset_def get_port_status_idle_def get_port_status_companion_def
      get_port_status_compose_def Let_def cfg2_def hcd2_def ext_store_def
      HCS_N_PORTS_def test_bit_def time_after_eq_def
      PORT_RESUME_def PORT_RESET_def PORT_CONNECT_def PORT_OWNER_def PORT_POWER_def
      PORT_RWC_BITS_def PORT_CSC_def PORT_PEC_def PORT_OCC_def PORT_OC_def PORT_PE_def
      PORT_SUSPEND_def stat_bits ehci_port_speed_def ehci_is_TDI_def clear_bit_def)

subsection \<open>Over-current\<close>

lemma oc_fields:
  "suspended_ports (snd (snd (get_port_status_oc x c i s))) = suspended_ports s"
  "resuming_ports (snd (snd (get_port_status_oc x c i s))) = resuming_ports s"
  "port_c_suspend (snd (snd (get_port_status_oc x c i s))) = port_c_suspend s"
  "reset_done (snd (snd (get_port_status_oc x c i s))) = reset_done s"
  "rh_timer (snd (snd (get_port_status_oc x c i s))) = rh_timer s"
  "jiffies (snd (snd (get_port_status_oc x c i s))) = jiffies s"
  by (simp_all add: oc_result)

lemma oc_reads_register:
  "fst (get_port_status_oc x c i s) = port_status (snd (snd (get_port_status_oc x c i s))) i"
  by (simp add: oc_result)





lemma hub_control_GetPortStatus_port:
  "unat wIndex = i + 1 \<Longrightarrow> i < HCS_N_PORTS (hcs_params c) \<Longrightarrow>
   ehci_hub_control x c GetPortStatus wValue wIndex s = get_port_status x c i s"
  by (auto simp add: hub_control_GetPortStatus)








lemma compose_port_status:
  "port_status (snd (get_port_status_compose c i temp status s)) = port_status s"
  by (simp add: compose_state)





subsection \<open>Resume\<close>

lemma not_time_after_eq_20: "\<not> time_after_eq j (j + 20)"
proof -
  have "j - (j + 20) = (- 20 :: ulong)" by simp
  then show ?thesis by (simp add: time_after_eq_def)
qed

lemma test_bit_set_bit: "test_bit i w \<Longrightarrow> test_bit i (set_bit j w)"
  by (simp add: test_bit_def bit_set_bit_iff)


text \<open>What the blocks after the resume block preserve.\<close>

lemma after_resume:
  assumes "a = get_port_status_oc x c i s"
    and "b = get_port_status_resume x i (fst a) (snd (snd a))"
    and "s' = snd (snd (get_port_status x c i s))"
  shows "\<not> test_bit i (suspended_ports (snd (snd b))) \<Longrightarrow> \<not> test_bit i (suspended_ports s')"
    and "\<not> test_bit i (resuming_ports (snd (snd b))) \<Longrightarrow> \<not> test_bit i (resuming_ports s')"
    and "test_bit i (port_c_suspend (snd (snd b))) \<Longrightarrow> test_bit i (port_c_suspend s')"
    and "rh_timer s' = rh_timer (snd (snd b))"
    and "\<exists>ws. writes s' = writes (snd (snd b)) @ ws"
proof -
  define r where "r = get_port_status_reset x c i (fst (snd b)) (fst (snd a)) (snd (snd b))"
  define d where "d = get_port_status_companion x c i (fst (snd r))
                          (get_port_status_idle i (fst (snd r)) (snd (snd (snd r))))"
  define e where "e = get_port_status_compose c i (fst d) (fst (snd (snd r))) (snd d)"
  have s': "s' = (if fst b \<noteq> 0 then snd (snd b)
                  else if fst r \<noteq> 0 then snd (snd (snd r)) else snd e)"
    using get_port_status_cases [OF assms(1,2) r_def d_def e_def] by (simp add: assms(3))
  let ?sr = "snd (snd (snd r))"
  have r: "suspended_ports ?sr = suspended_ports (snd (snd b))"
    "port_c_suspend ?sr = port_c_suspend (snd (snd b))"
    "rh_timer ?sr = rh_timer (snd (snd b))"
    "test_bit i (resuming_ports ?sr) \<Longrightarrow> test_bit i (resuming_ports (snd (snd b)))"
    unfolding r_def by (simp_all add: reset_fields test_bit_simps split: if_splits)
  have d: "suspended_ports (snd d) = suspended_ports ?sr"
    "port_c_suspend (snd d) = port_c_suspend ?sr"
    "rh_timer (snd d) = rh_timer ?sr"
    "test_bit i (resuming_ports (snd d)) \<Longrightarrow> test_bit i (resuming_ports ?sr)"
    unfolding d_def
    by (simp_all add: companion_fields idle_fields test_bit_simps split: if_splits)
  have e: "test_bit i (suspended_ports (snd e)) \<Longrightarrow> test_bit i (suspended_ports (snd d))"
    "test_bit i (resuming_ports (snd e)) \<Longrightarrow> test_bit i (resuming_ports (snd d))"
    "test_bit i (port_c_suspend (snd d)) \<Longrightarrow> test_bit i (port_c_suspend (snd e))"
    "rh_timer (snd e) = rh_timer (snd d)"
    unfolding e_def
    by (simp_all add: compose_state test_bit_simps test_bit_set_bit split: if_splits)
  show "\<not> test_bit i (suspended_ports (snd (snd b))) \<Longrightarrow> \<not> test_bit i (suspended_ports s')"
    using r(1) d(1) e(1) by (auto simp add: s')
  show "\<not> test_bit i (resuming_ports (snd (snd b))) \<Longrightarrow> \<not> test_bit i (resuming_ports s')"
    using r(4) d(4) e(2) by (auto simp add: s')
  show "test_bit i (port_c_suspend (snd (snd b))) \<Longrightarrow> test_bit i (port_c_suspend s')"
    using r(2) d(2) e(3) by (auto simp add: s')
  show "rh_timer s' = rh_timer (snd (snd b))"
    using r(3) d(3) e(4) by (simp add: s')
  obtain wr where wr: "writes ?sr = writes (snd (snd b)) @ wr"
    unfolding r_def using reset_writes by blast
  obtain wd where wd: "writes (snd d) = writes ?sr @ wd"
    unfolding d_def
    using companion_fields(6) [of x c i "fst (snd r)"
        "get_port_status_idle i (fst (snd r)) (snd (snd (snd r)))"]
    by (auto simp add: idle_fields)
  have "writes (snd e) = writes (snd d)"
    unfolding e_def by (simp add: compose_fields)
  then show "\<exists>ws. writes s' = writes (snd (snd b)) @ ws"
    using wr wd by (auto simp add: s')
qed


lemma resume_armed:
  assumes "get_port_status_oc x c i s = (temp, status, s1)" "bit temp 6" "reset_done s i = 0"
    and "i < 32"
  shows "fst (get_port_status x c i s) = 0"
    and "rh_timer (snd (snd (get_port_status x c i s))) = Some (jiffies s + 20)"
    and "\<not> (bit temp 0 \<and> test_bit i (companion_ports c)) \<Longrightarrow>
         reset_done (snd (snd (get_port_status x c i s))) i = jiffies s + 20
         \<and> (\<exists>w. fst (snd (get_port_status x c i s)) = PortStatus w \<and> bit w 2)"
proof -
  define sb where "sb = s1\<lparr>reset_done := (reset_done s1)(i := jiffies s1 + 20),
                           rh_timer := Some (jiffies s1 + 20)\<rparr>"
  define d where "d = get_port_status_companion x c i temp sb"
  define e where "e = get_port_status_compose c i (fst d) status (snd d)"
  have s1: "reset_done s1 = reset_done s" "jiffies s1 = jiffies s"
    using oc_fields(4,6) [of x c i s] by (simp_all add: assms(1))
  have b: "get_port_status_resume x i temp s1 = (0, temp, sb)"
    using assms(2,3) by (simp add: resume_arm s1 sb_def)
  have r: "get_port_status_reset x c i temp status sb = (0, temp, status, sb)"
    by (rule reset_skip) (simp add: sb_def not_time_after_eq_20)
  have idle: "get_port_status_idle i temp sb = sb"
    using assms(2) by (simp add: get_port_status_idle_def resume_or_reset)
  have g: "get_port_status x c i s = (0, PortStatus (fst e), snd e)"
    by (simp add: get_port_status_unfold Let_def assms(1) b r idle d_def e_def)
  show "fst (get_port_status x c i s) = 0" by (simp add: g)
  show "rh_timer (snd (snd (get_port_status x c i s))) = Some (jiffies s + 20)"
    by (simp add: g e_def d_def compose_fields companion_fields sb_def s1)
  assume "\<not> (bit temp 0 \<and> test_bit i (companion_ports c))"
  then have d: "d = (temp, sb)" by (auto simp add: d_def companion_result)
  have "snd e = sb" using assms(2) by (simp add: e_def d compose_state)
  moreover have "bit (fst e) 2" using assms(2) by (simp add: e_def d compose_status)
  ultimately show "reset_done (snd (snd (get_port_status x c i s))) i = jiffies s + 20
         \<and> (\<exists>w. fst (snd (get_port_status x c i s)) = PortStatus w \<and> bit w 2)"
    by (simp add: g sb_def s1)
qed

lemma resume_armed_companion:
  assumes "get_port_status_oc x c i s = (temp, status, s1)" "bit temp 6" "reset_done s i = 0"
    and "bit temp 0" "test_bit i (companion_ports c)"
    and "v = (temp AND NOT PORT_RWC_BITS) OR PORT_OWNER"
    and "t = hw_write x (PORTSC i) temp v"
    and "s' = snd (snd (get_port_status x c i s))"
  shows "writes s' = writes s1 @ [(PORTSC i, v)]"
    and "port_status s' i = t"
    and "\<exists>w. fst (snd (get_port_status x c i s)) = PortStatus w \<and> (bit w 2 \<longleftrightarrow> bit t 7 \<or> bit t 6)"
    and "reset_done s' i =
           (if \<not> (bit t 7 \<or> bit t 6) \<and> test_bit i (suspended_ports s) then 0
            else jiffies s + 20)"
proof -
  define sb where "sb = s1\<lparr>reset_done := (reset_done s1)(i := jiffies s1 + 20),
                           rh_timer := Some (jiffies s1 + 20)\<rparr>"
  define d where "d = get_port_status_companion x c i temp sb"
  define e where "e = get_port_status_compose c i (fst d) status (snd d)"
  have s1: "reset_done s1 = reset_done s" "jiffies s1 = jiffies s"
    "suspended_ports s1 = suspended_ports s"
    using oc_fields(1,4,6) [of x c i s] by (simp_all add: assms(1))
  have reg: "port_status s1 i = temp"
    using oc_reads_register [of x c i s] by (simp add: assms(1))
  have st: "\<not> bit status 2"
    using oc_status [of x c i s 2] by (simp add: assms(1))
  have b: "get_port_status_resume x i temp s1 = (0, temp, sb)"
    using assms(2,3) by (simp add: resume_arm s1 sb_def)
  have r: "get_port_status_reset x c i temp status sb = (0, temp, status, sb)"
    by (rule reset_skip) (simp add: sb_def not_time_after_eq_20)
  have idle: "get_port_status_idle i temp sb = sb"
    using assms(2) by (simp add: get_port_status_idle_def resume_or_reset)
  have g: "get_port_status x c i s = (0, PortStatus (fst e), snd e)"
    by (simp add: get_port_status_unfold Let_def assms(1) b r idle d_def e_def)
  have d: "d = (t, ehci_writel x v (PORTSC i) sb)"
    using assms(4,5) by (simp add: d_def companion_result assms(6,7) sb_def reg)
  have sp: "\<not> bit (ehci_port_speed c u) 2" for u
    using bit_port_speed [of c u 2] by auto
  have s': "s' = snd e" by (simp add: assms(8) g)
  show "writes s' = writes s1 @ [(PORTSC i, v)]"
    by (simp add: s' e_def d compose_fields sb_def)
  show "port_status s' i = t"
    by (simp add: s' e_def d compose_port_status sb_def reg assms(7))
  have "bit (fst e) 2 \<longleftrightarrow> bit t 7 \<or> bit t 6"
    by (simp add: e_def d compose_status st sp)
  then show "\<exists>w. fst (snd (get_port_status x c i s)) = PortStatus w \<and> (bit w 2 \<longleftrightarrow> bit t 7 \<or> bit t 6)"
    by (simp add: g)
  show "reset_done s' i =
           (if \<not> (bit t 7 \<or> bit t 6) \<and> test_bit i (suspended_ports s) then 0
            else jiffies s + 20)"
    by (simp add: s' e_def d compose_state sb_def s1)
qed

lemma resume_completed:
  assumes "get_port_status_oc x c i s = (temp, status, s1)" "bit temp 6"
    and "reset_done s i \<noteq> 0" "time_after_eq (jiffies s) (reset_done s i)" "i < 32"
    and "v = port_status s1 i AND NOT (PORT_RWC_BITS OR PORT_RESUME)"
    and "s' = snd (snd (get_port_status x c i s))"
  shows "\<not> test_bit i (suspended_ports s')" "\<not> test_bit i (resuming_ports s')"
    "test_bit i (port_c_suspend s')"
    "\<exists>rest. writes s' = writes s1 @ (PORTSC i, v) # rest"
    "fst (hw_handshake x (PORTSC i) (hw_write x (PORTSC i) (port_status s1 i) v)
           PORT_RESUME 0 2000) \<noteq> 0 \<Longrightarrow>
       fst (get_port_status x c i s) = - EPIPE \<and> fst (snd (get_port_status x c i s)) = NoReply"
proof -
  define a where "a = get_port_status_oc x c i s"
  define b where "b = get_port_status_resume x i (fst a) (snd (snd a))"
  have a: "fst a = temp" "snd (snd a) = s1" by (simp_all add: a_def assms(1))
  have s1: "reset_done s1 = reset_done s" "jiffies s1 = jiffies s"
    using oc_fields(4,6) [of x c i s] by (simp_all add: assms(1))
  have c: "bit temp 6" "reset_done s1 i \<noteq> 0" "time_after_eq (jiffies s1) (reset_done s1 i)"
    using assms(2-4) by (simp_all add: s1)
  have b': "b = get_port_status_resume x i temp s1" by (simp add: b_def a)
  note rc = resume_complete [OF c assms(6) refl, of x, folded b']
  note ar = after_resume [OF a_def b_def assms(7)]
  show "\<not> test_bit i (suspended_ports s')"
    by (rule ar(1)) (simp add: rc(3) test_bit_simps)
  show "\<not> test_bit i (resuming_ports s')"
    by (rule ar(2)) (simp add: rc(4) test_bit_simps)
  show "test_bit i (port_c_suspend s')"
    by (rule ar(3)) (simp add: rc(5) test_bit_simps assms(5))
  show "\<exists>rest. writes s' = writes s1 @ (PORTSC i, v) # rest"
    using ar(5) by (auto simp add: rc(9))
  assume "fst (hw_handshake x (PORTSC i) (hw_write x (PORTSC i) (port_status s1 i) v)
           PORT_RESUME 0 2000) \<noteq> 0"
  then have "fst b \<noteq> 0" by (simp add: rc(1))
  then show "fst (get_port_status x c i s) = - EPIPE \<and> fst (snd (get_port_status x c i s)) = NoReply"
    by (simp add: get_port_status_unfold Let_def a_def [symmetric] b_def [symmetric])
qed

text \<open>
  C2, as amended. For every in-range port, when GetPortStatus, after the over-current
  block, holds a register value \<open>temp\<close> with the resume bit set. If no completion
  deadline is recorded for the port, the request succeeds and the root-hub timer is set
  to 20 time units from now. Unless the port is connected and statically routed to the
  companion controller, the deadline of the port is that same time and the status word
  returned has the suspend bit. A connected port routed to the companion is handed
  over in the same request: the one register write that follows is \<open>temp\<close> with the
  ownership bit set and the write-to-clear bits cleared, the register then holds the
  value \<open>t\<close> the hardware makes of it, and the status word is composed from \<open>t\<close>: it
  has the suspend bit if and only if \<open>t\<close> shows the suspend or the resume bit, and
  the deadline is 20 time units from now unless \<open>t\<close> shows neither and the tracker
  records the port as suspended, in which case the deadline is cleared again. If a
  deadline is recorded and has elapsed, the suspended and resuming flags of the port
  are clear and its suspend-change flag is set afterwards, the next register write of
  the request is the port register's value with the resume bit and the write-to-clear
  bits cleared, and if the handshake on the resume bit (2000 microseconds) then fails,
  GetPortStatus fails with the stall error and returns no status word.
\<close>

theorem C2_resume_observed:
  "unat wIndex = i + 1 \<and> i < HCS_N_PORTS (hcs_params c)
   \<and> get_port_status_oc x c i s = (temp, status, s1) \<and> temp AND PORT_RESUME \<noteq> 0
   \<and> ehci_hub_control x c GetPortStatus wValue wIndex s = (retval, reply, s') \<longrightarrow>
     (reset_done s i = 0 \<longrightarrow>
        retval = 0 \<and> rh_timer s' = Some (jiffies s + 20)
        \<and> (\<not> (temp AND PORT_CONNECT \<noteq> 0 \<and> test_bit i (companion_ports c)) \<longrightarrow>
             reset_done s' i = jiffies s + 20
             \<and> (\<exists>w. reply = PortStatus w \<and> w AND USB_PORT_STAT_SUSPEND \<noteq> 0))
        \<and> (temp AND PORT_CONNECT \<noteq> 0 \<and> test_bit i (companion_ports c) \<longrightarrow>
             (let v = (temp AND NOT PORT_RWC_BITS) OR PORT_OWNER;
                  t = hw_write x (PORTSC i) temp v
              in writes s' = writes s1 @ [(PORTSC i, v)] \<and> port_status s' i = t
                 \<and> (\<exists>w. reply = PortStatus w
                        \<and> (w AND USB_PORT_STAT_SUSPEND \<noteq> 0 \<longleftrightarrow>
                             t AND (PORT_SUSPEND OR PORT_RESUME) \<noteq> 0))
                 \<and> reset_done s' i =
                     (if t AND (PORT_SUSPEND OR PORT_RESUME) = 0 \<and> test_bit i (suspended_ports s)
                      then 0 else jiffies s + 20))))
   \<and> (reset_done s i \<noteq> 0 \<and> time_after_eq (jiffies s) (reset_done s i) \<longrightarrow>
        \<not> test_bit i (suspended_ports s') \<and> \<not> test_bit i (resuming_ports s')
        \<and> test_bit i (port_c_suspend s')
        \<and> (\<exists>rest. writes s' =
               writes s1 @ (PORTSC i, port_status s1 i AND NOT (PORT_RWC_BITS OR PORT_RESUME)) # rest)
        \<and> (port_status s1 i AND NOT (PORT_RWC_BITS OR PORT_RESUME)) AND PORT_RESUME = 0
        \<and> (fst (hw_handshake x (PORTSC i)
                   (hw_write x (PORTSC i) (port_status s1 i)
                      (port_status s1 i AND NOT (PORT_RWC_BITS OR PORT_RESUME)))
                   PORT_RESUME 0 2000) \<noteq> 0 \<longrightarrow>
             retval = - EPIPE \<and> reply = NoReply))"
proof (intro impI, elim conjE)
  assume w: "unat wIndex = i + 1" and i: "i < HCS_N_PORTS (hcs_params c)"
    and oc: "get_port_status_oc x c i s = (temp, status, s1)"
    and rs: "temp AND PORT_RESUME \<noteq> 0"
    and res: "ehci_hub_control x c GetPortStatus wValue wIndex s = (retval, reply, s')"
  have g: "get_port_status x c i s = (retval, reply, s')"
    using res by (simp add: hub_control_GetPortStatus_port [OF w i])
  have i32: "i < 32" using i HCS_N_PORTS_le [of "hcs_params c"] by simp
  have b6: "bit temp 6" using rs by (simp add: flag_bit)
  have s': "s' = snd (snd (get_port_status x c i s))" by (simp add: g)
  have arm: "retval = 0 \<and> rh_timer s' = Some (jiffies s + 20)
        \<and> (\<not> (temp AND PORT_CONNECT \<noteq> 0 \<and> test_bit i (companion_ports c)) \<longrightarrow>
             reset_done s' i = jiffies s + 20
             \<and> (\<exists>w. reply = PortStatus w \<and> w AND USB_PORT_STAT_SUSPEND \<noteq> 0))"
    if "reset_done s i = 0"
    using resume_armed [OF oc b6 that i32] by (simp add: g flag_bit stat_flag)
  have comp: "(let v = (temp AND NOT PORT_RWC_BITS) OR PORT_OWNER;
                  t = hw_write x (PORTSC i) temp v
              in writes s' = writes s1 @ [(PORTSC i, v)] \<and> port_status s' i = t
                 \<and> (\<exists>w. reply = PortStatus w
                        \<and> (w AND USB_PORT_STAT_SUSPEND \<noteq> 0 \<longleftrightarrow>
                             t AND (PORT_SUSPEND OR PORT_RESUME) \<noteq> 0))
                 \<and> reset_done s' i =
                     (if t AND (PORT_SUSPEND OR PORT_RESUME) = 0 \<and> test_bit i (suspended_ports s)
                      then 0 else jiffies s + 20))"
    if z: "reset_done s i = 0"
      and k: "temp AND PORT_CONNECT \<noteq> 0" "test_bit i (companion_ports c)"
  proof -
    have b0: "bit temp 0" using k(1) by (simp add: flag_bit)
    have z0: "(u AND (PORT_SUSPEND OR PORT_RESUME) = 0) = (\<not> (bit u 7 \<or> bit u 6))" for u
      using susp_or_resume [of u] by blast
    note rc = resume_armed_companion [OF oc b6 z b0 k(2) refl refl s']
    show ?thesis
      using rc by (simp add: Let_def g stat_flag susp_or_resume z0)
  qed
  have fin: "\<not> test_bit i (suspended_ports s') \<and> \<not> test_bit i (resuming_ports s')
        \<and> test_bit i (port_c_suspend s')
        \<and> (\<exists>rest. writes s' =
               writes s1 @ (PORTSC i, port_status s1 i AND NOT (PORT_RWC_BITS OR PORT_RESUME)) # rest)
        \<and> (port_status s1 i AND NOT (PORT_RWC_BITS OR PORT_RESUME)) AND PORT_RESUME = 0
        \<and> (fst (hw_handshake x (PORTSC i)
                   (hw_write x (PORTSC i) (port_status s1 i)
                      (port_status s1 i AND NOT (PORT_RWC_BITS OR PORT_RESUME)))
                   PORT_RESUME 0 2000) \<noteq> 0 \<longrightarrow>
             retval = - EPIPE \<and> reply = NoReply)"
    if "reset_done s i \<noteq> 0" "time_after_eq (jiffies s) (reset_done s i)"
  proof -
    have "(port_status s1 i AND NOT (PORT_RWC_BITS OR PORT_RESUME)) AND PORT_RESUME = 0"
      by (simp add: bit_view)
    then show ?thesis
      using resume_completed [OF oc b6 that i32 refl s'] by (simp add: g)
  qed
  show "(reset_done s i = 0 \<longrightarrow>
        retval = 0 \<and> rh_timer s' = Some (jiffies s + 20)
        \<and> (\<not> (temp AND PORT_CONNECT \<noteq> 0 \<and> test_bit i (companion_ports c)) \<longrightarrow>
             reset_done s' i = jiffies s + 20
             \<and> (\<exists>w. reply = PortStatus w \<and> w AND USB_PORT_STAT_SUSPEND \<noteq> 0))
        \<and> (temp AND PORT_CONNECT \<noteq> 0 \<and> test_bit i (companion_ports c) \<longrightarrow>
             (let v = (temp AND NOT PORT_RWC_BITS) OR PORT_OWNER;
                  t = hw_write x (PORTSC i) temp v
              in writes s' = writes s1 @ [(PORTSC i, v)] \<and> port_status s' i = t
                 \<and> (\<exists>w. reply = PortStatus w
                        \<and> (w AND USB_PORT_STAT_SUSPEND \<noteq> 0 \<longleftrightarrow>
                             t AND (PORT_SUSPEND OR PORT_RESUME) \<noteq> 0))
                 \<and> reset_done s' i =
                     (if t AND (PORT_SUSPEND OR PORT_RESUME) = 0 \<and> test_bit i (suspended_ports s)
                      then 0 else jiffies s + 20))))
   \<and> (reset_done s i \<noteq> 0 \<and> time_after_eq (jiffies s) (reset_done s i) \<longrightarrow>
        \<not> test_bit i (suspended_ports s') \<and> \<not> test_bit i (resuming_ports s')
        \<and> test_bit i (port_c_suspend s')
        \<and> (\<exists>rest. writes s' =
               writes s1 @ (PORTSC i, port_status s1 i AND NOT (PORT_RWC_BITS OR PORT_RESUME)) # rest)
        \<and> (port_status s1 i AND NOT (PORT_RWC_BITS OR PORT_RESUME)) AND PORT_RESUME = 0
        \<and> (fst (hw_handshake x (PORTSC i)
                   (hw_write x (PORTSC i) (port_status s1 i)
                      (port_status s1 i AND NOT (PORT_RWC_BITS OR PORT_RESUME)))
                   PORT_RESUME 0 2000) \<noteq> 0 \<longrightarrow>
             retval = - EPIPE \<and> reply = NoReply))"
    using arm comp fin by blast
qed

text \<open>
  The theorem on the two-port controller with port 0 connected, enabled, powered and
  resuming (\<open>0x1045\<close>): with no deadline recorded, the deadline and the timer become
  1020 and the suspend bit is reported; the same when the port is routed to the
  companion and the register keeps what is written to it, after the write of
  \<open>0x3045\<close>; with the deadline 900 elapsed at time 1000, the flags are updated and
  \<open>0x1005\<close> is written to the port register.
\<close>

theorem C2_witness:
  "unat (1 :: u16) = 0 + 1 \<and> (0 :: nat) < HCS_N_PORTS (hcs_params cfg2)
   \<and> port_status (hcd2\<lparr>port_status := (\<lambda>i. if i = 0 then 0x1045 else 0)\<rparr>) 0 AND PORT_RESUME \<noteq> 0
   \<and> reset_done (hcd2\<lparr>port_status := (\<lambda>i. if i = 0 then 0x1045 else 0)\<rparr>) 0 = 0
   \<and> fst (ehci_hub_control ext_store cfg2 GetPortStatus 0 1
         (hcd2\<lparr>port_status := (\<lambda>i. if i = 0 then 0x1045 else 0)\<rparr>)) = 0
   \<and> rh_timer (snd (snd (ehci_hub_control ext_store cfg2 GetPortStatus 0 1
         (hcd2\<lparr>port_status := (\<lambda>i. if i = 0 then 0x1045 else 0)\<rparr>)))) = Some 1020
   \<and> reset_done (snd (snd (ehci_hub_control ext_store cfg2 GetPortStatus 0 1
         (hcd2\<lparr>port_status := (\<lambda>i. if i = 0 then 0x1045 else 0)\<rparr>)))) 0 = 1020
   \<and> (\<exists>w. fst (snd (ehci_hub_control ext_store cfg2 GetPortStatus 0 1
                (hcd2\<lparr>port_status := (\<lambda>i. if i = 0 then 0x1045 else 0)\<rparr>))) = PortStatus w
          \<and> w AND USB_PORT_STAT_SUSPEND \<noteq> 0)
   \<and> test_bit 0 (companion_ports (cfg2\<lparr>companion_ports := 1\<rparr>))
   \<and> port_status (hcd2\<lparr>port_status := (\<lambda>i. if i = 0 then 0x1045 else 0)\<rparr>) 0 AND PORT_CONNECT \<noteq> 0
   \<and> writes (snd (snd (ehci_hub_control ext_store (cfg2\<lparr>companion_ports := 1\<rparr>) GetPortStatus 0 1
         (hcd2\<lparr>port_status := (\<lambda>i. if i = 0 then 0x1045 else 0)\<rparr>)))) = [(PORTSC 0, 0x3045)]
   \<and> port_status (snd (snd (ehci_hub_control ext_store (cfg2\<lparr>companion_ports := 1\<rparr>)
         GetPortStatus 0 1 (hcd2\<lparr>port_status := (\<lambda>i. if i = 0 then 0x1045 else 0)\<rparr>)))) 0 = 0x3045
   \<and> reset_done (snd (snd (ehci_hub_control ext_store (cfg2\<lparr>companion_ports := 1\<rparr>)
         GetPortStatus 0 1 (hcd2\<lparr>port_status := (\<lambda>i. if i = 0 then 0x1045 else 0)\<rparr>)))) 0 = 1020
   \<and> (\<exists>w. fst (snd (ehci_hub_control ext_store (cfg2\<lparr>companion_ports := 1\<rparr>) GetPortStatus 0 1
                (hcd2\<lparr>port_status := (\<lambda>i. if i = 0 then 0x1045 else 0)\<rparr>))) = PortStatus w
          \<and> w AND USB_PORT_STAT_SUSPEND \<noteq> 0)
   \<and> reset_done (hcd2\<lparr>port_status := (\<lambda>i. if i = 0 then 0x1045 else 0),
                      reset_done := (\<lambda>i. if i = 0 then 900 else 0),
                      suspended_ports := 1, resuming_ports := 1\<rparr>) 0 \<noteq> 0
   \<and> time_after_eq 1000 900
   \<and> \<not> test_bit 0 (suspended_ports (snd (snd (ehci_hub_control ext_store cfg2 GetPortStatus 0 1
         (hcd2\<lparr>port_status := (\<lambda>i. if i = 0 then 0x1045 else 0),
               reset_done := (\<lambda>i. if i = 0 then 900 else 0),
               suspended_ports := 1, resuming_ports := 1\<rparr>)))))
   \<and> \<not> test_bit 0 (resuming_ports (snd (snd (ehci_hub_control ext_store cfg2 GetPortStatus 0 1
         (hcd2\<lparr>port_status := (\<lambda>i. if i = 0 then 0x1045 else 0),
               reset_done := (\<lambda>i. if i = 0 then 900 else 0),
               suspended_ports := 1, resuming_ports := 1\<rparr>)))))
   \<and> test_bit 0 (port_c_suspend (snd (snd (ehci_hub_control ext_store cfg2 GetPortStatus 0 1
         (hcd2\<lparr>port_status := (\<lambda>i. if i = 0 then 0x1045 else 0),
               reset_done := (\<lambda>i. if i = 0 then 900 else 0),
               suspended_ports := 1, resuming_ports := 1\<rparr>)))))
   \<and> (\<exists>rest. writes (snd (snd (ehci_hub_control ext_store cfg2 GetPortStatus 0 1
         (hcd2\<lparr>port_status := (\<lambda>i. if i = 0 then 0x1045 else 0),
               reset_done := (\<lambda>i. if i = 0 then 900 else 0),
               suspended_ports := 1, resuming_ports := 1\<rparr>)))) = (PORTSC 0, 0x1005) # rest)"
proof -
  let ?a = "hcd2\<lparr>port_status := (\<lambda>i. if i = 0 then 0x1045 else 0)\<rparr>"
  let ?b = "hcd2\<lparr>port_status := (\<lambda>i. if i = 0 then 0x1045 else 0),
                 reset_done := (\<lambda>i. if i = 0 then 900 else 0),
                 suspended_ports := 1, resuming_ports := 1\<rparr>"
  let ?k = "cfg2\<lparr>companion_ports := 1\<rparr>"
  let ?ra = "ehci_hub_control ext_store cfg2 GetPortStatus 0 1 ?a"
  let ?rb = "ehci_hub_control ext_store cfg2 GetPortStatus 0 1 ?b"
  let ?rc = "ehci_hub_control ext_store ?k GetPortStatus 0 1 ?a"
  have b: "\<not> bit (0x1045 :: u32) 5" by simp
  have oa: "get_port_status_oc ext_store cfg2 0 ?a = (0x1045, fst (snd (get_port_status_oc ext_store cfg2 0 ?a)), ?a)"
    using oc_result [of ext_store cfg2 0 ?a] b
    by (cases "get_port_status_oc ext_store cfg2 0 ?a") simp
  have ob: "get_port_status_oc ext_store cfg2 0 ?b = (0x1045, fst (snd (get_port_status_oc ext_store cfg2 0 ?b)), ?b)"
    using oc_result [of ext_store cfg2 0 ?b] b
    by (cases "get_port_status_oc ext_store cfg2 0 ?b") simp
  have oc: "get_port_status_oc ext_store ?k 0 ?a = (0x1045, fst (snd (get_port_status_oc ext_store ?k 0 ?a)), ?a)"
    using oc_result [of ext_store ?k 0 ?a] b
    by (cases "get_port_status_oc ext_store ?k 0 ?a") simp
  have h: "unat (1 :: u16) = 0 + 1" "(0 :: nat) < HCS_N_PORTS (hcs_params cfg2)"
    "(0 :: nat) < HCS_N_PORTS (hcs_params ?k)"
    "(0x1045 :: u32) AND PORT_RESUME \<noteq> 0" "\<not> test_bit 0 (companion_ports cfg2)"
    "test_bit 0 (companion_ports ?k)" "(0x1045 :: u32) AND PORT_CONNECT \<noteq> 0"
    "time_after_eq 1000 900"
    "(0x1045 :: u32) AND NOT (PORT_RWC_BITS OR PORT_RESUME) = 0x1005"
    "((0x1045 :: u32) AND NOT PORT_RWC_BITS) OR PORT_OWNER = 0x3045"
    "(0x3045 :: u32) AND (PORT_SUSPEND OR PORT_RESUME) \<noteq> 0"
    "hw_write ext_store (PORTSC 0) 0x1045 0x3045 = 0x3045"
    by (simp_all add: cfg2_def HCS_N_PORTS_def PORT_RESUME_def test_bit_def time_after_eq_def
        PORT_RWC_BITS_def PORT_CSC_def PORT_PEC_def PORT_OCC_def PORT_CONNECT_def PORT_OWNER_def
        PORT_SUSPEND_def ext_store_def)
  have f: "reset_done ?a 0 = 0" "jiffies ?a = 1000" "reset_done ?b 0 = 900" "jiffies ?b = 1000"
    "writes ?b = []" "writes ?a = []" "port_status ?a 0 = 0x1045" "port_status ?b 0 = 0x1045"
    by (simp_all add: hcd2_def)
  have A: "fst ?ra = 0 \<and> rh_timer (snd (snd ?ra)) = Some 1020
      \<and> reset_done (snd (snd ?ra)) 0 = 1020
      \<and> (\<exists>w. fst (snd ?ra) = PortStatus w \<and> w AND USB_PORT_STAT_SUSPEND \<noteq> 0)"
    using C2_resume_observed [of 1 0 cfg2 ext_store ?a "0x1045" _ ?a 0 "fst ?ra" "fst (snd ?ra)"
        "snd (snd ?ra)"] oa h unfolding f by simp
  have B: "\<not> test_bit 0 (suspended_ports (snd (snd ?rb)))
      \<and> \<not> test_bit 0 (resuming_ports (snd (snd ?rb)))
      \<and> test_bit 0 (port_c_suspend (snd (snd ?rb)))
      \<and> (\<exists>rest. writes (snd (snd ?rb)) = (PORTSC 0, 0x1005) # rest)"
    using C2_resume_observed [of 1 0 cfg2 ext_store ?b "0x1045" _ ?b 0 "fst ?rb" "fst (snd ?rb)"
        "snd (snd ?rb)"] ob h unfolding f by simp
  have C: "writes (snd (snd ?rc)) = [(PORTSC 0, 0x3045)]
      \<and> port_status (snd (snd ?rc)) 0 = 0x3045
      \<and> reset_done (snd (snd ?rc)) 0 = 1020
      \<and> (\<exists>w. fst (snd ?rc) = PortStatus w \<and> w AND USB_PORT_STAT_SUSPEND \<noteq> 0)"
    using C2_resume_observed [of 1 0 ?k ext_store ?a "0x1045" _ ?a 0 "fst ?rc" "fst (snd ?rc)"
        "snd (snd ?rc)"] oc h unfolding f Let_def by simp
  show ?thesis using A B C h f by simp
qed

text \<open>
  The claim as stated fails for a port that is statically routed to the companion
  controller: port 0 shows connect, resume and power (\<open>0x1041\<close>), has no deadline and
  is recorded as suspended. The request arms the deadline, then hands the port over;
  the register read after the ownership write shows only the ownership and power
  bits, the status word returned, \<open>0x100\<close>, does not have the suspend bit, and no
  deadline is recorded when the request returns.
\<close>

theorem C2_counterexample:
  "unat (1 :: u16) = 0 + 1 \<and> (0 :: nat) < HCS_N_PORTS (hcs_params (cfg2\<lparr>companion_ports := 1\<rparr>))
   \<and> port_status (hcd2\<lparr>port_status := (\<lambda>i. if i = 0 then 0x1041 else 0),
                        suspended_ports := 1\<rparr>) 0 AND PORT_RESUME \<noteq> 0
   \<and> reset_done (hcd2\<lparr>port_status := (\<lambda>i. if i = 0 then 0x1041 else 0),
                      suspended_ports := 1\<rparr>) 0 = 0
   \<and> fst (ehci_hub_control ext_owner (cfg2\<lparr>companion_ports := 1\<rparr>) GetPortStatus 0 1
         (hcd2\<lparr>port_status := (\<lambda>i. if i = 0 then 0x1041 else 0), suspended_ports := 1\<rparr>)) = 0
   \<and> fst (snd (ehci_hub_control ext_owner (cfg2\<lparr>companion_ports := 1\<rparr>) GetPortStatus 0 1
         (hcd2\<lparr>port_status := (\<lambda>i. if i = 0 then 0x1041 else 0), suspended_ports := 1\<rparr>)))
       = PortStatus 0x100
   \<and> (0x100 :: u32) AND USB_PORT_STAT_SUSPEND = 0
   \<and> reset_done (snd (snd (ehci_hub_control ext_owner (cfg2\<lparr>companion_ports := 1\<rparr>)
         GetPortStatus 0 1
         (hcd2\<lparr>port_status := (\<lambda>i. if i = 0 then 0x1041 else 0), suspended_ports := 1\<rparr>)))) 0 = 0"
  by (simp add: hub_control_GetPortStatus_port [of 1 0] get_port_status_unfold
      get_port_status_resolve_unfold get_port_status_oc_def get_port_status_resume_def
      get_port_status_reset_def get_port_status_idle_def get_port_status_companion_def
      get_port_status_compose_def Let_def cfg2_def hcd2_def ext_owner_def ext_store_def
      HCS_N_PORTS_def test_bit_def time_after_eq_def msecs_to_jiffies_def
      PORT_RESUME_def PORT_RESET_def PORT_CONNECT_def PORT_OWNER_def PORT_POWER_def
      PORT_RWC_BITS_def PORT_CSC_def PORT_PEC_def PORT_OCC_def PORT_OC_def PORT_PE_def
      PORT_SUSPEND_def stat_bits ehci_port_speed_def ehci_writel_def ehci_readl_def
      reg_store_def USB_PORT_STAT_SUSPEND_def clear_bit_def)

end
